theory Spec2Isabelle
  imports Complex_Main "HOL-Library.Char_ord" "HOL-Library.List_Lexorder"
begin

section \<open>Python values shared by the whole script\<close>

text \<open>
  Exceptions of \<^verbatim>\<open>script.py\<close> and of the library calls it makes are values: a
  function that can raise returns \<open>error + 'a\<close>, with \<open>Inl\<close> for the exception.
  \<open>OSError\<close> stands for \<^verbatim>\<open>FileNotFoundError\<close> and the other subclasses that \<^verbatim>\<open>os.listdir\<close>,
  \<^verbatim>\<open>open\<close> and \<^verbatim>\<open>Image.open\<close> raise for a path they cannot read. \<open>ShapeMismatch\<close> is the
  \<^verbatim>\<open>RuntimeError\<close> that \<^verbatim>\<open>load_state_dict\<close> (strict) raises for missing keys, unexpected
  keys and size mismatches.
\<close>

datatype error =
    IndexError
  | TypeError
  | ValueError
  | ZeroDivisionError
  | OSError
  | JSONDecodeError
  | UnicodeDecodeError
  | UnpicklingError
  | ShapeMismatch
  | EinopsError
  | RuntimeError

text \<open>\<^verbatim>\<open>xs[i]\<close> on a list or tuple: negative indices count from the end.\<close>

definition py_getitem :: "'a list \<Rightarrow> int \<Rightarrow> error + 'a" where
  "py_getitem xs i =
     (if 0 \<le> i \<and> i < int (length xs) then Inr (xs ! nat i)
      else if i < 0 \<and> - int (length xs) \<le> i then Inr (xs ! nat (int (length xs) + i))
      else Inl IndexError)"

text \<open>\<^verbatim>\<open>xs[:n]\<close>: never raises; a negative bound counts from the end.\<close>

definition py_slice_to :: "'a list \<Rightarrow> int \<Rightarrow> 'a list" where
  "py_slice_to xs n =
     (if 0 \<le> n then take (nat n) xs else take (nat (int (length xs) + n)) xs)"

text \<open>\<^verbatim>\<open>str(n)\<close> for an integer, as the f-strings of the script print it.\<close>

definition digit_char :: "nat \<Rightarrow> char" where
  "digit_char d = ''0123456789'' ! (d mod 10)"

fun str_nat :: "nat \<Rightarrow> string" where
  "str_nat n = (if n < 10 then [digit_char n] else str_nat (n div 10) @ [digit_char (n mod 10)])"

declare str_nat.simps [simp del]

definition str_int :: "int \<Rightarrow> string" where
  "str_int i = (if i < 0 then CHR ''-'' # str_nat (nat (- i)) else str_nat (nat i))"

text \<open>\<^verbatim>\<open>os.path.join(a, b)\<close> (posix) for two components.\<close>

definition path_join :: "string \<Rightarrow> string \<Rightarrow> string" where
  "path_join a b =
     (if b \<noteq> [] \<and> hd b = CHR ''/'' then b
      else if a = [] \<or> last a = CHR ''/'' then a @ b
      else a @ ''/'' @ b)"


section \<open>PairedDataset\<close>

text \<open>
  The file system as the dataset sees it: \<^verbatim>\<open>os.listdir\<close> of a directory (\<open>None\<close>: no such
  directory) and, for a path \<^verbatim>\<open>Image.open\<close> can read, the (width, height) of the image
  stored there. Pixel contents stay symbolic: an image is the expression that built it.
\<close>

record filesystem =
  fs_listdir :: "string \<Rightarrow> string list option"
  fs_image_size :: "string \<Rightarrow> (nat \<times> nat) option"

datatype pixels =
    File string
  | HFlip pixels
  | Crop nat nat nat nat pixels
  | Resize nat nat pixels
  | ToTensor pixels
  | Lambda_x2m1 pixels

record pil_image =
  pixels_of :: pixels
  width :: nat
  height :: nat

record PairedDataset =
  visible_dir :: string
  infrared_dir :: string
  visible_images :: "string list"
  infrared_images :: "string list"
  transform :: "(pil_image \<Rightarrow> pil_image) option"
  crop_size :: "nat \<times> nat"
  resize_size :: "nat \<times> nat"

text \<open>The random draws one \<^verbatim>\<open>__getitem__\<close> call makes: \<^verbatim>\<open>torch.rand(1)\<close> for the flip
  (as a fraction \<open>num / den\<close> in [0, 1)) and the two \<^verbatim>\<open>torch.randint\<close> of the crop.\<close>

record draws =
  flip_num :: nat
  flip_den :: nat
  crop_i :: nat
  crop_j :: nat

definition PairedDataset_init ::
  "filesystem \<Rightarrow> string \<Rightarrow> string \<Rightarrow> (pil_image \<Rightarrow> pil_image) option \<Rightarrow> nat \<times> nat \<Rightarrow> nat \<times> nat
     \<Rightarrow> error + PairedDataset" where
  "PairedDataset_init fs vdir idir tf crop rsz =
     (case fs_listdir fs vdir of
        None \<Rightarrow> Inl OSError
      | Some vs \<Rightarrow>
         (case fs_listdir fs idir of
            None \<Rightarrow> Inl OSError
          | Some is \<Rightarrow>
             Inr \<lparr> visible_dir = vdir, infrared_dir = idir,
                   visible_images = sort vs, infrared_images = sort is,
                   transform = tf, crop_size = crop, resize_size = rsz \<rparr>))"

definition len_PairedDataset :: "PairedDataset \<Rightarrow> nat" where
  "len_PairedDataset ds = length (visible_images ds)"

text \<open>Lines 61-62 of \<^verbatim>\<open>__getitem__\<close>: the two paths read for an index.\<close>

definition item_paths :: "PairedDataset \<Rightarrow> int \<Rightarrow> error + (string \<times> string)" where
  "item_paths ds index =
     (case py_getitem (visible_images ds) index of
        Inl e \<Rightarrow> Inl e
      | Inr v \<Rightarrow>
         (case py_getitem (infrared_images ds) index of
            Inl e \<Rightarrow> Inl e
          | Inr i \<Rightarrow> Inr (path_join (visible_dir ds) v, path_join (infrared_dir ds) i)))"

text \<open>\<^verbatim>\<open>Image.open(path).convert("RGB")\<close>.\<close>

definition Image_open :: "filesystem \<Rightarrow> string \<Rightarrow> error + pil_image" where
  "Image_open fs path =
     (case fs_image_size fs path of
        None \<Rightarrow> Inl OSError
      | Some (w, h) \<Rightarrow> Inr \<lparr> pixels_of = File path, width = w, height = h \<rparr>)"

definition TF_hflip :: "pil_image \<Rightarrow> pil_image" where
  "TF_hflip im = im \<lparr> pixels_of := HFlip (pixels_of im) \<rparr>"

definition TF_crop :: "pil_image \<Rightarrow> nat \<Rightarrow> nat \<Rightarrow> nat \<Rightarrow> nat \<Rightarrow> pil_image" where
  "TF_crop im i j h w = \<lparr> pixels_of = Crop i j h w (pixels_of im), width = w, height = h \<rparr>"

text \<open>\<^verbatim>\<open>TF.resize(img, size)\<close> with \<open>size = (height, width)\<close>: PIL refuses a height or width of 0
  with \<^verbatim>\<open>ValueError\<close>.\<close>

definition TF_resize :: "pil_image \<Rightarrow> nat \<times> nat \<Rightarrow> error + pil_image" where
  "TF_resize im hw =
     (if fst hw = 0 \<or> snd hw = 0 then Inl ValueError
      else Inr \<lparr> pixels_of = Resize (fst hw) (snd hw) (pixels_of im),
                 width = snd hw, height = fst hw \<rparr>)"

text \<open>\<^verbatim>\<open>T.RandomCrop.get_params(img, output_size)\<close> of torchvision, with the two random
  integers supplied by the caller.\<close>

definition RandomCrop_get_params ::
  "draws \<Rightarrow> pil_image \<Rightarrow> nat \<times> nat \<Rightarrow> error + (nat \<times> nat \<times> nat \<times> nat)" where
  "RandomCrop_get_params rnd im out =
     (let h = height im; w = width im; th = fst out; tw = snd out
      in if h < th \<or> w < tw then Inl ValueError
         else if w = tw \<and> h = th then Inr (0, 0, h, w)
         else Inr (crop_i rnd mod (h - th + 1), crop_j rnd mod (w - tw + 1), th, tw))"

text \<open>
  \<^verbatim>\<open>PairedDataset.__getitem__\<close>. The result is the list of lines printed and the outcome:
  an exception, \<open>None\<close>, or the pair of processed images.
\<close>

definition skip_message :: "int \<Rightarrow> string" where
  "skip_message index =
     ''Skipping image pair at index '' @ str_int index @ '' due to mismatched sizes''"

definition getitem ::
  "filesystem \<Rightarrow> PairedDataset \<Rightarrow> draws \<Rightarrow> int
     \<Rightarrow> string list \<times> (error + (pil_image \<times> pil_image) option)" where
  "getitem fs ds rnd index =
     (case item_paths ds index of
        Inl e \<Rightarrow> ([], Inl e)
      | Inr (visible_path, infrared_path) \<Rightarrow>
     (case Image_open fs visible_path of
        Inl e \<Rightarrow> ([], Inl e)
      | Inr visible_image \<Rightarrow>
     (case Image_open fs infrared_path of
        Inl e \<Rightarrow> ([], Inl e)
      | Inr infrared_image \<Rightarrow>
         if (width visible_image, height visible_image)
              \<noteq> (width infrared_image, height infrared_image)
         then ([skip_message index], Inr None)
         else
           let flip = (flip_den rnd < 2 * flip_num rnd);
               v1 = (if flip then TF_hflip visible_image else visible_image);
               i1 = (if flip then TF_hflip infrared_image else infrared_image)
           in (case RandomCrop_get_params rnd v1 (crop_size ds) of
                 Inl e \<Rightarrow> ([], Inl e)
               | Inr (i, j, h, w) \<Rightarrow>
                   let v2 = TF_crop v1 i j h w;
                       i2 = TF_crop i1 i j h w
                   in (case TF_resize v2 (resize_size ds) of
                         Inl e \<Rightarrow> ([], Inl e)
                       | Inr v3 \<Rightarrow>
                   (case TF_resize i2 (resize_size ds) of
                         Inl e \<Rightarrow> ([], Inl e)
                       | Inr i3 \<Rightarrow>
                   (case transform ds of
                         None \<Rightarrow> ([], Inr (Some (v3, i3)))
                       | Some tf \<Rightarrow> ([], Inr (Some (tf v3, tf i3))))))))))"


section \<open>LLVIPDataModule\<close>

record ImageDataModuleConfig =
  data_dir :: string
  image_size_crop :: "nat \<times> nat"
  image_size_resize :: "nat \<times> nat"
  batch_size :: nat
  num_workers :: nat
  pin_memory :: bool
  persistent_workers :: bool

definition setup_transform :: "pil_image \<Rightarrow> pil_image" where
  "setup_transform im = im \<lparr> pixels_of := Lambda_x2m1 (ToTensor (pixels_of im)) \<rparr>"

definition LLVIPDataModule_setup :: "filesystem \<Rightarrow> ImageDataModuleConfig \<Rightarrow> error + PairedDataset" where
  "LLVIPDataModule_setup fs config =
     PairedDataset_init fs ''datasets/LLVIP/visible/train'' ''datasets/LLVIP/infrared/train''
       (Some setup_transform) (image_size_crop config) (image_size_resize config)"

text \<open>
  A batch as the loader yields it: the list \<^verbatim>\<open>[visible, infrared]\<close> of two stacked tensors,
  each a list of samples along dimension 0.
\<close>

type_synonym batch = "pil_image list list"

text \<open>
  \<^verbatim>\<open>torch.utils.data.DataLoader\<close> with the arguments \<^verbatim>\<open>train_dataloader\<close> passes. No
  \<^verbatim>\<open>collate_fn\<close> is passed, so the field is \<open>None\<close> and the loader collates with torch's
  \<^verbatim>\<open>default_collate\<close>.
\<close>

record DataLoader =
  dl_dataset :: PairedDataset
  dl_batch_size :: nat
  dl_shuffle :: bool
  dl_num_workers :: nat
  dl_pin_memory :: bool
  dl_persistent_workers :: bool
  dl_collate_fn :: "((pil_image \<times> pil_image) option list \<Rightarrow> error + batch) option"

definition train_dataloader :: "ImageDataModuleConfig \<Rightarrow> PairedDataset \<Rightarrow> DataLoader" where
  "train_dataloader config ds =
     \<lparr> dl_dataset = ds, dl_batch_size = batch_size config, dl_shuffle = True,
       dl_num_workers = num_workers config, dl_pin_memory = pin_memory config,
       dl_persistent_workers = persistent_workers config, dl_collate_fn = None \<rparr>"

text \<open>
  torch's \<^verbatim>\<open>default_collate\<close> on the samples of one batch: a \<open>None\<close> among them is a
  \<^verbatim>\<open>TypeError\<close> ("batch must contain tensors, numpy arrays, numbers, dicts or lists; found
  NoneType"); pairs are transposed into the two stacked tensors.
\<close>

definition default_collate :: "(pil_image \<times> pil_image) option list \<Rightarrow> error + batch" where
  "default_collate items =
     (if items = [] then Inl IndexError
      else if None \<in> set items then Inl TypeError
      else Inr [map (\<lambda>it. fst (the it)) items, map (\<lambda>it. snd (the it)) items])"

text \<open>The samples of one batch are fetched in index order; the first exception stops the fetch.\<close>

fun fetch_items ::
  "filesystem \<Rightarrow> PairedDataset \<Rightarrow> (int \<Rightarrow> draws) \<Rightarrow> int list
     \<Rightarrow> string list \<times> (error + (pil_image \<times> pil_image) option list)" where
  "fetch_items fs ds rnd [] = ([], Inr [])"
| "fetch_items fs ds rnd (i # is) =
     (case getitem fs ds (rnd i) i of
        (out, Inl e) \<Rightarrow> (out, Inl e)
      | (out, Inr it) \<Rightarrow>
          (case fetch_items fs ds rnd is of
             (out', Inl e) \<Rightarrow> (out @ out', Inl e)
           | (out', Inr its) \<Rightarrow> (out @ out', Inr (it # its))))"

definition next_batch ::
  "filesystem \<Rightarrow> DataLoader \<Rightarrow> (int \<Rightarrow> draws) \<Rightarrow> int list \<Rightarrow> string list \<times> (error + batch)" where
  "next_batch fs dl rnd indices =
     (case fetch_items fs (dl_dataset dl) rnd indices of
        (out, Inl e) \<Rightarrow> (out, Inl e)
      | (out, Inr items) \<Rightarrow>
          (out, (case dl_collate_fn dl of
                   None \<Rightarrow> default_collate items
                 | Some f \<Rightarrow> f items)))"

section \<open>Sequences of the configuration\<close>

text \<open>
  The fields of \<^verbatim>\<open>UNetConfig\<close> are tuples when the dataclass is built in Python and
  lists when it is built from \<^verbatim>\<open>json.load\<close>. Both index, slice and zip alike, but
  \<^verbatim>\<open>+\<close> between a tuple and a list raises \<^verbatim>\<open>TypeError\<close>.
\<close>

datatype 'a pyseq = PyTuple "'a list" | PyList "'a list"

primrec seq_items :: "'a pyseq \<Rightarrow> 'a list" where
  "seq_items (PyTuple xs) = xs"
| "seq_items (PyList xs) = xs"

primrec seq_slice :: "('a list \<Rightarrow> 'a list) \<Rightarrow> 'a pyseq \<Rightarrow> 'a pyseq" where
  "seq_slice f (PyTuple xs) = PyTuple (f xs)"
| "seq_slice f (PyList xs) = PyList (f xs)"

fun seq_add :: "'a pyseq \<Rightarrow> 'a pyseq \<Rightarrow> error + 'a pyseq" where
  "seq_add (PyTuple xs) (PyTuple ys) = Inr (PyTuple (xs @ ys))"
| "seq_add (PyList xs) (PyList ys) = Inr (PyList (xs @ ys))"
| "seq_add _ _ = Inl TypeError"

text \<open>\<^verbatim>\<open>xs[:1]\<close>, \<^verbatim>\<open>xs[-1:]\<close> and \<^verbatim>\<open>xs[::-1]\<close> on the items.\<close>

definition first_slice :: "'a list \<Rightarrow> 'a list" where
  "first_slice xs = take 1 xs"

definition last_slice :: "'a list \<Rightarrow> 'a list" where
  "last_slice xs = (if xs = [] then [] else [last xs])"

text \<open>Sequencing of calls that may raise: the first exception ends the computation.\<close>

fun bind_err :: "error + 'a \<Rightarrow> ('a \<Rightarrow> error + 'b) \<Rightarrow> error + 'b" where
  "bind_err (Inl e) f = Inl e"
| "bind_err (Inr x) f = f x"


section \<open>UNetConfig\<close>

record UNetConfig =
  channels :: int
  noise_level_channels :: int
  noise_level_scale :: rat
  n_heads :: int
  top_blocks_channels :: "int pyseq"
  top_blocks_n_blocks_per_resolution :: "int pyseq"
  top_blocks_has_resampling :: "bool pyseq"
  top_blocks_dropout :: "rat pyseq"
  mid_blocks_channels :: "int pyseq"
  mid_blocks_n_blocks_per_resolution :: "int pyseq"
  mid_blocks_has_resampling :: "bool pyseq"
  mid_blocks_dropout :: "rat pyseq"

definition default_UNetConfig :: UNetConfig where
  "default_UNetConfig =
     \<lparr> channels = 3, noise_level_channels = 256, noise_level_scale = 2 / 100, n_heads = 8,
       top_blocks_channels = PyTuple [128, 128],
       top_blocks_n_blocks_per_resolution = PyTuple [2, 2],
       top_blocks_has_resampling = PyTuple [True, True],
       top_blocks_dropout = PyTuple [0, 0],
       mid_blocks_channels = PyTuple [256, 512],
       mid_blocks_n_blocks_per_resolution = PyTuple [4, 4],
       mid_blocks_has_resampling = PyTuple [True, False],
       mid_blocks_dropout = PyTuple [0, 3 / 10] \<rparr>"


section \<open>Layers of torch.nn as the script constructs them\<close>

text \<open>
  A layer is described by its constructor arguments. The constructors raise as torch's do:
  a negative size cannot be allocated (\<^verbatim>\<open>RuntimeError\<close>), \<^verbatim>\<open>nn.GroupNorm\<close> needs the
  channels to be a multiple of the groups, a dropout probability lies in [0, 1].
\<close>

record conv2d =
  conv_in :: int
  conv_out :: int
  conv_kernel :: int
  conv_bias :: bool

definition Conv2d :: "int \<Rightarrow> int \<Rightarrow> int \<Rightarrow> bool \<Rightarrow> error + conv2d" where
  "Conv2d i out k b =
     (if i < 0 \<or> out < 0 then Inl RuntimeError
      else Inr \<lparr> conv_in = i, conv_out = out, conv_kernel = k, conv_bias = b \<rparr>)"

definition Linear :: "int \<Rightarrow> int \<Rightarrow> error + (int \<times> int)" where
  "Linear i out = (if i < 0 \<or> out < 0 then Inl RuntimeError else Inr (i, out))"

definition Dropout :: "rat \<Rightarrow> error + rat" where
  "Dropout p = (if p < 0 \<or> 1 < p then Inl ValueError else Inr p)"

text \<open>\<^verbatim>\<open>GroupNorm(channels)\<close> of the script: \<^verbatim>\<open>num_groups = min(32, channels // 4)\<close>; the result
  is (num_groups, num_channels).\<close>

definition GroupNorm :: "int \<Rightarrow> error + (int \<times> int)" where
  "GroupNorm c =
     (let num_groups = min 32 (c div 4)
      in if num_groups = 0 then Inl ZeroDivisionError
         else if c mod num_groups \<noteq> 0 then Inl ValueError
         else if c < 0 then Inl RuntimeError
         else Inr (num_groups, c))"

datatype block =
    UNetBlock int int int rat
  | UNetBlockWithSelfAttention int int int int rat
  | Downsample int
  | Upsample int

text \<open>\<^verbatim>\<open>SelfAttention.__init__(in_channels, out_channels, n_heads, dropout)\<close>: only its checks;
  an attention layer is part of a \<open>UNetBlockWithSelfAttention\<close>.\<close>

definition SelfAttention_init :: "int \<Rightarrow> int \<Rightarrow> int \<Rightarrow> rat \<Rightarrow> error + unit" where
  "SelfAttention_init i out heads dropout =
     bind_err (GroupNorm i) (\<lambda>_.
     bind_err (Conv2d i (3 * i) 1 False) (\<lambda>_.
     bind_err (Linear i out) (\<lambda>_.
     bind_err (GroupNorm out) (\<lambda>_.
     bind_err (Dropout dropout) (\<lambda>_.
     bind_err (Conv2d i out 1 True) (\<lambda>_. Inr ()))))))"

definition UNetBlock_init :: "int \<Rightarrow> int \<Rightarrow> int \<Rightarrow> rat \<Rightarrow> error + block" where
  "UNetBlock_init i out nlc dropout =
     bind_err (GroupNorm i) (\<lambda>_.
     bind_err (Conv2d i out 3 True) (\<lambda>_.
     bind_err (Dropout dropout) (\<lambda>_.
     bind_err (Conv2d nlc out 1 True) (\<lambda>_.
     bind_err (GroupNorm out) (\<lambda>_.
     bind_err (Conv2d out out 3 True) (\<lambda>_.
     bind_err (Dropout dropout) (\<lambda>_.
     bind_err (Conv2d i out 1 True) (\<lambda>_. Inr (UNetBlock i out nlc dropout)))))))))"

definition UNetBlockWithSelfAttention_init ::
  "int \<Rightarrow> int \<Rightarrow> int \<Rightarrow> int \<Rightarrow> rat \<Rightarrow> error + block" where
  "UNetBlockWithSelfAttention_init i out nlc heads dropout =
     bind_err (UNetBlock_init i out nlc dropout) (\<lambda>_.
     bind_err (SelfAttention_init out out heads dropout) (\<lambda>_.
       Inr (UNetBlockWithSelfAttention i out nlc heads dropout)))"

definition Downsample_init :: "int \<Rightarrow> error + block" where
  "Downsample_init c = bind_err (Conv2d (4 * c) c 1 True) (\<lambda>_. Inr (Downsample c))"

definition Upsample_init :: "int \<Rightarrow> error + block" where
  "Upsample_init c = bind_err (Conv2d c c 3 True) (\<lambda>_. Inr (Upsample c))"

text \<open>\<^verbatim>\<open>NoiseLevelEmbedding.__init__(channels, scale)\<close>; the result is the channel count.\<close>

definition NoiseLevelEmbedding_init :: "int \<Rightarrow> rat \<Rightarrow> error + int" where
  "NoiseLevelEmbedding_init c scale =
     (if c div 2 < 0 then Inl RuntimeError
      else bind_err (Linear c (4 * c)) (\<lambda>_.
           bind_err (Linear (4 * c) c) (\<lambda>_. Inr c)))"


section \<open>UNet: construction\<close>

text \<open>The inner loop of \<^verbatim>\<open>_make_encoder_blocks\<close>: \<open>n\<close> blocks, the first from \<open>i\<close> channels,
  the others from \<open>out\<close>; \<^verbatim>\<open>dropout[idx]\<close> is read in each round.\<close>

fun encoder_inner ::
  "(int \<Rightarrow> int \<Rightarrow> rat \<Rightarrow> error + block) \<Rightarrow> rat list \<Rightarrow> int \<Rightarrow> nat \<Rightarrow> int \<Rightarrow> int
     \<Rightarrow> error + block list" where
  "encoder_inner block_fn dropout idx 0 i out = Inr []"
| "encoder_inner block_fn dropout idx (Suc n) i out =
     bind_err (py_getitem dropout idx) (\<lambda>d.
     bind_err (block_fn i out d) (\<lambda>b.
     bind_err (encoder_inner block_fn dropout idx n out out) (\<lambda>bs. Inr (b # bs))))"

fun encoder_levels ::
  "(int \<Rightarrow> int \<Rightarrow> rat \<Rightarrow> error + block) \<Rightarrow> int list \<Rightarrow> bool list \<Rightarrow> rat list \<Rightarrow> int
     \<Rightarrow> (int \<times> int) list \<Rightarrow> error + block list" where
  "encoder_levels block_fn n_blocks has_resampling dropout idx [] = Inr []"
| "encoder_levels block_fn n_blocks has_resampling dropout idx ((i, out) # pairs) =
     bind_err (py_getitem n_blocks idx) (\<lambda>n.
     bind_err (encoder_inner block_fn dropout idx (nat n) i out) (\<lambda>bs.
     bind_err (py_getitem has_resampling idx) (\<lambda>r.
     bind_err (if r then bind_err (Downsample_init out) (\<lambda>d. Inr [d]) else Inr []) (\<lambda>ds.
     bind_err (encoder_levels block_fn n_blocks has_resampling dropout (idx + 1) pairs) (\<lambda>rest.
       Inr (bs @ ds @ rest))))))"

definition channel_pairs :: "int list \<Rightarrow> (int \<times> int) list" where
  "channel_pairs cs = zip (butlast cs) (tl cs)"

definition make_encoder_blocks ::
  "int pyseq \<Rightarrow> int pyseq \<Rightarrow> bool pyseq \<Rightarrow> rat pyseq \<Rightarrow> (int \<Rightarrow> int \<Rightarrow> rat \<Rightarrow> error + block)
     \<Rightarrow> error + block list" where
  "make_encoder_blocks cs n_blocks has_resampling dropout block_fn =
     encoder_levels block_fn (seq_items n_blocks) (seq_items has_resampling) (seq_items dropout)
       0 (channel_pairs (seq_items cs))"

text \<open>The inner loop of \<^verbatim>\<open>_make_decoder_blocks\<close>, in construction order (the caller reverses
  it): every block takes \<open>2 * i\<close> channels, the first gives \<open>out\<close>, the others \<open>i\<close>.\<close>

fun decoder_inner ::
  "(int \<Rightarrow> int \<Rightarrow> rat \<Rightarrow> error + block) \<Rightarrow> rat list \<Rightarrow> int \<Rightarrow> nat \<Rightarrow> int \<Rightarrow> int
     \<Rightarrow> error + block list" where
  "decoder_inner block_fn dropout_rev idx 0 i out = Inr []"
| "decoder_inner block_fn dropout_rev idx (Suc n) i out =
     bind_err (py_getitem dropout_rev idx) (\<lambda>d.
     bind_err (block_fn (i * 2) out d) (\<lambda>b.
     bind_err (decoder_inner block_fn dropout_rev idx n i i) (\<lambda>bs. Inr (b # bs))))"

fun decoder_levels ::
  "(int \<Rightarrow> int \<Rightarrow> rat \<Rightarrow> error + block) \<Rightarrow> int list \<Rightarrow> bool list \<Rightarrow> rat list \<Rightarrow> int
     \<Rightarrow> (int \<times> int) list \<Rightarrow> error + block list" where
  "decoder_levels block_fn n_blocks_rev has_resampling_rev dropout_rev idx [] = Inr []"
| "decoder_levels block_fn n_blocks_rev has_resampling_rev dropout_rev idx ((out, i) # pairs) =
     bind_err (py_getitem has_resampling_rev idx) (\<lambda>r.
     bind_err (if r then bind_err (Upsample_init i) (\<lambda>u. Inr [u]) else Inr []) (\<lambda>us.
     bind_err (py_getitem n_blocks_rev idx) (\<lambda>n.
     bind_err (decoder_inner block_fn dropout_rev idx (nat n) i out) (\<lambda>inner.
     bind_err (decoder_levels block_fn n_blocks_rev has_resampling_rev dropout_rev (idx + 1) pairs)
       (\<lambda>rest. Inr (us @ rev inner @ rest))))))"

definition make_decoder_blocks ::
  "int pyseq \<Rightarrow> int pyseq \<Rightarrow> bool pyseq \<Rightarrow> rat pyseq \<Rightarrow> (int \<Rightarrow> int \<Rightarrow> rat \<Rightarrow> error + block)
     \<Rightarrow> error + block list" where
  "make_decoder_blocks cs n_blocks has_resampling dropout block_fn =
     decoder_levels block_fn (rev (seq_items n_blocks)) (rev (seq_items has_resampling))
       (rev (seq_items dropout)) 0 (rev (channel_pairs (seq_items cs)))"

definition make_top_block :: "UNetConfig \<Rightarrow> int \<Rightarrow> int \<Rightarrow> rat \<Rightarrow> error + block" where
  "make_top_block cfg i out dropout = UNetBlock_init i out (noise_level_channels cfg) dropout"

definition make_mid_block :: "UNetConfig \<Rightarrow> int \<Rightarrow> int \<Rightarrow> rat \<Rightarrow> error + block" where
  "make_mid_block cfg i out dropout =
     UNetBlockWithSelfAttention_init i out (noise_level_channels cfg) (n_heads cfg) dropout"

section \<open>UNet: parameters and state dict\<close>

record tensor =
  t_shape :: "int list"
  t_data :: "rat list"

record parameter =
  p_value :: tensor
  requires_grad :: bool

text \<open>The entries a module registers: name, shape and whether the parameter requires
  gradients when it is created. Names follow torch's dotted paths through
  \<^verbatim>\<open>nn.Sequential\<close> and \<^verbatim>\<open>nn.ModuleList\<close> indices.\<close>

type_synonym param_spec = "string \<times> int list \<times> bool"

definition conv_params :: "string \<Rightarrow> int \<Rightarrow> int \<Rightarrow> int \<Rightarrow> bool \<Rightarrow> param_spec list" where
  "conv_params name i out k bias =
     (name @ ''.weight'', [out, i, k, k], True)
       # (if bias then [(name @ ''.bias'', [out], True)] else [])"

definition linear_params :: "string \<Rightarrow> int \<Rightarrow> int \<Rightarrow> bool \<Rightarrow> param_spec list" where
  "linear_params name i out bias =
     (name @ ''.weight'', [out, i], True)
       # (if bias then [(name @ ''.bias'', [out], True)] else [])"

definition groupnorm_params :: "string \<Rightarrow> int \<Rightarrow> param_spec list" where
  "groupnorm_params name c = [(name @ ''.weight'', [c], True), (name @ ''.bias'', [c], True)]"

definition UNetBlock_params :: "string \<Rightarrow> int \<Rightarrow> int \<Rightarrow> int \<Rightarrow> param_spec list" where
  "UNetBlock_params p i out nlc =
     groupnorm_params (p @ ''.input_projection.0'') i
     @ conv_params (p @ ''.input_projection.2'') i out 3 True
     @ conv_params (p @ ''.noise_level_projection.1'') nlc out 1 True
     @ groupnorm_params (p @ ''.output_projection.0'') out
     @ conv_params (p @ ''.output_projection.2'') out out 3 True
     @ conv_params (p @ ''.residual_projection'') i out 1 True"

definition SelfAttention_params :: "string \<Rightarrow> int \<Rightarrow> int \<Rightarrow> param_spec list" where
  "SelfAttention_params p i out =
     groupnorm_params (p @ ''.qkv_projection.0'') i
     @ conv_params (p @ ''.qkv_projection.1'') i (3 * i) 1 False
     @ linear_params (p @ ''.output_projection.1'') i out False
     @ groupnorm_params (p @ ''.output_projection.3'') out
     @ conv_params (p @ ''.residual_projection'') i out 1 True"

fun block_params :: "string \<Rightarrow> block \<Rightarrow> param_spec list" where
  "block_params p (UNetBlock i out nlc d) = UNetBlock_params p i out nlc"
| "block_params p (UNetBlockWithSelfAttention i out nlc heads d) =
     UNetBlock_params (p @ ''.unet_block'') i out nlc
     @ SelfAttention_params (p @ ''.self_attention'') out out"
| "block_params p (Downsample c) = conv_params (p @ ''.projection.1'') (4 * c) c 1 True"
| "block_params p (Upsample c) = conv_params (p @ ''.projection.1'') c c 3 True"

definition blocks_params :: "string \<Rightarrow> block list \<Rightarrow> param_spec list" where
  "blocks_params name blocks =
     concat (map (\<lambda>(k, b). block_params (name @ ''.'' @ str_nat k) b) (enumerate 0 blocks))"

definition NoiseLevelEmbedding_params :: "string \<Rightarrow> int \<Rightarrow> param_spec list" where
  "NoiseLevelEmbedding_params p c =
     (p @ ''.W'', [c div 2], False)
       # linear_params (p @ ''.projection.0'') c (4 * c) True
       @ linear_params (p @ ''.projection.2'') (4 * c) c True"

record unet_modules =
  input_projection :: conv2d
  noise_level_embedding :: int
  top_encoder_blocks :: "block list"
  mid_encoder_blocks :: "block list"
  mid_decoder_blocks :: "block list"
  top_decoder_blocks :: "block list"
  output_projection :: conv2d

definition param_specs :: "unet_modules \<Rightarrow> param_spec list" where
  "param_specs m =
     conv_params ''input_projection'' (conv_in (input_projection m)) (conv_out (input_projection m))
        (conv_kernel (input_projection m)) (conv_bias (input_projection m))
     @ NoiseLevelEmbedding_params ''noise_level_embedding'' (noise_level_embedding m)
     @ blocks_params ''top_encoder_blocks'' (top_encoder_blocks m)
     @ blocks_params ''mid_encoder_blocks'' (mid_encoder_blocks m)
     @ blocks_params ''mid_decoder_blocks'' (mid_decoder_blocks m)
     @ blocks_params ''top_decoder_blocks'' (top_decoder_blocks m)
     @ conv_params ''output_projection'' (conv_in (output_projection m))
        (conv_out (output_projection m)) (conv_kernel (output_projection m))
        (conv_bias (output_projection m))"

record UNet =
  config :: UNetConfig
  modules :: unet_modules
  parameters :: "(string \<times> parameter) list"
  training :: bool

text \<open>
  \<^verbatim>\<open>UNet.__init__\<close>. The values torch's initialisers draw for a new parameter are the
  argument \<open>init\<close>, a function of the parameter's name and shape. A new module is in
  training mode.
\<close>

definition UNet_modules_init :: "UNetConfig \<Rightarrow> error + unet_modules" where
  "UNet_modules_init cfg =
     bind_err (py_getitem (seq_items (top_blocks_channels cfg)) 0) (\<lambda>top0.
     bind_err (Conv2d (channels cfg * 2) top0 3 True) (\<lambda>inp.
     bind_err (NoiseLevelEmbedding_init (noise_level_channels cfg) (noise_level_scale cfg)) (\<lambda>nle.
     bind_err (seq_add (top_blocks_channels cfg) (seq_slice first_slice (mid_blocks_channels cfg)))
       (\<lambda>cs1.
     bind_err (make_encoder_blocks cs1 (top_blocks_n_blocks_per_resolution cfg)
                 (top_blocks_has_resampling cfg) (top_blocks_dropout cfg) (make_top_block cfg))
       (\<lambda>te.
     bind_err (seq_add (mid_blocks_channels cfg) (seq_slice last_slice (mid_blocks_channels cfg)))
       (\<lambda>cs2.
     bind_err (make_encoder_blocks cs2 (mid_blocks_n_blocks_per_resolution cfg)
                 (mid_blocks_has_resampling cfg) (mid_blocks_dropout cfg) (make_mid_block cfg))
       (\<lambda>me.
     bind_err (seq_add (mid_blocks_channels cfg) (seq_slice last_slice (mid_blocks_channels cfg)))
       (\<lambda>cs3.
     bind_err (make_decoder_blocks cs3 (mid_blocks_n_blocks_per_resolution cfg)
                 (mid_blocks_has_resampling cfg) (mid_blocks_dropout cfg) (make_mid_block cfg))
       (\<lambda>md.
     bind_err (seq_add (top_blocks_channels cfg) (seq_slice first_slice (mid_blocks_channels cfg)))
       (\<lambda>cs4.
     bind_err (make_decoder_blocks cs4 (top_blocks_n_blocks_per_resolution cfg)
                 (top_blocks_has_resampling cfg) (top_blocks_dropout cfg) (make_top_block cfg))
       (\<lambda>td.
     bind_err (py_getitem (seq_items (top_blocks_channels cfg)) 0) (\<lambda>top0'.
     bind_err (Conv2d top0' (channels cfg) 3 True) (\<lambda>outp.
       Inr \<lparr> input_projection = inp, noise_level_embedding = nle,
             top_encoder_blocks = te, mid_encoder_blocks = me,
             mid_decoder_blocks = md, top_decoder_blocks = td,
             output_projection = outp \<rparr>)))))))))))))"

definition new_parameter :: "(string \<Rightarrow> int list \<Rightarrow> rat list) \<Rightarrow> param_spec \<Rightarrow> string \<times> parameter" where
  "new_parameter init spec =
     (case spec of (name, shp, rg) \<Rightarrow>
        (name, \<lparr> p_value = \<lparr> t_shape = shp, t_data = init name shp \<rparr>, requires_grad = rg \<rparr>))"

definition UNet_init :: "(string \<Rightarrow> int list \<Rightarrow> rat list) \<Rightarrow> UNetConfig \<Rightarrow> error + UNet" where
  "UNet_init init cfg =
     bind_err (UNet_modules_init cfg) (\<lambda>m.
       Inr \<lparr> config = cfg, modules = m,
             parameters = map (new_parameter init) (param_specs m), training = True \<rparr>)"

definition state_dict :: "UNet \<Rightarrow> (string \<times> tensor) list" where
  "state_dict net = map (\<lambda>(name, p). (name, p_value p)) (parameters net)"

text \<open>
  \<^verbatim>\<open>load_state_dict(state_dict)\<close>, strict as by default: every parameter of the module needs
  an entry of its own shape and the dict may hold no other key; then the values are copied
  into the module's parameters.
\<close>

definition state_dict_matches :: "(string \<times> parameter) list \<Rightarrow> (string \<times> tensor) list \<Rightarrow> bool" where
  "state_dict_matches own sd =
     (list_all (\<lambda>(name, p). case map_of sd name of
                                None \<Rightarrow> False
                              | Some t \<Rightarrow> t_shape t = t_shape (p_value p)) own
      \<and> list_all (\<lambda>(name, t). name \<in> set (map fst own)) sd)"

definition load_state_dict :: "UNet \<Rightarrow> (string \<times> tensor) list \<Rightarrow> error + UNet" where
  "load_state_dict net sd =
     (if state_dict_matches (parameters net) sd
      then Inr (net \<lparr> parameters :=
                  map (\<lambda>(name, p). (name, p \<lparr> p_value := the (map_of sd name) \<rparr>))
                    (parameters net) \<rparr>)
      else Inl ShapeMismatch)"


section \<open>Checkpoints\<close>

datatype json =
    JNull
  | JBool bool
  | JInt int
  | JFloat rat
  | JString string
  | JArray "json list"
  | JObject "(string \<times> json) list"

datatype stored_file = JsonFile json | TorchFile "(string \<times> tensor) list"

type_synonym files = "string \<Rightarrow> stored_file option"

text \<open>\<^verbatim>\<open>json.dump(asdict(self.config), f)\<close>: tuples are written as arrays.\<close>

definition config_to_json :: "UNetConfig \<Rightarrow> json" where
  "config_to_json cfg =
     JObject
       [(''channels'', JInt (channels cfg)),
        (''noise_level_channels'', JInt (noise_level_channels cfg)),
        (''noise_level_scale'', JFloat (noise_level_scale cfg)),
        (''n_heads'', JInt (n_heads cfg)),
        (''top_blocks_channels'', JArray (map JInt (seq_items (top_blocks_channels cfg)))),
        (''top_blocks_n_blocks_per_resolution'',
           JArray (map JInt (seq_items (top_blocks_n_blocks_per_resolution cfg)))),
        (''top_blocks_has_resampling'',
           JArray (map JBool (seq_items (top_blocks_has_resampling cfg)))),
        (''top_blocks_dropout'', JArray (map JFloat (seq_items (top_blocks_dropout cfg)))),
        (''mid_blocks_channels'', JArray (map JInt (seq_items (mid_blocks_channels cfg)))),
        (''mid_blocks_n_blocks_per_resolution'',
           JArray (map JInt (seq_items (mid_blocks_n_blocks_per_resolution cfg)))),
        (''mid_blocks_has_resampling'',
           JArray (map JBool (seq_items (mid_blocks_has_resampling cfg)))),
        (''mid_blocks_dropout'', JArray (map JFloat (seq_items (mid_blocks_dropout cfg))))]"

text \<open>
  \<^verbatim>\<open>UNetConfig(**json.load(f))\<close>: an array is read as a list; a key that is no field of the
  dataclass is a \<^verbatim>\<open>TypeError\<close>; a missing key takes the field's default. The dataclass
  stores what it is given, and the fields of the record are typed, so a JSON value is read
  as Python computes with it where the field is used: an integer where a float is
  expected is that number, and any value where a truth value is expected (the test
  \<^verbatim>\<open>if has_resampling[idx]\<close>) is its truth value. A value no such reading exists for (a string
  or a float for a channel count, a number for a tuple) is outside the typed record: most
  uses in \<^verbatim>\<open>UNet.__init__\<close> raise \<^verbatim>\<open>TypeError\<close> on it, and so does the reading here.
\<close>

fun as_int :: "json \<Rightarrow> error + int" where
  "as_int (JInt i) = Inr i"
| "as_int _ = Inl TypeError"

fun as_float :: "json \<Rightarrow> error + rat" where
  "as_float (JFloat r) = Inr r"
| "as_float (JInt i) = Inr (of_int i)"
| "as_float _ = Inl TypeError"

text \<open>Python's truth value of a value read from JSON: zero, the empty string, the empty
  containers and \<^verbatim>\<open>None\<close> are false.\<close>

fun as_bool :: "json \<Rightarrow> error + bool" where
  "as_bool (JBool b) = Inr b"
| "as_bool JNull = Inr False"
| "as_bool (JInt i) = Inr (i \<noteq> 0)"
| "as_bool (JFloat r) = Inr (r \<noteq> 0)"
| "as_bool (JString s) = Inr (s \<noteq> [])"
| "as_bool (JArray js) = Inr (js \<noteq> [])"
| "as_bool (JObject kvs) = Inr (kvs \<noteq> [])"

fun all_ok :: "(error + 'a) list \<Rightarrow> error + 'a list" where
  "all_ok [] = Inr []"
| "all_ok (r # rs) = bind_err r (\<lambda>x. bind_err (all_ok rs) (\<lambda>xs. Inr (x # xs)))"

fun as_list :: "(json \<Rightarrow> error + 'a) \<Rightarrow> json \<Rightarrow> error + 'a pyseq" where
  "as_list f (JArray js) = bind_err (all_ok (map f js)) (\<lambda>xs. Inr (PyList xs))"
| "as_list f _ = Inl TypeError"

definition field :: "(string \<times> json) list \<Rightarrow> string \<Rightarrow> (json \<Rightarrow> error + 'a) \<Rightarrow> 'a \<Rightarrow> error + 'a" where
  "field kvs key decode dflt =
     (case map_of (rev kvs) key of None \<Rightarrow> Inr dflt | Some j \<Rightarrow> decode j)"

definition UNetConfig_fields :: "string list" where
  "UNetConfig_fields =
     [''channels'', ''noise_level_channels'', ''noise_level_scale'', ''n_heads'',
      ''top_blocks_channels'', ''top_blocks_n_blocks_per_resolution'',
      ''top_blocks_has_resampling'', ''top_blocks_dropout'',
      ''mid_blocks_channels'', ''mid_blocks_n_blocks_per_resolution'',
      ''mid_blocks_has_resampling'', ''mid_blocks_dropout'']"

definition config_from_json :: "json \<Rightarrow> error + UNetConfig" where
  "config_from_json j =
     (case j of
        JObject kvs \<Rightarrow>
          if \<not> list_all (\<lambda>(k, _). k \<in> set UNetConfig_fields) kvs then Inl TypeError
          else
            let d = default_UNetConfig in
            bind_err (field kvs ''channels'' as_int (channels d)) (\<lambda>c.
            bind_err (field kvs ''noise_level_channels'' as_int (noise_level_channels d)) (\<lambda>nlc.
            bind_err (field kvs ''noise_level_scale'' as_float (noise_level_scale d)) (\<lambda>nls.
            bind_err (field kvs ''n_heads'' as_int (n_heads d)) (\<lambda>nh.
            bind_err (field kvs ''top_blocks_channels'' (as_list as_int) (top_blocks_channels d))
              (\<lambda>tc.
            bind_err (field kvs ''top_blocks_n_blocks_per_resolution'' (as_list as_int)
                        (top_blocks_n_blocks_per_resolution d)) (\<lambda>tn.
            bind_err (field kvs ''top_blocks_has_resampling'' (as_list as_bool)
                        (top_blocks_has_resampling d)) (\<lambda>tr.
            bind_err (field kvs ''top_blocks_dropout'' (as_list as_float) (top_blocks_dropout d))
              (\<lambda>td.
            bind_err (field kvs ''mid_blocks_channels'' (as_list as_int) (mid_blocks_channels d))
              (\<lambda>mc.
            bind_err (field kvs ''mid_blocks_n_blocks_per_resolution'' (as_list as_int)
                        (mid_blocks_n_blocks_per_resolution d)) (\<lambda>mn.
            bind_err (field kvs ''mid_blocks_has_resampling'' (as_list as_bool)
                        (mid_blocks_has_resampling d)) (\<lambda>mr.
            bind_err (field kvs ''mid_blocks_dropout'' (as_list as_float) (mid_blocks_dropout d))
              (\<lambda>md.
              Inr \<lparr> channels = c, noise_level_channels = nlc, noise_level_scale = nls,
                    n_heads = nh, top_blocks_channels = tc,
                    top_blocks_n_blocks_per_resolution = tn, top_blocks_has_resampling = tr,
                    top_blocks_dropout = td, mid_blocks_channels = mc,
                    mid_blocks_n_blocks_per_resolution = mn, mid_blocks_has_resampling = mr,
                    mid_blocks_dropout = md \<rparr>))))))))))))
      | _ \<Rightarrow> Inl TypeError)"

definition read_json :: "files \<Rightarrow> string \<Rightarrow> error + json" where
  "read_json fs path =
     (case fs path of
        None \<Rightarrow> Inl OSError
      | Some (JsonFile j) \<Rightarrow> Inr j
      | Some (TorchFile _) \<Rightarrow> Inl UnicodeDecodeError)"

definition torch_load :: "files \<Rightarrow> string \<Rightarrow> error + (string \<times> tensor) list" where
  "torch_load fs path =
     (case fs path of
        None \<Rightarrow> Inl OSError
      | Some (TorchFile sd) \<Rightarrow> Inr sd
      | Some (JsonFile _) \<Rightarrow> Inl UnpicklingError)"

definition save_pretrained :: "UNet \<Rightarrow> string \<Rightarrow> files \<Rightarrow> files" where
  "save_pretrained net pretrained_path fs =
     (fs (path_join pretrained_path ''config.json'' \<mapsto> JsonFile (config_to_json (config net))))
        (path_join pretrained_path ''model.pt'' \<mapsto> TorchFile (state_dict net))"

definition from_pretrained ::
  "(string \<Rightarrow> int list \<Rightarrow> rat list) \<Rightarrow> files \<Rightarrow> string \<Rightarrow> error + UNet" where
  "from_pretrained init fs pretrained_path =
     bind_err (read_json fs (path_join pretrained_path ''config.json'')) (\<lambda>config_dict.
     bind_err (config_from_json config_dict) (\<lambda>cfg.
     bind_err (UNet_init init cfg) (\<lambda>model.
     bind_err (torch_load fs (path_join pretrained_path ''model.pt'')) (\<lambda>sd.
       load_state_dict model sd))))"


section \<open>UNet: the forward pass on shapes\<close>

text \<open>
  Tensor values are floating-point numbers; what the forward pass does to the shape of a
  batch of images \<open>[batch, channels, height, width]\<close> is integer arithmetic, and every layer
  checks the shape it is given. The functions below compute the shape of each layer's
  result, or the exception the layer raises. Inputs of another rank than a layer is
  written for are given as \<^verbatim>\<open>RuntimeError\<close>.
\<close>

text \<open>\<^verbatim>\<open>torch.cat([x, v], dim=1)\<close>.\<close>

fun cat_dim1 :: "int list \<Rightarrow> int list \<Rightarrow> error + int list" where
  "cat_dim1 [b, c, h, w] [b', c', h', w'] =
     (if b = b' \<and> h = h' \<and> w = w' then Inr [b, c + c', h, w] else Inl RuntimeError)"
| "cat_dim1 _ _ = Inl RuntimeError"

text \<open>A convolution with \<^verbatim>\<open>padding="same"\<close> (or kernel size 1) keeps height and width.\<close>

fun conv2d_forward :: "conv2d \<Rightarrow> int list \<Rightarrow> error + int list" where
  "conv2d_forward cv [b, c, h, w] =
     (if c = conv_in cv then Inr [b, conv_out cv, h, w] else Inl RuntimeError)"
| "conv2d_forward cv _ = Inl RuntimeError"

definition conv :: "int \<Rightarrow> int \<Rightarrow> int \<Rightarrow> bool \<Rightarrow> conv2d" where
  "conv i out k b = \<lparr> conv_in = i, conv_out = out, conv_kernel = k, conv_bias = b \<rparr>"

fun groupnorm_forward :: "int \<Rightarrow> int list \<Rightarrow> error + int list" where
  "groupnorm_forward c [b, c', h, w] = (if c' = c then Inr [b, c', h, w] else Inl RuntimeError)"
| "groupnorm_forward c _ = Inl RuntimeError"

text \<open>Elementwise \<^verbatim>\<open>+\<close> with broadcasting, on two shapes of rank 4.\<close>

definition broadcast_dim :: "int \<Rightarrow> int \<Rightarrow> error + int" where
  "broadcast_dim a b =
     (if a = b then Inr a else if a = 1 then Inr b else if b = 1 then Inr a
      else Inl RuntimeError)"

fun add_forward :: "int list \<Rightarrow> int list \<Rightarrow> error + int list" where
  "add_forward [b, c, h, w] [b', c', h', w'] =
     bind_err (broadcast_dim b b') (\<lambda>b''.
     bind_err (broadcast_dim c c') (\<lambda>c''.
     bind_err (broadcast_dim h h') (\<lambda>h''.
     bind_err (broadcast_dim w w') (\<lambda>w''. Inr [b'', c'', h'', w'']))))"
| "add_forward _ _ = Inl RuntimeError"

text \<open>\<^verbatim>\<open>NoiseLevelEmbedding.forward\<close> on a vector of noise levels: sine and cosine features of
  width \<open>2 * (channels // 2)\<close> go through \<^verbatim>\<open>Linear(channels, 4 * channels)\<close>.\<close>

fun NoiseLevelEmbedding_forward :: "int \<Rightarrow> int list \<Rightarrow> error + int list" where
  "NoiseLevelEmbedding_forward c [b] =
     (if 2 * (c div 2) = c then Inr [b, c, 1, 1] else Inl RuntimeError)"
| "NoiseLevelEmbedding_forward c [] = Inl IndexError"
| "NoiseLevelEmbedding_forward c _ = Inl RuntimeError"

definition UNetBlock_forward :: "int \<Rightarrow> int \<Rightarrow> int \<Rightarrow> int list \<Rightarrow> int list \<Rightarrow> error + int list" where
  "UNetBlock_forward i out nlc x noise_level =
     bind_err (groupnorm_forward i x) (\<lambda>h0.
     bind_err (conv2d_forward (conv i out 3 True) h0) (\<lambda>h1.
     bind_err (conv2d_forward (conv nlc out 1 True) noise_level) (\<lambda>e.
     bind_err (add_forward h1 e) (\<lambda>h2.
     bind_err (groupnorm_forward out h2) (\<lambda>h3.
     bind_err (conv2d_forward (conv out out 3 True) h3) (\<lambda>h4.
     bind_err (conv2d_forward (conv i out 1 True) x) (\<lambda>r.
       add_forward h4 r)))))))"

text \<open>\<^verbatim>\<open>SelfAttention.forward\<close>: the rearrangement \<^verbatim>\<open>b (i h d) x y -> i b h (x y) d\<close> needs the
  \<open>3 * in_channels\<close> channels to split into 3 times \<open>n_heads\<close> heads.\<close>

fun SelfAttention_forward :: "int \<Rightarrow> int \<Rightarrow> int \<Rightarrow> int list \<Rightarrow> error + int list" where
  "SelfAttention_forward i out heads [b, c, h, w] =
     bind_err (groupnorm_forward i [b, c, h, w]) (\<lambda>x0.
     bind_err (conv2d_forward (conv i (3 * i) 1 False) x0) (\<lambda>qkv.
     bind_err (if 0 < heads \<and> (3 * i) mod (3 * heads) = 0 then Inr [b, out, h, w]
               else Inl EinopsError) (\<lambda>attended.
     bind_err (conv2d_forward (conv i out 1 True) [b, c, h, w]) (\<lambda>r.
       add_forward attended r))))"
| "SelfAttention_forward i out heads _ = Inl RuntimeError"

text \<open>\<^verbatim>\<open>Downsample.forward\<close>: \<^verbatim>\<open>b c (h ph) (w pw) -> b (c ph pw) h w\<close> with \<open>ph = pw = 2\<close>, then
  the 1x1 convolution from \<open>4 * channels\<close>.\<close>

fun Downsample_forward :: "int \<Rightarrow> int list \<Rightarrow> error + int list" where
  "Downsample_forward c [b, c', h, w] =
     (if h mod 2 = 0 \<and> w mod 2 = 0
      then conv2d_forward (conv (4 * c) c 1 True) [b, c' * 4, h div 2, w div 2]
      else Inl EinopsError)"
| "Downsample_forward c _ = Inl RuntimeError"

fun Upsample_forward :: "int \<Rightarrow> int list \<Rightarrow> error + int list" where
  "Upsample_forward c [b, c', h, w] = conv2d_forward (conv c c 3 True) [b, c', h * 2, w * 2]"
| "Upsample_forward c _ = Inl RuntimeError"

text \<open>\<^verbatim>\<open>block(h, noise_level)\<close> and \<^verbatim>\<open>block(h)\<close>: a call with the wrong number of arguments
  is a \<^verbatim>\<open>TypeError\<close>.\<close>

fun block_call2 :: "block \<Rightarrow> int list \<Rightarrow> int list \<Rightarrow> error + int list" where
  "block_call2 (UNetBlock i out nlc d) h noise_level = UNetBlock_forward i out nlc h noise_level"
| "block_call2 (UNetBlockWithSelfAttention i out nlc heads d) h noise_level =
     bind_err (UNetBlock_forward i out nlc h noise_level) (SelfAttention_forward out out heads)"
| "block_call2 _ h noise_level = Inl TypeError"

fun block_call1 :: "block \<Rightarrow> int list \<Rightarrow> error + int list" where
  "block_call1 (Downsample c) h = Downsample_forward c h"
| "block_call1 (Upsample c) h = Upsample_forward c h"
| "block_call1 _ h = Inl TypeError"

fun is_UNetBlock :: "block \<Rightarrow> bool" where
  "is_UNetBlock (UNetBlock i out nlc d) = True"
| "is_UNetBlock _ = False"

fun is_UNetBlockWithSelfAttention :: "block \<Rightarrow> bool" where
  "is_UNetBlockWithSelfAttention (UNetBlockWithSelfAttention i out nlc heads d) = True"
| "is_UNetBlockWithSelfAttention _ = False"

text \<open>The two encoder loops of \<^verbatim>\<open>UNet.forward\<close>: \<open>isinst\<close> is the \<^verbatim>\<open>isinstance\<close> test of the
  loop; the embeddings are appended at the end of the list.\<close>

fun encoder_loop ::
  "(block \<Rightarrow> bool) \<Rightarrow> int list \<Rightarrow> block list \<Rightarrow> int list \<Rightarrow> int list list
     \<Rightarrow> error + (int list \<times> int list list)" where
  "encoder_loop isinst noise_level [] h embeddings = Inr (h, embeddings)"
| "encoder_loop isinst noise_level (block # blocks) h embeddings =
     (if isinst block
      then bind_err (block_call2 block h noise_level) (\<lambda>h'.
             encoder_loop isinst noise_level blocks h' (embeddings @ [h']))
      else bind_err (block_call1 block h) (\<lambda>h'.
             encoder_loop isinst noise_level blocks h' embeddings))"

text \<open>The two decoder loops: \<^verbatim>\<open>embeddings.pop()\<close> takes the last element, and raises
  \<^verbatim>\<open>IndexError\<close> on an empty list.\<close>

fun decoder_loop ::
  "(block \<Rightarrow> bool) \<Rightarrow> int list \<Rightarrow> block list \<Rightarrow> int list \<Rightarrow> int list list
     \<Rightarrow> error + (int list \<times> int list list)" where
  "decoder_loop isinst noise_level [] h embeddings = Inr (h, embeddings)"
| "decoder_loop isinst noise_level (block # blocks) h embeddings =
     (if isinst block
      then (if embeddings = [] then Inl IndexError
            else bind_err (cat_dim1 h (last embeddings)) (\<lambda>h1.
                 bind_err (block_call2 block h1 noise_level) (\<lambda>h'.
                   decoder_loop isinst noise_level blocks h' (butlast embeddings))))
      else bind_err (block_call1 block h) (\<lambda>h'.
             decoder_loop isinst noise_level blocks h' embeddings))"

text \<open>\<^verbatim>\<open>UNet.forward(x, noise_level, v)\<close> on the shapes of its three arguments.\<close>

definition UNet_forward :: "UNet \<Rightarrow> int list \<Rightarrow> int list \<Rightarrow> int list \<Rightarrow> error + int list" where
  "UNet_forward net x noise_level v =
     (let m = modules net in
      bind_err (cat_dim1 x v) (\<lambda>xv.
      bind_err (conv2d_forward (input_projection m) xv) (\<lambda>h.
      bind_err (NoiseLevelEmbedding_forward (noise_level_embedding m) noise_level) (\<lambda>nl.
      bind_err (encoder_loop is_UNetBlock nl (top_encoder_blocks m) h []) (\<lambda>(h, top_embeddings).
      bind_err (encoder_loop is_UNetBlockWithSelfAttention nl (mid_encoder_blocks m) h [])
        (\<lambda>(h, mid_embeddings).
      bind_err (decoder_loop is_UNetBlockWithSelfAttention nl (mid_decoder_blocks m) h
                  mid_embeddings) (\<lambda>(h, _).
      bind_err (decoder_loop is_UNetBlock nl (top_decoder_blocks m) h top_embeddings) (\<lambda>(h, _).
        conv2d_forward (output_projection m) h))))))))"


section \<open>Image tensors and the collaborators of the training module\<close>

text \<open>
  A batch of images is the list of its samples along dimension 0, each sample the list of
  its values. Floating-point values are taken as rationals: the arithmetic of the script
  on them (a product, a mean, a clamp) is exact here.
\<close>

type_synonym sample = "rat list"
type_synonym images = "sample list"

datatype batch_arg = BatchTensor images | BatchList "images list"

record ConsistencyOutput =
  predicted :: images
  target :: images
  loss_weights :: images
  num_timesteps :: int

text \<open>
  \<^verbatim>\<open>ImprovedConsistencyTraining\<close>, \<^verbatim>\<open>ConsistencySamplingAndEditing\<close> and \<^verbatim>\<open>pseudo_huber_loss\<close> come
  from the module \<^verbatim>\<open>improved_consistency_model_conditional\<close>, and the optimizer from torch:
  they are arguments of the model, each with the arguments the script calls it with.
  \<open>consistency_training\<close> takes the network, the condition images, the target images, the
  global step and the maximal step; \<open>consistency_sampling\<close> takes the network, the noise,
  the sigmas and the flags \<^verbatim>\<open>clip_denoised\<close> and \<^verbatim>\<open>verbose\<close>; \<open>adam\<close> gives the new value of
  a named parameter.
\<close>

record collaborators =
  consistency_training :: "UNet \<Rightarrow> images \<Rightarrow> images \<Rightarrow> int \<Rightarrow> int \<Rightarrow> error + ConsistencyOutput"
  pseudo_huber_loss :: "images \<Rightarrow> images \<Rightarrow> error + images"
  consistency_sampling :: "UNet \<Rightarrow> images \<Rightarrow> rat list \<Rightarrow> bool \<Rightarrow> bool \<Rightarrow> error + images"
  adam :: "string \<Rightarrow> tensor \<Rightarrow> tensor"

text \<open>Elementwise \<^verbatim>\<open>*\<close> of two tensors of rank 2 with torch's broadcasting: a dimension of
  size 1 is stretched to the other operand's size.\<close>

definition broadcast2 :: "'a list \<Rightarrow> 'b list \<Rightarrow> error + ('a \<times> 'b) list" where
  "broadcast2 xs ys =
     (if length xs = length ys then Inr (zip xs ys)
      else if length ys = 1 then Inr (map (\<lambda>x. (x, hd ys)) xs)
      else if length xs = 1 then Inr (map (\<lambda>y. (hd xs, y)) ys)
      else Inl RuntimeError)"

definition mul_row :: "sample \<Rightarrow> sample \<Rightarrow> error + sample" where
  "mul_row r r' = bind_err (broadcast2 r r') (\<lambda>ps. Inr (map (\<lambda>(x, y). x * y) ps))"

definition mul_images :: "images \<Rightarrow> images \<Rightarrow> error + images" where
  "mul_images a b =
     bind_err (broadcast2 a b) (\<lambda>rows. all_ok (map (\<lambda>(r, r'). mul_row r r') rows))"

text \<open>\<^verbatim>\<open>.mean()\<close> over all elements; the mean of no element is NaN, here \<open>None\<close>.\<close>

definition tensor_mean :: "images \<Rightarrow> rat option" where
  "tensor_mean t =
     (let values = concat t
      in if values = [] then None else Some (sum_list values / of_nat (length values)))"

text \<open>\<^verbatim>\<open>.clamp(min=-1.0, max=1.0)\<close>.\<close>

definition clamp_images :: "images \<Rightarrow> images" where
  "clamp_images t = map (map (\<lambda>x. max (- 1) (min 1 x))) t"

text \<open>\<^verbatim>\<open>torch.randn_like(t)\<close>: a tensor of the shape of \<open>t\<close>; \<open>draw k j\<close> is the value drawn
  for element \<open>j\<close> of sample \<open>k\<close>.\<close>

definition randn_like :: "(nat \<Rightarrow> nat \<Rightarrow> rat) \<Rightarrow> images \<Rightarrow> images" where
  "randn_like draw t =
     map (\<lambda>(k, x). map (\<lambda>(j, _). draw k j) (enumerate 0 x)) (enumerate 0 t)"


section \<open>LitImprovedConsistencyModel\<close>

record LitImprovedConsistencyModelConfig =
  ema_decay_rate :: rat
  lr :: rat
  betas :: "rat \<times> rat"
  lr_scheduler_start_factor :: rat
  lr_scheduler_iters :: int
  sample_every_n_steps :: int
  num_samples :: int
  sampling_sigmas :: "rat list list"

definition default_LitImprovedConsistencyModelConfig :: LitImprovedConsistencyModelConfig where
  "default_LitImprovedConsistencyModelConfig =
     \<lparr> ema_decay_rate = 99993 / 100000, lr = 1 / 10000, betas = (9 / 10, 995 / 1000),
       lr_scheduler_start_factor = 1 / 100000, lr_scheduler_iters = 10000,
       sample_every_n_steps = 10000, num_samples = 8,
       sampling_sigmas = [[80], [80, 661 / 1000], [80, 244 / 10, 584 / 100, 9 / 10, 661 / 1000]] \<rparr>"

text \<open>
  The two networks are objects: the module holds references to them, and what an operation
  writes it writes to the object behind a reference. The store maps a reference to the
  object; a new object gets the next free reference.
\<close>

record LitImprovedConsistencyModel =
  model :: nat
  ema_model :: nat
  lit_config :: LitImprovedConsistencyModelConfig

text \<open>What the module does to the outside, in the order it does it: the calls of the
  collaborators, with their arguments as the script passes them, and the logging calls.\<close>

datatype arg = ArgModel nat | ArgTensor images | ArgSigmas "rat list" | ArgBool bool | ArgInt int

record call =
  call_args :: "arg list"
  call_kwargs :: "(string \<times> arg) list"

datatype title = GroundTruth | GeneratedSamples "rat list"

datatype event =
    ObjectiveCall call
  | LogDict "rat option" int
  | OptimizerStep nat
  | EmaUpdate nat nat rat
  | SamplerCall call "(string \<times> tensor) list"
  | AddImage title images int

record train_state =
  store :: "nat \<Rightarrow> UNet option"
  next_ref :: nat
  global_step :: int
  trace :: "event list"

definition new_object :: "UNet \<Rightarrow> train_state \<Rightarrow> nat \<times> train_state" where
  "new_object net s =
     (next_ref s, s \<lparr> store := (store s) (next_ref s \<mapsto> net), next_ref := Suc (next_ref s) \<rparr>)"

definition deref :: "train_state \<Rightarrow> nat \<Rightarrow> error + UNet" where
  "deref s r = (case store s r of None \<Rightarrow> Inl RuntimeError | Some net \<Rightarrow> Inr net)"

definition emit :: "event \<Rightarrow> train_state \<Rightarrow> train_state" where
  "emit e s = s \<lparr> trace := trace s @ [e] \<rparr>"

text \<open>\<^verbatim>\<open>__init__\<close>: every parameter of the EMA network is frozen, and the network is put in
  evaluation mode.\<close>

definition freeze :: "UNet \<Rightarrow> UNet" where
  "freeze net =
     net \<lparr> parameters := map (\<lambda>(name, p). (name, p \<lparr> requires_grad := False \<rparr>)) (parameters net),
           training := False \<rparr>"

definition LitImprovedConsistencyModel_init ::
  "nat \<Rightarrow> nat \<Rightarrow> LitImprovedConsistencyModelConfig \<Rightarrow> train_state
     \<Rightarrow> error + (LitImprovedConsistencyModel \<times> train_state)" where
  "LitImprovedConsistencyModel_init model_ref ema_ref cfg s =
     bind_err (deref s ema_ref) (\<lambda>ema.
       Inr (\<lparr> model = model_ref, ema_model = ema_ref, lit_config = cfg \<rparr>,
            s \<lparr> store := (store s) (ema_ref \<mapsto> freeze ema) \<rparr>))"

text \<open>\<^verbatim>\<open>visible_images, infrared_images = batch\<close>: exactly two elements are needed. A sample is
  kept flat, so the slice of a tensor along dimension 0 is the list of its values.\<close>

fun unpack_batch :: "batch_arg \<Rightarrow> error + (images \<times> images)" where
  "unpack_batch (BatchList [v, i]) = Inr (v, i)"
| "unpack_batch (BatchTensor [v, i]) = Inr (map (\<lambda>x. [x]) v, map (\<lambda>x. [x]) i)"
| "unpack_batch _ = Inl ValueError"

text \<open>\<^verbatim>\<open>training_step\<close>: the loss is returned, and logged with the number of timesteps.\<close>

definition training_step ::
  "collaborators \<Rightarrow> LitImprovedConsistencyModel \<Rightarrow> int \<Rightarrow> batch_arg \<Rightarrow> train_state
     \<Rightarrow> error + (rat option \<times> train_state)" where
  "training_step c self max_steps batch s =
     bind_err (unpack_batch batch) (\<lambda>(visible_images, infrared_images).
     bind_err (deref s (model self)) (\<lambda>net.
     let s1 = emit (ObjectiveCall
                \<lparr> call_args = [ArgModel (model self), ArgTensor infrared_images,
                                 ArgTensor visible_images, ArgInt (global_step s),
                                 ArgInt max_steps],
                  call_kwargs = [] \<rparr>) s in
     bind_err (consistency_training c net infrared_images visible_images (global_step s) max_steps)
       (\<lambda>output.
     bind_err (pseudo_huber_loss c (predicted output) (target output)) (\<lambda>l.
     bind_err (mul_images l (loss_weights output)) (\<lambda>weighted.
     let loss = tensor_mean weighted
     in Inr (loss, emit (LogDict loss (num_timesteps output)) s1))))))"

text \<open>\<^verbatim>\<open>configure_optimizers\<close> gives Adam the parameters of \<^verbatim>\<open>self.model\<close>, and the trainer
  steps it: the parameters of that object that require gradients get their new values.\<close>

definition optimizer_step ::
  "collaborators \<Rightarrow> LitImprovedConsistencyModel \<Rightarrow> train_state \<Rightarrow> error + train_state" where
  "optimizer_step c self s =
     bind_err (deref s (model self)) (\<lambda>net.
       Inr (emit (OptimizerStep (model self))
             (s \<lparr> store := (store s) (model self \<mapsto>
                      net \<lparr> parameters :=
                        map (\<lambda>(name, p). (name, if requires_grad p
                                                  then p \<lparr> p_value := adam c name (p_value p) \<rparr>
                                                  else p))
                          (parameters net) \<rparr>),
                    global_step := global_step s + 1 \<rparr>)))"

text \<open>
  Modelled from the spec: \<^verbatim>\<open>update_ema_model_\<close> of \<^verbatim>\<open>improved_consistency_model_conditional\<close>,
  which is not among the sources. Section 4.4: \<^verbatim>\<open>shadow_param <- decay_rate * shadow_param +
  (1 - decay_rate) * online_param\<close>, element-wise, for every matching parameter tensor, in
  place; it mutates the shadow network only.
\<close>

definition ema_tensor :: "rat \<Rightarrow> tensor \<Rightarrow> tensor \<Rightarrow> tensor" where
  "ema_tensor decay shadow online =
     shadow \<lparr> t_data := map (\<lambda>(sh, on). decay * sh + (1 - decay) * on)
                          (zip (t_data shadow) (t_data online)) \<rparr>"

definition ema_network :: "rat \<Rightarrow> UNet \<Rightarrow> UNet \<Rightarrow> UNet" where
  "ema_network decay online shadow =
     shadow \<lparr> parameters :=
       map (\<lambda>(name, p). (name, case map_of (parameters online) name of
                                  None \<Rightarrow> p
                                | Some q \<Rightarrow> p \<lparr> p_value := ema_tensor decay (p_value p) (p_value q) \<rparr>))
         (parameters shadow) \<rparr>"

definition update_ema_model :: "nat \<Rightarrow> nat \<Rightarrow> rat \<Rightarrow> train_state \<Rightarrow> error + train_state" where
  "update_ema_model model_ref ema_ref decay s =
     bind_err (deref s model_ref) (\<lambda>online.
     bind_err (deref s ema_ref) (\<lambda>shadow.
       Inr (emit (EmaUpdate model_ref ema_ref decay)
             (s \<lparr> store := (store s) (ema_ref \<mapsto> ema_network decay online shadow) \<rparr>))))"

text \<open>
  \<^verbatim>\<open>__log_images\<close>: the images, clamped, are tiled by torchvision's \<^verbatim>\<open>make_grid\<close> and go to
  the logger under the title and the step. \<^verbatim>\<open>make_grid\<close> divides the number of images by the
  number of columns, \<^verbatim>\<open>min(8, number of images)\<close>: for a tensor of no image this is a
  \<^verbatim>\<open>ZeroDivisionError\<close>, and nothing is logged. The event keeps the images the grid is made
  of.
\<close>

definition log_images :: "images \<Rightarrow> title \<Rightarrow> int \<Rightarrow> train_state \<Rightarrow> error + train_state" where
  "log_images imgs t step s =
     (if imgs = [] then Inl ZeroDivisionError
      else Inr (emit (AddImage t (clamp_images imgs) step) s))"

text \<open>The loop over \<^verbatim>\<open>self.config.sampling_sigmas\<close> in \<^verbatim>\<open>__sample_and_log_samples\<close>.\<close>

fun sample_loop ::
  "collaborators \<Rightarrow> LitImprovedConsistencyModel \<Rightarrow> images \<Rightarrow> rat list list \<Rightarrow> train_state
     \<Rightarrow> error + train_state" where
  "sample_loop c self noise [] s = Inr s"
| "sample_loop c self noise (sigmas # rest) s =
     bind_err (deref s (ema_model self)) (\<lambda>ema.
     let s1 = emit (SamplerCall
                \<lparr> call_args = [ArgModel (ema_model self), ArgTensor noise, ArgSigmas sigmas],
                  call_kwargs = [(''clip_denoised'', ArgBool True), (''verbose'', ArgBool True)] \<rparr>
                (state_dict ema)) s in
     bind_err (consistency_sampling c ema noise sigmas True True) (\<lambda>samples.
     let samples = clamp_images samples in
     bind_err (log_images samples (GeneratedSamples sigmas) (global_step s1) s1)
       (sample_loop c self noise rest)))"

text \<open>\<^verbatim>\<open>if isinstance(batch, list): batch = batch[0]\<close>.\<close>

definition batch_images :: "batch_arg \<Rightarrow> error + images" where
  "batch_images batch = (case batch of BatchList bs \<Rightarrow> py_getitem bs 0 | BatchTensor t \<Rightarrow> Inr t)"

text \<open>\<^verbatim>\<open>__sample_and_log_samples\<close>.\<close>

definition sample_and_log_samples ::
  "collaborators \<Rightarrow> (nat \<Rightarrow> nat \<Rightarrow> rat) \<Rightarrow> LitImprovedConsistencyModel \<Rightarrow> batch_arg \<Rightarrow> train_state
     \<Rightarrow> error + train_state" where
  "sample_and_log_samples c draw self batch s =
     bind_err (batch_images batch) (\<lambda>batch.
     let n = min (num_samples (lit_config self)) (int (length batch));
         noise = randn_like draw (py_slice_to batch n) in
     bind_err (log_images (py_slice_to batch n) GroundTruth (global_step s) s)
       (sample_loop c self noise (sampling_sigmas (lit_config self))))"

text \<open>\<^verbatim>\<open>on_train_batch_end\<close>. The remainder is computed before the comparison with 0, so a
  period of 0 raises \<^verbatim>\<open>ZeroDivisionError\<close>.\<close>

definition on_train_batch_end ::
  "collaborators \<Rightarrow> (nat \<Rightarrow> nat \<Rightarrow> rat) \<Rightarrow> LitImprovedConsistencyModel \<Rightarrow> batch_arg \<Rightarrow> train_state
     \<Rightarrow> error + train_state" where
  "on_train_batch_end c draw self batch s =
     bind_err (update_ema_model (model self) (ema_model self) (ema_decay_rate (lit_config self)) s)
       (\<lambda>s1.
     if sample_every_n_steps (lit_config self) = 0 then Inl ZeroDivisionError
     else if (global_step s1 + 1) mod sample_every_n_steps (lit_config self) = 0
             \<or> global_step s1 = 0
          then sample_and_log_samples c draw self batch s1
          else Inr s1)"


section \<open>run_training and the trainer\<close>

text \<open>Lines 619-631 of \<^verbatim>\<open>run_training\<close>: the two networks are two objects built from the same
  configuration, the EMA network is loaded with the state of the model, and the module is
  created.\<close>

definition empty_state :: train_state where
  "empty_state = \<lparr> store = (\<lambda>r. None), next_ref = 0, global_step = 0, trace = [] \<rparr>"

definition run_training_create ::
  "(string \<Rightarrow> int list \<Rightarrow> rat list) \<Rightarrow> (string \<Rightarrow> int list \<Rightarrow> rat list) \<Rightarrow> UNetConfig
     \<Rightarrow> LitImprovedConsistencyModelConfig
     \<Rightarrow> error + (LitImprovedConsistencyModel \<times> train_state)" where
  "run_training_create init1 init2 unet_config lit_icm_config =
     bind_err (UNet_init init1 unet_config) (\<lambda>net.
     let (model_ref, s1) = new_object net empty_state in
     bind_err (UNet_init init2 unet_config) (\<lambda>ema.
     bind_err (load_state_dict ema (state_dict net)) (\<lambda>ema.
     let (ema_ref, s2) = new_object ema s1
     in LitImprovedConsistencyModel_init model_ref ema_ref lit_icm_config s2)))"

text \<open>
  Modelled from the spec: one step of the trainer (lightning's \<^verbatim>\<open>Trainer.fit\<close>, not among the
  sources). Section 6: it invokes the step of the objective, then the optimizer update,
  then the hook that updates the EMA network and, periodically, samples. The global step
  counts the optimizer updates.
\<close>

definition fit_step ::
  "collaborators \<Rightarrow> (nat \<Rightarrow> nat \<Rightarrow> rat) \<Rightarrow> LitImprovedConsistencyModel \<Rightarrow> int \<Rightarrow> batch_arg
     \<Rightarrow> train_state \<Rightarrow> error + train_state" where
  "fit_step c draw self max_steps batch s =
     bind_err (training_step c self max_steps batch s) (\<lambda>(loss, s1).
     bind_err (optimizer_step c self s1) (\<lambda>s2.
       on_train_batch_end c draw self batch s2))"

fun fit ::
  "collaborators \<Rightarrow> (nat \<Rightarrow> nat \<Rightarrow> rat) \<Rightarrow> LitImprovedConsistencyModel \<Rightarrow> int \<Rightarrow> batch_arg list
     \<Rightarrow> train_state \<Rightarrow> error + train_state" where
  "fit c draw self max_steps [] s = Inr s"
| "fit c draw self max_steps (batch # batches) s =
     bind_err (fit_step c draw self max_steps batch s) (fit c draw self max_steps batches)"


section \<open>Notions the properties are stated with\<close>

text \<open>The file an image expression was read from.\<close>

primrec file_of :: "pixels \<Rightarrow> string" where
  "file_of (File p) = p"
| "file_of (HFlip x) = file_of x"
| "file_of (Crop i j h w x) = file_of x"
| "file_of (Resize h w x) = file_of x"
| "file_of (ToTensor x) = file_of x"
| "file_of (Lambda_x2m1 x) = file_of x"

definition apply_transform :: "(pil_image \<Rightarrow> pil_image) option \<Rightarrow> pil_image \<Rightarrow> pil_image" where
  "apply_transform tf im = (case tf of None \<Rightarrow> im | Some f \<Rightarrow> f im)"


text \<open>The first segment of a dotted parameter name.\<close>

definition seg :: "string \<Rightarrow> string" where
  "seg name = takeWhile (\<lambda>c. c \<noteq> CHR ''.'') name"

text \<open>The entries of a \<^verbatim>\<open>ModuleList\<close> whose first index is \<open>n\<close>.\<close>

definition blocks_params_from :: "string \<Rightarrow> nat \<Rightarrow> block list \<Rightarrow> param_spec list" where
  "blocks_params_from name n blocks =
     concat (map (\<lambda>(k, b). block_params (name @ ''.'' @ str_nat k) b) (enumerate n blocks))"

text \<open>The configuration as \<^verbatim>\<open>json.load\<close> gives it back: every sequence a list.\<close>

definition listified :: "UNetConfig \<Rightarrow> UNetConfig" where
  "listified cfg =
     cfg \<lparr> top_blocks_channels := PyList (seq_items (top_blocks_channels cfg)),
           top_blocks_n_blocks_per_resolution :=
             PyList (seq_items (top_blocks_n_blocks_per_resolution cfg)),
           top_blocks_has_resampling := PyList (seq_items (top_blocks_has_resampling cfg)),
           top_blocks_dropout := PyList (seq_items (top_blocks_dropout cfg)),
           mid_blocks_channels := PyList (seq_items (mid_blocks_channels cfg)),
           mid_blocks_n_blocks_per_resolution :=
             PyList (seq_items (mid_blocks_n_blocks_per_resolution cfg)),
           mid_blocks_has_resampling := PyList (seq_items (mid_blocks_has_resampling cfg)),
           mid_blocks_dropout := PyList (seq_items (mid_blocks_dropout cfg)) \<rparr>"

text \<open>The name and shape of every parameter of a network, of every entry the modules
  register, and of every entry of a state dict.\<close>

definition shape_table :: "(string \<times> parameter) list \<Rightarrow> (string \<times> int list) list" where
  "shape_table ps = map (\<lambda>(name, p). (name, t_shape (p_value p))) ps"

definition spec_table :: "unet_modules \<Rightarrow> (string \<times> int list) list" where
  "spec_table m = map (\<lambda>(name, shp, rg). (name, shp)) (param_specs m)"

text \<open>
  What every \<^verbatim>\<open>UNet\<close> object satisfies, whatever values training gave its parameters: its
  modules are the ones \<^verbatim>\<open>__init__\<close> builds from its configuration, and its parameters have
  the names and shapes these modules register.
\<close>

definition wf_UNet :: "UNet \<Rightarrow> bool" where
  "wf_UNet net \<longleftrightarrow>
     UNet_modules_init (config net) = Inr (modules net)
     \<and> shape_table (parameters net) = spec_table (modules net)"

definition sd_table :: "(string \<times> tensor) list \<Rightarrow> (string \<times> int list) list" where
  "sd_table sd = map (\<lambda>(name, t). (name, t_shape t)) sd"

text \<open>The events one round of the sampling loop adds: the call of the sampler on the EMA
  network with the noise and the sigmas, and the logging of what it returned.\<close>

definition sampler_call :: "nat \<Rightarrow> images \<Rightarrow> rat list \<Rightarrow> call" where
  "sampler_call ema_ref noise sigmas =
     \<lparr> call_args = [ArgModel ema_ref, ArgTensor noise, ArgSigmas sigmas],
       call_kwargs = [(''clip_denoised'', ArgBool True), (''verbose'', ArgBool True)] \<rparr>"

text \<open>The calls of the sampler in a trace, the number of samples each call is given, and
  the number of images each logging call is given.\<close>

fun sampler_calls :: "event list \<Rightarrow> call list" where
  "sampler_calls [] = []"
| "sampler_calls (SamplerCall cl seen # es) = cl # sampler_calls es"
| "sampler_calls (e # es) = sampler_calls es"

fun tensor_args :: "arg list \<Rightarrow> images list" where
  "tensor_args [] = []"
| "tensor_args (ArgTensor t # as) = t # tensor_args as"
| "tensor_args (a # as) = tensor_args as"

definition drawn_counts :: "event list \<Rightarrow> nat list" where
  "drawn_counts es = concat (map (\<lambda>cl. map length (tensor_args (call_args cl))) (sampler_calls es))"

fun logged_counts :: "event list \<Rightarrow> nat list" where
  "logged_counts [] = []"
| "logged_counts (AddImage t imgs step # es) = length imgs # logged_counts es"
| "logged_counts (e # es) = logged_counts es"

text \<open>The state of the EMA network each call of the sampler was given.\<close>

fun sampler_views :: "event list \<Rightarrow> (string \<times> tensor) list list" where
  "sampler_views [] = []"
| "sampler_views (SamplerCall cl seen # es) = seen # sampler_views es"
| "sampler_views (e # es) = sampler_views es"

fun is_monitoring :: "event \<Rightarrow> bool" where
  "is_monitoring (SamplerCall cl seen) = True"
| "is_monitoring (AddImage t imgs step) = True"
| "is_monitoring _ = False"

text \<open>The module holds two different objects, both in the store.\<close>

definition two_networks :: "LitImprovedConsistencyModel \<Rightarrow> train_state \<Rightarrow> bool" where
  "two_networks self s \<longleftrightarrow>
     model self \<noteq> ema_model self
     \<and> store s (model self) \<noteq> None \<and> store s (ema_model self) \<noteq> None"

text \<open>No parameter of the network requires gradients.\<close>

definition frozen :: "UNet \<Rightarrow> bool" where
  "frozen net \<longleftrightarrow> list_all (\<lambda>(name, p). \<not> requires_grad p) (parameters net)"

text \<open>The network after the optimizer stepped it.\<close>

definition adam_step :: "collaborators \<Rightarrow> UNet \<Rightarrow> UNet" where
  "adam_step c net =
     net \<lparr> parameters :=
       map (\<lambda>(name, p). (name, if requires_grad p
                                 then p \<lparr> p_value := adam c name (p_value p) \<rparr> else p))
         (parameters net) \<rparr>"

text \<open>What training keeps true of the EMA network: it is an object of its own and frozen.\<close>

definition shadow_kept :: "LitImprovedConsistencyModel \<Rightarrow> train_state \<Rightarrow> bool" where
  "shadow_kept self s \<longleftrightarrow>
     two_networks self s \<and> (case store s (ema_model self) of None \<Rightarrow> False | Some n \<Rightarrow> frozen n)"


section \<open>Concrete inputs\<close>

text \<open>A visible directory of three files and an infrared directory of two; the pair
  \<^verbatim>\<open>b.jpg\<close> has different resolutions.\<close>

definition ex_fs :: filesystem where
  "ex_fs =
     \<lparr> fs_listdir = (\<lambda>d. if d = ''datasets/LLVIP/visible/train''
                            then Some [''b.jpg'', ''c.jpg'', ''a.jpg'']
                          else if d = ''datasets/LLVIP/infrared/train''
                            then Some [''b.jpg'', ''a.jpg'']
                          else None),
       fs_image_size = (\<lambda>p. if p = ''datasets/LLVIP/visible/train/a.jpg'' then Some (4, 4)
                             else if p = ''datasets/LLVIP/infrared/train/a.jpg'' then Some (4, 4)
                             else if p = ''datasets/LLVIP/visible/train/b.jpg'' then Some (4, 4)
                             else if p = ''datasets/LLVIP/infrared/train/b.jpg'' then Some (8, 8)
                             else if p = ''datasets/LLVIP/visible/train/c.jpg'' then Some (4, 4)
                             else None) \<rparr>"

definition ex_dm_config :: ImageDataModuleConfig where
  "ex_dm_config =
     \<lparr> data_dir = ''dataset/LLVIP'', image_size_crop = (2, 2), image_size_resize = (1, 1),
       batch_size = 4, num_workers = 8, pin_memory = True, persistent_workers = True \<rparr>"

definition ex_dataset :: PairedDataset where
  "ex_dataset =
     \<lparr> visible_dir = ''datasets/LLVIP/visible/train'',
       infrared_dir = ''datasets/LLVIP/infrared/train'',
       visible_images = [''a.jpg'', ''b.jpg'', ''c.jpg''],
       infrared_images = [''a.jpg'', ''b.jpg''],
       transform = Some setup_transform, crop_size = (2, 2), resize_size = (1, 1) \<rparr>"

definition ex_draws :: "int \<Rightarrow> draws" where
  "ex_draws i = \<lparr> flip_num = 3, flip_den = 4, crop_i = 1, crop_j = 5 \<rparr>"

text \<open>A small network: one level at the top and one in the middle.\<close>

definition ex_config :: UNetConfig where
  "ex_config =
     \<lparr> channels = 3, noise_level_channels = 8, noise_level_scale = 2 / 100, n_heads = 2,
       top_blocks_channels = PyTuple [8],
       top_blocks_n_blocks_per_resolution = PyTuple [1],
       top_blocks_has_resampling = PyTuple [True],
       top_blocks_dropout = PyTuple [0],
       mid_blocks_channels = PyTuple [8],
       mid_blocks_n_blocks_per_resolution = PyTuple [1],
       mid_blocks_has_resampling = PyTuple [False],
       mid_blocks_dropout = PyTuple [3 / 10] \<rparr>"

definition ex_init :: "string \<Rightarrow> int list \<Rightarrow> rat list" where
  "ex_init name shp = [0]"

definition ex_init' :: "string \<Rightarrow> int list \<Rightarrow> rat list" where
  "ex_init' name shp = [of_nat (length name)]"

definition ex_net :: UNet where
  "ex_net = projr (UNet_init ex_init ex_config)"


text \<open>The small network after training changed its values, its checkpoint, and the same
  checkpoint with the weights of a network whose input projection takes 3 channels.\<close>

definition ex_trained :: UNet where
  "ex_trained =
     ex_net \<lparr> parameters :=
       map (\<lambda>(name, p). (name, p \<lparr> p_value := (p_value p) \<lparr> t_data := [1 / 2] \<rparr> \<rparr>))
         (parameters ex_net) \<rparr>"

definition ex_files :: files where
  "ex_files = save_pretrained ex_trained ''checkpoints/llvip'' (\<lambda>p. None)"

definition ex_unconditional_sd :: "(string \<times> tensor) list" where
  "ex_unconditional_sd =
     (''input_projection.weight'', \<lparr> t_shape = [8, 3, 3, 3], t_data = [1 / 2] \<rparr>)
       # tl (state_dict ex_trained)"

definition ex_bad_files :: files where
  "ex_bad_files = ex_files (''checkpoints/llvip/model.pt'' \<mapsto> TorchFile ex_unconditional_sd)"

text \<open>A training module on two copies of the small network, stand-ins for the objective, the
  loss and the sampler (which reads the first sigma), and a batch of two visible and two
  infrared images.\<close>

definition ex_lit_config :: LitImprovedConsistencyModelConfig where
  "ex_lit_config = default_LitImprovedConsistencyModelConfig \<lparr> sample_every_n_steps := 2 \<rparr>"

definition ex_collab :: collaborators where
  "ex_collab =
     \<lparr> consistency_training = (\<lambda>net condition tgt step max_steps.
          Inr \<lparr> predicted = tgt, target = condition, loss_weights = [[2], [4]],
                num_timesteps = 2 \<rparr>),
       pseudo_huber_loss = (\<lambda>p t. Inr (map (\<lambda>(r, r'). map (\<lambda>(a, b). abs (a - b)) (zip r r'))
                                         (zip p t))),
       consistency_sampling = (\<lambda>net y sigmas clip_denoised verbose.
          if sigmas = [] then Inl IndexError else Inr y),
       adam = (\<lambda>name t. t \<lparr> t_data := map (\<lambda>x. x + 1) (t_data t) \<rparr>) \<rparr>"

definition ex_draw :: "nat \<Rightarrow> nat \<Rightarrow> rat" where
  "ex_draw k j = of_nat (10 * k + j)"

definition ex_visible :: images where
  "ex_visible = [[1, 2], [3, 4]]"

definition ex_infrared :: images where
  "ex_infrared = [[0, 0], [1, 1]]"

definition ex_batch :: batch_arg where
  "ex_batch = BatchList [ex_visible, ex_infrared]"

definition ex_lit :: LitImprovedConsistencyModel where
  "ex_lit = \<lparr> model = 0, ema_model = 1, lit_config = ex_lit_config \<rparr>"

definition ex_state :: train_state where
  "ex_state =
     \<lparr> store = ((\<lambda>r. None) (0 \<mapsto> ex_net)) (1 \<mapsto> freeze ex_net),
       next_ref = 2, global_step = 0, trace = [] \<rparr>"

definition ex_output :: ConsistencyOutput where
  "ex_output = \<lparr> predicted = ex_visible, target = ex_infrared, loss_weights = [[2], [4]],
                  num_timesteps = 2 \<rparr>"

definition ex_after :: train_state where
  "ex_after = projr (fit_step ex_collab ex_draw ex_lit 100 ex_batch ex_state)"


section \<open>Basic facts\<close>

lemma bind_err_Inr_iff: "bind_err m f = Inr y \<longleftrightarrow> (\<exists>x. m = Inr x \<and> f x = Inr y)"
  by (cases m) auto

lemma bind_err_Inl_iff:
  "bind_err m f = Inl e \<longleftrightarrow> (m = Inl e \<or> (\<exists>x. m = Inr x \<and> f x = Inl e))"
  by (cases m) auto

lemma py_getitem_in_range:
  "0 \<le> i \<Longrightarrow> i < int (length xs) \<Longrightarrow> py_getitem xs i = Inr (xs ! nat i)"
  by (simp add: py_getitem_def)

lemma py_getitem_past_end:
  "int (length xs) \<le> i \<Longrightarrow> py_getitem xs i = Inl IndexError"
  by (simp add: py_getitem_def)

lemma py_getitem_error: "py_getitem xs i = Inl e \<Longrightarrow> e = IndexError"
  by (auto simp: py_getitem_def split: if_splits)


section \<open>PairedDataset: length and pairing by position\<close>

lemma init_fields:
  assumes "PairedDataset_init fs vdir idir tf crop rsz = Inr ds"
    and "fs_listdir fs vdir = Some vs" and "fs_listdir fs idir = Some is"
  shows "visible_images ds = sort vs" "infrared_images ds = sort is"
    "visible_dir ds = vdir" "infrared_dir ds = idir" "transform ds = tf"
  using assms by (auto simp: PairedDataset_init_def)

lemma item_paths_past_infrared:
  "int (length (infrared_images ds)) \<le> i \<Longrightarrow> item_paths ds i = Inl IndexError"
  by (auto simp: item_paths_def py_getitem_past_end split: sum.splits dest: py_getitem_error)

lemma Image_open_Inr:
  "Image_open fs p = Inr im \<Longrightarrow> pixels_of im = File p"
  by (auto simp: Image_open_def split: option.splits)

lemma TF_resize_Inr:
  "TF_resize im hw = Inr im' \<Longrightarrow> file_of (pixels_of im') = file_of (pixels_of im)"
  by (auto simp: TF_resize_def split: if_splits)

lemma getitem_pair_origin:
  assumes "getitem fs ds rnd i = (out, Inr (Some (a, b)))"
  shows "\<exists>vp ip v3 i3. item_paths ds i = Inr (vp, ip)
           \<and> a = apply_transform (transform ds) v3 \<and> b = apply_transform (transform ds) i3
           \<and> file_of (pixels_of v3) = vp \<and> file_of (pixels_of i3) = ip"
proof -
  from assms obtain vp ip where paths: "item_paths ds i = Inr (vp, ip)"
    by (auto simp: getitem_def split: sum.splits)
  from assms paths obtain vi ii where
    opened: "Image_open fs vp = Inr vi" "Image_open fs ip = Inr ii"
    by (auto simp: getitem_def split: sum.splits)
  have src: "pixels_of vi = File vp" "pixels_of ii = File ip"
    using opened by (simp_all add: Image_open_Inr)
  define flip where "flip = (flip_den rnd < 2 * flip_num rnd)"
  define v1 where "v1 = (if flip then TF_hflip vi else vi)"
  define i1 where "i1 = (if flip then TF_hflip ii else ii)"
  have f1: "file_of (pixels_of v1) = vp" "file_of (pixels_of i1) = ip"
    by (simp_all add: v1_def i1_def TF_hflip_def src)
  from assms paths opened obtain ci cj ch cw where
    crop: "RandomCrop_get_params rnd v1 (crop_size ds) = Inr (ci, cj, ch, cw)"
    by (auto simp: getitem_def Let_def v1_def flip_def split: sum.splits if_splits)
  define v2 where "v2 = TF_crop v1 ci cj ch cw"
  define i2 where "i2 = TF_crop i1 ci cj ch cw"
  have f2: "file_of (pixels_of v2) = vp" "file_of (pixels_of i2) = ip"
    by (simp_all add: v2_def i2_def TF_crop_def f1)
  from assms paths opened crop obtain v3 i3 where
    resized: "TF_resize v2 (resize_size ds) = Inr v3" "TF_resize i2 (resize_size ds) = Inr i3"
    by (auto simp: getitem_def Let_def v1_def i1_def flip_def v2_def i2_def
        split: sum.splits if_splits)
  have f3: "file_of (pixels_of v3) = vp" "file_of (pixels_of i3) = ip"
    using resized f2 by (simp_all add: TF_resize_Inr)
  have "a = apply_transform (transform ds) v3 \<and> b = apply_transform (transform ds) i3"
    using assms paths opened crop resized
    by (auto simp: getitem_def Let_def v1_def i1_def flip_def v2_def i2_def apply_transform_def
        split: if_splits option.splits)
  with paths f3 show ?thesis by blast
qed

lemma getitem_returns_pair:
  assumes paths: "item_paths ds i = Inr (vp, ip)"
    and sizes: "fs_image_size fs vp = Some (w, h)" "fs_image_size fs ip = Some (w, h)"
    and fits: "fst (crop_size ds) \<le> h" "snd (crop_size ds) \<le> w"
    and rsz: "0 < fst (resize_size ds)" "0 < snd (resize_size ds)"
  shows "\<exists>v3 i3. getitem fs ds rnd i
             = ([], Inr (Some (apply_transform (transform ds) v3,
                               apply_transform (transform ds) i3)))
           \<and> file_of (pixels_of v3) = vp \<and> file_of (pixels_of i3) = ip"
proof -
  define vi where "vi = \<lparr> pixels_of = File vp, width = w, height = h \<rparr>"
  define ii where "ii = \<lparr> pixels_of = File ip, width = w, height = h \<rparr>"
  have opened: "Image_open fs vp = Inr vi" "Image_open fs ip = Inr ii"
    using sizes by (simp_all add: Image_open_def vi_def ii_def)
  define flip where "flip = (flip_den rnd < 2 * flip_num rnd)"
  define v1 where "v1 = (if flip then TF_hflip vi else vi)"
  define i1 where "i1 = (if flip then TF_hflip ii else ii)"
  have dims: "width v1 = w" "height v1 = h"
    by (simp_all add: v1_def vi_def TF_hflip_def)
  have f1: "file_of (pixels_of v1) = vp" "file_of (pixels_of i1) = ip"
    by (simp_all add: v1_def i1_def TF_hflip_def vi_def ii_def)
  have "\<exists>ci cj ch cw. RandomCrop_get_params rnd v1 (crop_size ds) = Inr (ci, cj, ch, cw)"
    using fits by (simp add: RandomCrop_get_params_def Let_def dims)
  then obtain ci cj ch cw where
    crop: "RandomCrop_get_params rnd v1 (crop_size ds) = Inr (ci, cj, ch, cw)"
    by blast
  define v2 where "v2 = TF_crop v1 ci cj ch cw"
  define i2 where "i2 = TF_crop i1 ci cj ch cw"
  define v3 where "v3 = \<lparr> pixels_of = Resize (fst (resize_size ds)) (snd (resize_size ds))
      (pixels_of v2), width = snd (resize_size ds), height = fst (resize_size ds) \<rparr>"
  define i3 where "i3 = \<lparr> pixels_of = Resize (fst (resize_size ds)) (snd (resize_size ds))
      (pixels_of i2), width = snd (resize_size ds), height = fst (resize_size ds) \<rparr>"
  have resized: "TF_resize v2 (resize_size ds) = Inr v3" "TF_resize i2 (resize_size ds) = Inr i3"
    using rsz by (simp_all add: TF_resize_def v3_def i3_def)
  have f3: "file_of (pixels_of v3) = vp" "file_of (pixels_of i3) = ip"
    by (simp_all add: v3_def i3_def v2_def i2_def TF_crop_def f1)
  have same: "(width vi, height vi) = (width ii, height ii)"
    by (simp add: vi_def ii_def)
  have "getitem fs ds rnd i
      = ([], Inr (Some (apply_transform (transform ds) v3, apply_transform (transform ds) i3)))"
    using same
    by (simp add: getitem_def paths opened Let_def flip_def[symmetric] v1_def[symmetric]
        i1_def[symmetric] crop v2_def[symmetric] i2_def[symmetric] resized apply_transform_def
        split: option.splits)
  with f3 show ?thesis by blast
qed

text \<open>
  Claim C10. The length of the dataset is the number of files listed in the visible
  directory alone. For an index inside both listings, \<^verbatim>\<open>__getitem__\<close> reads the i-th name of
  the sorted visible listing and the i-th name of the sorted infrared listing; when the two
  files hold images of one size that the crop fits into, and the resize size is not zero,
  it returns a pair, printing nothing, and the two images of the pair are made from these
  two files, in this order. No call returns a pair made from other files than the two at
  its index. For an index at or past the number of infrared files the call ends with
  \<^verbatim>\<open>IndexError\<close>: no pair is returned.
\<close>

theorem paired_dataset_pairs_by_position:
  assumes init: "PairedDataset_init fs vdir idir tf crop rsz = Inr ds"
    and vs: "fs_listdir fs vdir = Some vs" and "is": "fs_listdir fs idir = Some is"
  shows "len_PairedDataset ds = length vs
     \<and> (\<forall>i. 0 \<le> i \<and> i < int (length vs) \<and> i < int (length is) \<longrightarrow>
           item_paths ds i
             = Inr (path_join vdir (sort vs ! nat i), path_join idir (sort is ! nat i)))
     \<and> (\<forall>i rnd w h. 0 \<le> i \<and> i < int (length vs) \<and> i < int (length is)
             \<and> fs_image_size fs (path_join vdir (sort vs ! nat i)) = Some (w, h)
             \<and> fs_image_size fs (path_join idir (sort is ! nat i)) = Some (w, h)
             \<and> fst crop \<le> h \<and> snd crop \<le> w \<and> 0 < fst rsz \<and> 0 < snd rsz \<longrightarrow>
           (\<exists>v3 i3. getitem fs ds rnd i
                       = ([], Inr (Some (apply_transform tf v3, apply_transform tf i3)))
               \<and> file_of (pixels_of v3) = path_join vdir (sort vs ! nat i)
               \<and> file_of (pixels_of i3) = path_join idir (sort is ! nat i)))
     \<and> (\<forall>i rnd out a b. getitem fs ds rnd i = (out, Inr (Some (a, b))) \<longrightarrow>
           (\<exists>vp ip v3 i3. item_paths ds i = Inr (vp, ip)
               \<and> a = apply_transform tf v3 \<and> b = apply_transform tf i3
               \<and> file_of (pixels_of v3) = vp \<and> file_of (pixels_of i3) = ip))
     \<and> (\<forall>i rnd. int (length is) \<le> i \<longrightarrow> getitem fs ds rnd i = ([], Inl IndexError))"
proof -
  note f = init_fields[OF init vs "is"]
  have more: "crop_size ds = crop" "resize_size ds = rsz"
    using init vs "is" by (auto simp: PairedDataset_init_def)
  have len: "len_PairedDataset ds = length vs"
    by (simp add: len_PairedDataset_def f)
  have paths: "item_paths ds i
      = Inr (path_join vdir (sort vs ! nat i), path_join idir (sort is ! nat i))"
    if "0 \<le> i" "i < int (length vs)" "i < int (length is)" for i
    using that by (simp add: item_paths_def f py_getitem_in_range)
  have returns: "\<exists>v3 i3. getitem fs ds rnd i
                       = ([], Inr (Some (apply_transform tf v3, apply_transform tf i3)))
               \<and> file_of (pixels_of v3) = path_join vdir (sort vs ! nat i)
               \<and> file_of (pixels_of i3) = path_join idir (sort is ! nat i)"
    if "0 \<le> i" "i < int (length vs)" "i < int (length is)"
      "fs_image_size fs (path_join vdir (sort vs ! nat i)) = Some (w, h)"
      "fs_image_size fs (path_join idir (sort is ! nat i)) = Some (w, h)"
      "fst crop \<le> h" "snd crop \<le> w" "0 < fst rsz" "0 < snd rsz" for i rnd w h
    using getitem_returns_pair[OF paths[OF that(1,2,3)] that(4,5)] that(6-9)
    by (simp add: more f)
  have origin: "\<exists>vp ip v3 i3. item_paths ds i = Inr (vp, ip)
               \<and> a = apply_transform tf v3 \<and> b = apply_transform tf i3
               \<and> file_of (pixels_of v3) = vp \<and> file_of (pixels_of i3) = ip"
    if "getitem fs ds rnd i = (out, Inr (Some (a, b)))" for i rnd out a b
    using getitem_pair_origin[OF that] by (simp add: f)
  have past: "getitem fs ds rnd i = ([], Inl IndexError)" if "int (length is) \<le> i" for i rnd
  proof -
    have "item_paths ds i = Inl IndexError"
      using that by (intro item_paths_past_infrared) (simp add: f)
    then show ?thesis by (simp add: getitem_def)
  qed
  from len paths returns origin past show ?thesis by blast
qed

lemma ex_dataset_init:
  "LLVIPDataModule_setup ex_fs ex_dm_config = Inr ex_dataset"
  by (simp add: LLVIPDataModule_setup_def PairedDataset_init_def ex_fs_def ex_dm_config_def
      ex_dataset_def)

theorem paired_dataset_pairs_by_position_witness:
  "PairedDataset_init ex_fs ''datasets/LLVIP/visible/train'' ''datasets/LLVIP/infrared/train''
      (Some setup_transform) (2, 2) (1, 1) = Inr ex_dataset
   \<and> len_PairedDataset ex_dataset = 3
   \<and> item_paths ex_dataset 1
       = Inr (''datasets/LLVIP/visible/train/b.jpg'', ''datasets/LLVIP/infrared/train/b.jpg'')
   \<and> (\<exists>v3 i3. getitem ex_fs ex_dataset (ex_draws 0) 0
                 = ([], Inr (Some (setup_transform v3, setup_transform i3)))
         \<and> file_of (pixels_of v3) = ''datasets/LLVIP/visible/train/a.jpg''
         \<and> file_of (pixels_of i3) = ''datasets/LLVIP/infrared/train/a.jpg'')
   \<and> getitem ex_fs ex_dataset (ex_draws 0) 0
       = ([], Inr (Some
           (\<lparr> pixels_of = Lambda_x2m1 (ToTensor (Resize 1 1 (Crop 1 2 2 2
                  (HFlip (File ''datasets/LLVIP/visible/train/a.jpg''))))),
               width = 1, height = 1 \<rparr>,
            \<lparr> pixels_of = Lambda_x2m1 (ToTensor (Resize 1 1 (Crop 1 2 2 2
                  (HFlip (File ''datasets/LLVIP/infrared/train/a.jpg''))))),
               width = 1, height = 1 \<rparr>)))
   \<and> getitem ex_fs ex_dataset (ex_draws 2) 2 = ([], Inl IndexError)"
proof -
  have init: "PairedDataset_init ex_fs ''datasets/LLVIP/visible/train''
      ''datasets/LLVIP/infrared/train'' (Some setup_transform) (2, 2) (1, 1) = Inr ex_dataset"
    using ex_dataset_init by (simp add: LLVIPDataModule_setup_def ex_dm_config_def)
  have vs: "fs_listdir ex_fs ''datasets/LLVIP/visible/train''
      = Some [''b.jpg'', ''c.jpg'', ''a.jpg'']"
    by (simp add: ex_fs_def)
  have "is": "fs_listdir ex_fs ''datasets/LLVIP/infrared/train'' = Some [''b.jpg'', ''a.jpg'']"
    by (simp add: ex_fs_def)
  note t = paired_dataset_pairs_by_position[OF init vs "is"]
  have sv: "sort [''b.jpg'', ''c.jpg'', ''a.jpg''] = [''a.jpg'', ''b.jpg'', ''c.jpg'']"
    by code_simp
  have si: "sort [''b.jpg'', ''a.jpg''] = [''a.jpg'', ''b.jpg'']"
    by code_simp
  have sizes: "fs_image_size ex_fs ''datasets/LLVIP/visible/train/a.jpg'' = Some (4, 4)"
    "fs_image_size ex_fs ''datasets/LLVIP/infrared/train/a.jpg'' = Some (4, 4)"
    by (simp_all add: ex_fs_def)
  from t have "len_PairedDataset ex_dataset = 3" by simp
  moreover from t have "item_paths ex_dataset 1
      = Inr (path_join ''datasets/LLVIP/visible/train'' (sort [''b.jpg'', ''c.jpg'', ''a.jpg''] ! nat 1),
             path_join ''datasets/LLVIP/infrared/train'' (sort [''b.jpg'', ''a.jpg''] ! nat 1))"
    by simp
  then have "item_paths ex_dataset 1
       = Inr (''datasets/LLVIP/visible/train/b.jpg'', ''datasets/LLVIP/infrared/train/b.jpg'')"
    by (simp add: sv si path_join_def)
  moreover note t[THEN conjunct2, THEN conjunct2, THEN conjunct1, rule_format,
      of 0 4 4 "ex_draws 0"]
  then have "\<exists>v3 i3. getitem ex_fs ex_dataset (ex_draws 0) 0
                 = ([], Inr (Some (setup_transform v3, setup_transform i3)))
         \<and> file_of (pixels_of v3) = ''datasets/LLVIP/visible/train/a.jpg''
         \<and> file_of (pixels_of i3) = ''datasets/LLVIP/infrared/train/a.jpg''"
    using sizes by (simp add: sv si path_join_def apply_transform_def)
  moreover have "getitem ex_fs ex_dataset (ex_draws 0) 0
       = ([], Inr (Some
           (\<lparr> pixels_of = Lambda_x2m1 (ToTensor (Resize 1 1 (Crop 1 2 2 2
                  (HFlip (File ''datasets/LLVIP/visible/train/a.jpg''))))),
               width = 1, height = 1 \<rparr>,
            \<lparr> pixels_of = Lambda_x2m1 (ToTensor (Resize 1 1 (Crop 1 2 2 2
                  (HFlip (File ''datasets/LLVIP/infrared/train/a.jpg''))))),
               width = 1, height = 1 \<rparr>)))"
    by code_simp
  moreover from t have "getitem ex_fs ex_dataset (ex_draws 2) 2 = ([], Inl IndexError)"
    by simp
  ultimately show ?thesis using init by simp
qed


section \<open>A pair of different resolutions is returned as \<open>None\<close>, and the batch fails\<close>

lemma getitem_mismatch:
  assumes "item_paths ds i = Inr (vp, ip)"
    and "fs_image_size fs vp = Some sv" and "fs_image_size fs ip = Some si"
    and "sv \<noteq> si"
  shows "getitem fs ds rnd i = ([skip_message i], Inr None)"
proof -
  obtain vw vh iw ih where s: "sv = (vw, vh)" "si = (iw, ih)"
    by (cases sv, cases si) auto
  have "Image_open fs vp = Inr \<lparr> pixels_of = File vp, width = vw, height = vh \<rparr>"
    "Image_open fs ip = Inr \<lparr> pixels_of = File ip, width = iw, height = ih \<rparr>"
    using assms(2,3) by (simp_all add: Image_open_def s)
  then show ?thesis
    using assms(1,4) by (auto simp: getitem_def s)
qed

lemma default_collate_None:
  "None \<in> set items \<Longrightarrow> default_collate items = Inl TypeError"
  by (auto simp: default_collate_def)

lemma next_batch_with_None:
  assumes "fetch_items fs ds rnd indices = (out, Inr items)" and "None \<in> set items"
  shows "next_batch fs (train_dataloader dm_config ds) rnd indices = (out, Inl TypeError)"
  using assms by (simp add: next_batch_def train_dataloader_def default_collate_None)

text \<open>
  Claim C2, evaluated at a dataset whose pair at index 1 has a visible image of 4x4 and an
  infrared image of 8x8 pixels. \<^verbatim>\<open>__getitem__\<close> prints the warning and returns \<open>None\<close>, as
  the claim says. The loader built by \<^verbatim>\<open>train_dataloader\<close> has no \<^verbatim>\<open>collate_fn\<close>, so nothing
  filters the \<open>None\<close>: the batch of indices 0 and 1 ends with \<^verbatim>\<open>TypeError\<close> in the default
  collation, and no batch reaches the training step.
\<close>

theorem mismatched_pair_fails_the_batch:
  "getitem ex_fs ex_dataset (ex_draws 1) 1
     = ([''Skipping image pair at index 1 due to mismatched sizes''], Inr None)
   \<and> dl_collate_fn (train_dataloader ex_dm_config ex_dataset) = None
   \<and> next_batch ex_fs (train_dataloader ex_dm_config ex_dataset) ex_draws [0, 1]
     = ([''Skipping image pair at index 1 due to mismatched sizes''], Inl TypeError)"
proof -
  have g: "getitem ex_fs ex_dataset (ex_draws 1) 1
     = ([''Skipping image pair at index 1 due to mismatched sizes''], Inr None)"
    by code_simp
  have c: "dl_collate_fn (train_dataloader ex_dm_config ex_dataset) = None"
    by (simp add: train_dataloader_def)
  have n: "next_batch ex_fs (train_dataloader ex_dm_config ex_dataset) ex_draws [0, 1]
     = ([''Skipping image pair at index 1 due to mismatched sizes''], Inl TypeError)"
    by code_simp
  from g c n show ?thesis by simp
qed


section \<open>UNet.forward: the condition is concatenated on the channel axis\<close>








lemma ex_net_init: "UNet_init ex_init ex_config = Inr ex_net"
proof -
  have "isl (UNet_init ex_init ex_config) = False"
    by code_simp
  then show ?thesis
    by (cases "UNet_init ex_init ex_config") (simp_all add: ex_net_def)
qed




section \<open>Parameter names are unique\<close>

lemma digit_char_in: "digit_char d \<in> set ''0123456789''"
  unfolding digit_char_def by (rule nth_mem) simp

lemma digit_char_not_dot: "digit_char d \<noteq> CHR ''.''"
  using digit_char_in[of d] by auto

lemma digit_char_eq_iff: "digit_char a = digit_char b \<longleftrightarrow> a mod 10 = b mod 10"
proof -
  have d: "distinct ''0123456789''" by simp
  have "a mod 10 < length ''0123456789''" "b mod 10 < length ''0123456789''" by simp_all
  from nth_eq_iff_index_eq[OF d this] show ?thesis by (simp add: digit_char_def)
qed

lemma str_nat_not_Nil: "str_nat n \<noteq> []"
  by (subst str_nat.simps) simp

lemma str_nat_no_dot: "CHR ''.'' \<notin> set (str_nat n)"
proof (induction n rule: str_nat.induct)
  case (1 n)
  show ?case
  proof (cases "n < 10")
    case True
    then show ?thesis by (subst str_nat.simps) (simp add: digit_char_not_dot[symmetric])
  next
    case False
    with 1 show ?thesis by (subst str_nat.simps) (simp add: digit_char_not_dot[symmetric])
  qed
qed

lemma str_nat_inj: "str_nat m = str_nat n \<Longrightarrow> m = n"
proof (induction m arbitrary: n rule: str_nat.induct)
  case (1 m)
  show ?case
  proof (cases "m < 10")
    case m: True
    show ?thesis
    proof (cases "n < 10")
      case True
      with m 1(2) have "digit_char m = digit_char n"
        by (simp add: str_nat.simps[of m] str_nat.simps[of n])
      with m True show ?thesis by (simp add: digit_char_eq_iff)
    next
      case False
      with m 1(2) show ?thesis
        using str_nat_not_Nil[of "n div 10"]
        by (simp add: str_nat.simps[of m] str_nat.simps[of n])
    qed
  next
    case m: False
    show ?thesis
    proof (cases "n < 10")
      case True
      with m 1(2) show ?thesis
        using str_nat_not_Nil[of "m div 10"]
        by (simp add: str_nat.simps[of m] str_nat.simps[of n])
    next
      case False
      with m 1(2) have e: "str_nat (m div 10) = str_nat (n div 10)"
        and d: "digit_char (m mod 10) = digit_char (n mod 10)"
        by (simp_all add: str_nat.simps[of m] str_nat.simps[of n])
      from 1(1)[OF m e] have "m div 10 = n div 10" .
      moreover from d have "m mod 10 = n mod 10" by (simp add: digit_char_eq_iff)
      ultimately show ?thesis by (metis div_mult_mod_eq)
    qed
  qed
qed

lemma dotted_prefix_eq:
  assumes "xs @ CHR ''.'' # s = ys @ CHR ''.'' # t"
    and "CHR ''.'' \<notin> set xs" and "CHR ''.'' \<notin> set ys"
  shows "xs = ys"
proof -
  have "takeWhile (\<lambda>c. c \<noteq> CHR ''.'') (xs @ CHR ''.'' # s) = xs"
    using assms(2) by (auto simp: takeWhile_tail)
  moreover have "takeWhile (\<lambda>c. c \<noteq> CHR ''.'') (ys @ CHR ''.'' # t) = ys"
    using assms(3) by (auto simp: takeWhile_tail)
  ultimately show ?thesis using assms(1) by simp
qed

lemma block_params_distinct: "distinct (map fst (block_params p b))"
  by (cases b)
    (simp_all add: UNetBlock_params_def SelfAttention_params_def conv_params_def
      groupnorm_params_def linear_params_def)

lemma block_params_prefix:
  "n \<in> set (map fst (block_params p b)) \<Longrightarrow> \<exists>s. n = p @ CHR ''.'' # s"
  by (cases b)
    (auto simp add: UNetBlock_params_def SelfAttention_params_def conv_params_def
      groupnorm_params_def linear_params_def)

lemma blocks_params_from_Cons:
  "blocks_params_from name n (b # bs)
     = block_params (name @ ''.'' @ str_nat n) b @ blocks_params_from name (Suc n) bs"
  by (simp add: blocks_params_from_def)

lemma blocks_params_from_names:
  "x \<in> set (map fst (blocks_params_from name n blocks)) \<Longrightarrow>
     \<exists>k s. n \<le> k \<and> x = name @ CHR ''.'' # str_nat k @ CHR ''.'' # s"
proof (induction blocks arbitrary: n)
  case Nil
  then show ?case by (simp add: blocks_params_from_def)
next
  case (Cons b bs)
  from Cons.prems consider
    (hd) "x \<in> set (map fst (block_params (name @ ''.'' @ str_nat n) b))"
    | (tl) "x \<in> set (map fst (blocks_params_from name (Suc n) bs))"
    by (auto simp: blocks_params_from_Cons)
  then show ?case
  proof cases
    case hd
    from block_params_prefix[OF hd] show ?thesis by auto
  next
    case tl
    from Cons.IH[OF tl] obtain k s where
      "Suc n \<le> k" "x = name @ CHR ''.'' # str_nat k @ CHR ''.'' # s" by blast
    then show ?thesis by (intro exI[of _ k] exI[of _ s]) simp
  qed
qed

lemma blocks_params_from_distinct:
  "distinct (map fst (blocks_params_from name n blocks))"
proof (induction blocks arbitrary: n)
  case Nil
  then show ?case by (simp add: blocks_params_from_def)
next
  case (Cons b bs)
  have "x \<notin> set (map fst (blocks_params_from name (Suc n) bs))"
    if "x \<in> set (map fst (block_params (name @ ''.'' @ str_nat n) b))" for x
  proof
    assume "x \<in> set (map fst (blocks_params_from name (Suc n) bs))"
    from blocks_params_from_names[OF this] obtain k s where
      k: "Suc n \<le> k" "x = name @ CHR ''.'' # str_nat k @ CHR ''.'' # s" by blast
    from block_params_prefix[OF that] obtain t where
      "x = (name @ ''.'' @ str_nat n) @ CHR ''.'' # t" by blast
    with k(2) have "str_nat k @ CHR ''.'' # s = str_nat n @ CHR ''.'' # t" by simp
    from dotted_prefix_eq[OF this str_nat_no_dot str_nat_no_dot] have "k = n"
      by (rule str_nat_inj)
    with k(1) show False by simp
  qed
  with Cons.IH[of "Suc n"] block_params_distinct show ?case
    by (auto simp: blocks_params_from_Cons)
qed

lemma blocks_params_distinct: "distinct (map fst (blocks_params name blocks))"
  using blocks_params_from_distinct[of name 0 blocks]
  by (simp add: blocks_params_from_def blocks_params_def)

lemma blocks_params_seg:
  assumes "x \<in> set (map fst (blocks_params name blocks))" and "CHR ''.'' \<notin> set name"
  shows "seg x = name"
proof -
  from assms(1) have "x \<in> set (map fst (blocks_params_from name 0 blocks))"
    by (simp add: blocks_params_from_def blocks_params_def)
  from blocks_params_from_names[OF this] obtain k s where
    "x = name @ CHR ''.'' # str_nat k @ CHR ''.'' # s" by blast
  with assms(2) show ?thesis by (auto simp: seg_def takeWhile_tail)
qed

lemma distinct_groups:
  assumes "list_all (\<lambda>(g, xs). distinct xs \<and> list_all (\<lambda>x. seg x = g) xs) groups"
    and "distinct (map fst groups)"
  shows "distinct (concat (map snd groups))"
  using assms
proof (induction groups)
  case Nil
  then show ?case by simp
next
  case (Cons gx groups)
  obtain g xs where gx: "gx = (g, xs)" by (cases gx)
  from Cons.prems gx have xs: "distinct xs" "\<And>x. x \<in> set xs \<Longrightarrow> seg x = g"
    and rest: "list_all (\<lambda>(g, xs). distinct xs \<and> list_all (\<lambda>x. seg x = g) xs) groups"
    and g: "g \<notin> fst ` set groups" "distinct (map fst groups)"
    by (auto simp: list_all_iff)
  have "x \<notin> set (concat (map snd groups))" if "x \<in> set xs" for x
  proof
    assume "x \<in> set (concat (map snd groups))"
    then obtain g' ys where m: "(g', ys) \<in> set groups" "x \<in> set ys" by auto
    with rest have "seg x = g'" by (auto simp: list_all_iff)
    with xs(2)[OF that] m(1) g(1) show False by force
  qed
  with Cons.IH[OF rest g(2)] xs(1) show ?case by (auto simp: gx)
qed

lemma blocks_params_group:
  "CHR ''.'' \<notin> set name \<Longrightarrow>
     distinct (map fst (blocks_params name blocks))
     \<and> list_all (\<lambda>x. seg x = name) (map fst (blocks_params name blocks))"
  using blocks_params_distinct[of name blocks] blocks_params_seg[of _ name blocks]
  by (auto simp: list_all_iff)

lemma param_specs_distinct: "distinct (map fst (param_specs m))"
proof -
  let ?ip = "map fst (conv_params ''input_projection'' (conv_in (input_projection m))
      (conv_out (input_projection m)) (conv_kernel (input_projection m))
      (conv_bias (input_projection m)))"
  let ?ne = "map fst (NoiseLevelEmbedding_params ''noise_level_embedding''
      (noise_level_embedding m))"
  let ?te = "map fst (blocks_params ''top_encoder_blocks'' (top_encoder_blocks m))"
  let ?me = "map fst (blocks_params ''mid_encoder_blocks'' (mid_encoder_blocks m))"
  let ?md = "map fst (blocks_params ''mid_decoder_blocks'' (mid_decoder_blocks m))"
  let ?td = "map fst (blocks_params ''top_decoder_blocks'' (top_decoder_blocks m))"
  let ?op = "map fst (conv_params ''output_projection'' (conv_in (output_projection m))
      (conv_out (output_projection m)) (conv_kernel (output_projection m))
      (conv_bias (output_projection m)))"
  let ?groups = "[(''input_projection'', ?ip), (''noise_level_embedding'', ?ne),
      (''top_encoder_blocks'', ?te), (''mid_encoder_blocks'', ?me),
      (''mid_decoder_blocks'', ?md), (''top_decoder_blocks'', ?td),
      (''output_projection'', ?op)]"
  have ip: "distinct ?ip \<and> list_all (\<lambda>x. seg x = ''input_projection'') ?ip"
    by (simp add: conv_params_def seg_def)
  have op: "distinct ?op \<and> list_all (\<lambda>x. seg x = ''output_projection'') ?op"
    by (simp add: conv_params_def seg_def)
  have ne: "distinct ?ne \<and> list_all (\<lambda>x. seg x = ''noise_level_embedding'') ?ne"
    by (simp add: NoiseLevelEmbedding_params_def linear_params_def seg_def)
  have te: "distinct ?te \<and> list_all (\<lambda>x. seg x = ''top_encoder_blocks'') ?te"
    by (rule blocks_params_group) simp
  have me: "distinct ?me \<and> list_all (\<lambda>x. seg x = ''mid_encoder_blocks'') ?me"
    by (rule blocks_params_group) simp
  have md: "distinct ?md \<and> list_all (\<lambda>x. seg x = ''mid_decoder_blocks'') ?md"
    by (rule blocks_params_group) simp
  have td: "distinct ?td \<and> list_all (\<lambda>x. seg x = ''top_decoder_blocks'') ?td"
    by (rule blocks_params_group) simp
  have "distinct (concat (map snd ?groups))"
  proof (rule distinct_groups)
    show "list_all (\<lambda>(g, xs). distinct xs \<and> list_all (\<lambda>x. seg x = g) xs) ?groups"
      using ip ne te me md td op by simp
    show "distinct (map fst ?groups)" by simp
  qed
  then show ?thesis by (simp add: param_specs_def)
qed


section \<open>Checkpoints: saving and loading\<close>

lemma all_ok_as_int: "all_ok (map (as_int \<circ> JInt) xs) = Inr xs"
  by (induction xs) simp_all

lemma all_ok_as_bool: "all_ok (map (as_bool \<circ> JBool) xs) = Inr xs"
  by (induction xs) simp_all

lemma all_ok_as_float: "all_ok (map (as_float \<circ> JFloat) xs) = Inr xs"
  by (induction xs) simp_all

lemma config_roundtrip: "config_from_json (config_to_json cfg) = Inr (listified cfg)"
  by (simp add: config_from_json_def config_to_json_def UNetConfig_fields_def field_def
      all_ok_as_int all_ok_as_bool all_ok_as_float listified_def)

lemma seq_add_items: "seq_add a b = Inr c \<Longrightarrow> seq_items c = seq_items a @ seq_items b"
  by (cases a; cases b) auto

lemma seq_items_slice: "seq_items (seq_slice f s) = f (seq_items s)"
  by (cases s) simp_all

lemma make_top_block_listified: "make_top_block (listified cfg) = make_top_block cfg"
  by (intro ext) (simp add: make_top_block_def listified_def)

lemma make_mid_block_listified: "make_mid_block (listified cfg) = make_mid_block cfg"
  by (intro ext) (simp add: make_mid_block_def listified_def)

lemma listified_fields:
  "channels (listified cfg) = channels cfg"
  "noise_level_channels (listified cfg) = noise_level_channels cfg"
  "noise_level_scale (listified cfg) = noise_level_scale cfg"
  "n_heads (listified cfg) = n_heads cfg"
  "top_blocks_channels (listified cfg) = PyList (seq_items (top_blocks_channels cfg))"
  "top_blocks_n_blocks_per_resolution (listified cfg)
     = PyList (seq_items (top_blocks_n_blocks_per_resolution cfg))"
  "top_blocks_has_resampling (listified cfg) = PyList (seq_items (top_blocks_has_resampling cfg))"
  "top_blocks_dropout (listified cfg) = PyList (seq_items (top_blocks_dropout cfg))"
  "mid_blocks_channels (listified cfg) = PyList (seq_items (mid_blocks_channels cfg))"
  "mid_blocks_n_blocks_per_resolution (listified cfg)
     = PyList (seq_items (mid_blocks_n_blocks_per_resolution cfg))"
  "mid_blocks_has_resampling (listified cfg) = PyList (seq_items (mid_blocks_has_resampling cfg))"
  "mid_blocks_dropout (listified cfg) = PyList (seq_items (mid_blocks_dropout cfg))"
  by (simp_all add: listified_def)

lemma modules_init_listified:
  assumes "UNet_modules_init cfg = Inr m"
  shows "UNet_modules_init (listified cfg) = Inr m"
  using assms
  unfolding UNet_modules_init_def make_encoder_blocks_def make_decoder_blocks_def
  by (auto simp: bind_err_Inr_iff listified_fields make_top_block_listified
      make_mid_block_listified seq_items_slice dest!: seq_add_items)


lemma fst_shape_table: "map fst (shape_table ps) = map fst ps"
  by (induction ps) (auto simp: shape_table_def)

lemma fst_spec_table: "map fst (spec_table m) = map fst (param_specs m)"
  by (simp add: spec_table_def case_prod_unfold comp_def)

lemma fst_sd_table: "map fst (sd_table sd) = map fst sd"
  by (induction sd) (auto simp: sd_table_def)

lemma sd_table_state_dict: "sd_table (state_dict net) = shape_table (parameters net)"
  by (simp add: sd_table_def state_dict_def shape_table_def case_prod_unfold comp_def)

lemma shape_table_new: "shape_table (map (new_parameter init) specs) = map (\<lambda>(name, shp, rg). (name, shp)) specs"
  by (induction specs) (auto simp: shape_table_def new_parameter_def)

lemma UNet_init_wf: "UNet_init init cfg = Inr net \<Longrightarrow> wf_UNet net"
  by (auto simp: UNet_init_def bind_err_Inr_iff wf_UNet_def shape_table_new spec_table_def)

lemma UNet_init_fields:
  assumes "UNet_init init cfg = Inr net"
  shows "config net = cfg" "UNet_modules_init cfg = Inr (modules net)"
    "parameters net = map (new_parameter init) (param_specs (modules net))" "training net"
  using assms by (auto simp: UNet_init_def bind_err_Inr_iff)

lemma map_of_sd_table: "map_of (sd_table sd) k = map_option t_shape (map_of sd k)"
  by (induction sd) (auto simp: sd_table_def)

lemma map_of_shape_table:
  "map_of (shape_table ps) k = map_option (\<lambda>p. t_shape (p_value p)) (map_of ps k)"
  by (induction ps) (auto simp: shape_table_def)

lemma state_dict_matches_iff:
  assumes "distinct (map fst own)"
  shows "state_dict_matches own sd \<longleftrightarrow> map_of (sd_table sd) = map_of (shape_table own)"
proof
  assume m: "state_dict_matches own sd"
  show "map_of (sd_table sd) = map_of (shape_table own)"
  proof
    fix k
    show "map_of (sd_table sd) k = map_of (shape_table own) k"
    proof (cases "map_of own k")
      case None
      then have "k \<notin> set (map fst own)" by (simp add: map_of_eq_None_iff)
      moreover from m have "\<forall>(name, t) \<in> set sd. name \<in> set (map fst own)"
        by (simp add: state_dict_matches_def list_all_iff)
      ultimately have "k \<notin> fst ` set sd"
        by fastforce
      then have "map_of sd k = None" by (simp add: map_of_eq_None_iff)
      with None show ?thesis by (simp add: map_of_sd_table map_of_shape_table)
    next
      case (Some p)
      then have "(k, p) \<in> set own" by (rule map_of_SomeD)
      moreover from m have "\<forall>(name, p) \<in> set own. case map_of sd name of
          None \<Rightarrow> False | Some t \<Rightarrow> t_shape t = t_shape (p_value p)"
        by (simp add: state_dict_matches_def list_all_iff)
      ultimately have "case map_of sd k of
          None \<Rightarrow> False | Some t \<Rightarrow> t_shape t = t_shape (p_value p)"
        by blast
      then obtain t where "map_of sd k = Some t" "t_shape t = t_shape (p_value p)"
        by (cases "map_of sd k") simp_all
      with Some show ?thesis by (simp add: map_of_sd_table map_of_shape_table)
    qed
  qed
next
  assume e: "map_of (sd_table sd) = map_of (shape_table own)"
  have a: "case map_of sd name of None \<Rightarrow> False | Some t \<Rightarrow> t_shape t = t_shape (p_value p)"
    if "(name, p) \<in> set own" for name p
  proof -
    from that assms have "map_of own name = Some p" by (simp add: map_of_is_SomeI)
    then have "map_of (shape_table own) name = Some (t_shape (p_value p))"
      by (simp add: map_of_shape_table)
    with fun_cong[OF e, of name]
    have "map_option t_shape (map_of sd name) = Some (t_shape (p_value p))"
      by (simp add: map_of_sd_table)
    then show ?thesis by (cases "map_of sd name") simp_all
  qed
  have b: "name \<in> set (map fst own)" if "(name, t) \<in> set sd" for name t
  proof (rule ccontr)
    assume "name \<notin> set (map fst own)"
    then have "map_of (shape_table own) name = None"
      by (simp add: map_of_shape_table map_of_eq_None_iff)
    with fun_cong[OF e, of name] have "map_of sd name = None"
      by (simp add: map_of_sd_table)
    then have "name \<notin> fst ` set sd" by (simp add: map_of_eq_None_iff)
    with that show False by force
  qed
  from a b show "state_dict_matches own sd"
    by (auto simp: state_dict_matches_def list_all_iff)
qed

lemma reload_values:
  "distinct (map fst sd) \<Longrightarrow> map (\<lambda>k. (k, the (map_of sd k))) (map fst sd) = sd"
proof (induction sd)
  case Nil
  then show ?case by simp
next
  case (Cons kv sd)
  obtain k v where kv: "kv = (k, v)" by (cases kv)
  from Cons.prems kv have k: "k \<notin> fst ` set sd" and d: "distinct (map fst sd)" by auto
  have "map (\<lambda>x. (x, the (map_of (kv # sd) x))) (map fst sd)
      = map (\<lambda>x. (x, the (map_of sd x))) (map fst sd)"
    using k by (intro map_cong) (auto simp: kv)
  with Cons.IH[OF d] show ?case by (simp add: kv)
qed

lemma load_state_dict_result:
  assumes "state_dict_matches (parameters fresh) sd"
  shows "\<exists>net. load_state_dict fresh sd = Inr net
     \<and> config net = config fresh \<and> modules net = modules fresh
     \<and> training net = training fresh
     \<and> state_dict net = map (\<lambda>k. (k, the (map_of sd k))) (map fst (parameters fresh))
     \<and> map (\<lambda>(name, p). (name, requires_grad p)) (parameters net)
         = map (\<lambda>(name, p). (name, requires_grad p)) (parameters fresh)"
  using assms
  by (simp add: load_state_dict_def state_dict_def case_prod_unfold comp_def)

lemma load_state_dict_fails:
  "\<not> state_dict_matches (parameters fresh) sd \<Longrightarrow> load_state_dict fresh sd = Inl ShapeMismatch"
  by (simp add: load_state_dict_def)

lemma wf_names_distinct: "wf_UNet net \<Longrightarrow> distinct (map fst (parameters net))"
  using param_specs_distinct[of "modules net"] fst_shape_table[of "parameters net"]
    fst_spec_table[of "modules net"]
  by (simp add: wf_UNet_def)


lemma load_saved_state:
  "torch_load (save_pretrained net path fs) (path_join path ''model.pt'') = Inr (state_dict net)"
  by (simp add: torch_load_def save_pretrained_def)

lemma fst_state_dict: "map fst (state_dict net) = map fst (parameters net)"
  by (simp add: state_dict_def case_prod_unfold comp_def)

lemma map_of_keyed:
  "map_of (map (\<lambda>k. (k, f k)) ks) k = (if k \<in> set ks then Some (f k) else None)"
  by (induction ks) auto

lemma map_of_reloaded:
  assumes "state_dict_matches own sd"
  shows "map_of (map (\<lambda>k. (k, the (map_of sd k))) (map fst own)) = map_of sd"
proof
  fix k
  from assms have a: "\<forall>(name, p) \<in> set own. map_of sd name \<noteq> None"
    and b: "\<forall>(name, t) \<in> set sd. name \<in> set (map fst own)"
    by (auto simp: state_dict_matches_def list_all_iff split: option.splits)
  show "map_of (map (\<lambda>k. (k, the (map_of sd k))) (map fst own)) k = map_of sd k"
  proof (cases "k \<in> set (map fst own)")
    case True
    then have "map_of (map (\<lambda>k. (k, the (map_of sd k))) (map fst own)) k
        = Some (the (map_of sd k))"
      by (simp only: map_of_keyed if_True)
    moreover from True a have "map_of sd k \<noteq> None" by fastforce
    ultimately show ?thesis by auto
  next
    case False
    then have "map_of (map (\<lambda>k. (k, the (map_of sd k))) (map fst own)) k = None"
      by (simp only: map_of_keyed if_False)
    moreover from False b have "k \<notin> fst ` set sd" by fastforce
    then have "map_of sd k = None" by (simp add: map_of_eq_None_iff)
    ultimately show ?thesis by simp
  qed
qed

lemma wf_load_state_dict:
  assumes "wf_UNet net" and "load_state_dict net sd = Inr net'"
  shows "wf_UNet net'"
proof -
  from assms(2) have m: "state_dict_matches (parameters net) sd"
    and n: "net' = net \<lparr> parameters :=
        map (\<lambda>(name, p). (name, p \<lparr> p_value := the (map_of sd name) \<rparr>)) (parameters net) \<rparr>"
    by (auto simp: load_state_dict_def split: if_splits)
  have "t_shape (the (map_of sd name)) = t_shape (p_value p)"
    if "(name, p) \<in> set (parameters net)" for name p
    using m that by (auto simp: state_dict_matches_def list_all_iff split: option.splits)
  then have "shape_table (parameters net') = shape_table (parameters net)"
    by (auto simp: n shape_table_def)
  with assms(1) show ?thesis
    by (simp add: wf_UNet_def n)
qed

lemma shape_ema_tensor: "t_shape (ema_tensor d sh on) = t_shape sh"
  by (simp add: ema_tensor_def)

lemma wf_ema_network: "wf_UNet shadow \<Longrightarrow> wf_UNet (ema_network d online shadow)"
proof -
  have "shape_table (parameters (ema_network d online shadow)) = shape_table (parameters shadow)"
    by (auto simp: ema_network_def shape_table_def shape_ema_tensor split: option.splits)
  then show "wf_UNet shadow \<Longrightarrow> wf_UNet (ema_network d online shadow)"
    by (simp add: wf_UNet_def ema_network_def)
qed

lemma wf_freeze: "wf_UNet net \<Longrightarrow> wf_UNet (freeze net)"
proof -
  have "shape_table (parameters (freeze net)) = shape_table (parameters net)"
    by (auto simp: freeze_def shape_table_def)
  then show "wf_UNet net \<Longrightarrow> wf_UNet (freeze net)"
    by (simp add: wf_UNet_def freeze_def)
qed


lemma shape_table_retrained:
  "shape_table (map (\<lambda>(name, p). (name, p \<lparr> p_value := (p_value p) \<lparr> t_data := f name p \<rparr> \<rparr>)) ps)
     = shape_table ps"
  by (induction ps) (auto simp: shape_table_def)

lemma ex_trained_wf: "wf_UNet ex_trained"
  using UNet_init_wf[OF ex_net_init]
  by (simp add: wf_UNet_def ex_trained_def shape_table_retrained)



text \<open>
  Claim C6. \<^verbatim>\<open>from_pretrained\<close> builds the network from the stored configuration before it
  reads the parameter file: when the constructor fails, its exception is the result. When
  the names and shapes stored in the parameter file are not the ones the new network's
  modules register, the result is \<open>ShapeMismatch\<close> and no network is returned. When they
  are the same, the loaded network has the modules built from the configuration and the
  stored values.
\<close>

theorem load_fails_on_shape_mismatch:
  assumes "read_json fs (path_join path ''config.json'') = Inr j"
    and "config_from_json j = Inr cfg"
  shows "(\<forall>e. UNet_init init cfg = Inl e \<longrightarrow> from_pretrained init fs path = Inl e)
     \<and> (\<forall>fresh sd. UNet_init init cfg = Inr fresh
            \<and> torch_load fs (path_join path ''model.pt'') = Inr sd
            \<and> map_of (sd_table sd) \<noteq> map_of (spec_table (modules fresh))
          \<longrightarrow> from_pretrained init fs path = Inl ShapeMismatch
              \<and> (\<forall>net. from_pretrained init fs path \<noteq> Inr net))
     \<and> (\<forall>fresh sd. UNet_init init cfg = Inr fresh
            \<and> torch_load fs (path_join path ''model.pt'') = Inr sd
            \<and> map_of (sd_table sd) = map_of (spec_table (modules fresh))
          \<longrightarrow> (\<exists>net. from_pretrained init fs path = Inr net
                \<and> config net = cfg \<and> modules net = modules fresh
                \<and> UNet_modules_init cfg = Inr (modules net)
                \<and> map_of (state_dict net) = map_of sd))"
proof -
  have first: "from_pretrained init fs path = Inl e" if "UNet_init init cfg = Inl e" for e
    using assms that by (simp add: from_pretrained_def)
  have own: "shape_table (parameters fresh) = spec_table (modules fresh)"
    and d: "distinct (map fst (parameters fresh))"
    if "UNet_init init cfg = Inr fresh" for fresh
    using UNet_init_wf[OF that] wf_names_distinct[of fresh] by (simp_all add: wf_UNet_def)
  have bad: "from_pretrained init fs path = Inl ShapeMismatch
      \<and> (\<forall>net. from_pretrained init fs path \<noteq> Inr net)"
    if i: "UNet_init init cfg = Inr fresh"
      and l: "torch_load fs (path_join path ''model.pt'') = Inr sd"
      and ne: "map_of (sd_table sd) \<noteq> map_of (spec_table (modules fresh))" for fresh sd
  proof -
    from ne have "\<not> state_dict_matches (parameters fresh) sd"
      by (simp add: state_dict_matches_iff[OF d[OF i]] own[OF i])
    then have "load_state_dict fresh sd = Inl ShapeMismatch"
      by (rule load_state_dict_fails)
    then show ?thesis
      using assms i l by (simp add: from_pretrained_def)
  qed
  have good: "\<exists>net. from_pretrained init fs path = Inr net
        \<and> config net = cfg \<and> modules net = modules fresh
        \<and> UNet_modules_init cfg = Inr (modules net)
        \<and> map_of (state_dict net) = map_of sd"
    if i: "UNet_init init cfg = Inr fresh"
      and l: "torch_load fs (path_join path ''model.pt'') = Inr sd"
      and eq: "map_of (sd_table sd) = map_of (spec_table (modules fresh))" for fresh sd
  proof -
    from eq have ok: "state_dict_matches (parameters fresh) sd"
      by (simp add: state_dict_matches_iff[OF d[OF i]] own[OF i])
    from load_state_dict_result[OF ok] obtain net where
      n: "load_state_dict fresh sd = Inr net" "config net = config fresh"
        "modules net = modules fresh"
        "state_dict net = map (\<lambda>k. (k, the (map_of sd k))) (map fst (parameters fresh))"
      by blast
    have "from_pretrained init fs path = Inr net"
      using assms i l n(1) by (simp add: from_pretrained_def)
    moreover have "map_of (state_dict net) = map_of sd"
      using map_of_reloaded[OF ok] by (simp add: n(4))
    ultimately show ?thesis
      using n(2,3) UNet_init_fields(1,2)[OF i] by simp
  qed
  from first bad good show ?thesis by blast
qed

lemma ex_checkpoint_paths:
  "path_join ''checkpoints/llvip'' ''config.json'' = ''checkpoints/llvip/config.json''"
  "path_join ''checkpoints/llvip'' ''model.pt'' = ''checkpoints/llvip/model.pt''"
  by (simp_all add: path_join_def)

lemma ex_trained_fields: "config ex_trained = ex_config" "modules ex_trained = modules ex_net"
  using UNet_init_fields(1)[OF ex_net_init] by (simp_all add: ex_trained_def)

lemma ex_expected_weight:
  "map_of (spec_table (modules ex_net)) ''input_projection.weight'' = Some [8, 6, 3, 3]"
  by code_simp

theorem load_fails_on_shape_mismatch_witness:
  "read_json ex_bad_files (path_join ''checkpoints/llvip'' ''config.json'')
     = Inr (config_to_json ex_config)
   \<and> config_from_json (config_to_json ex_config) = Inr (listified ex_config)
   \<and> from_pretrained ex_init' ex_bad_files ''checkpoints/llvip'' = Inl ShapeMismatch
   \<and> (\<exists>net. from_pretrained ex_init' ex_files ''checkpoints/llvip'' = Inr net
         \<and> map_of (state_dict net) = map_of (state_dict ex_trained))"
proof -
  have r: "read_json ex_bad_files (path_join ''checkpoints/llvip'' ''config.json'')
      = Inr (config_to_json ex_config)"
    by (simp add: ex_bad_files_def ex_files_def read_json_def save_pretrained_def
        ex_checkpoint_paths ex_trained_fields)
  have r': "read_json ex_files (path_join ''checkpoints/llvip'' ''config.json'')
      = Inr (config_to_json ex_config)"
    by (simp add: ex_files_def read_json_def save_pretrained_def
        ex_checkpoint_paths ex_trained_fields)
  have c: "config_from_json (config_to_json ex_config) = Inr (listified ex_config)"
    by (rule config_roundtrip)
  have m: "UNet_modules_init (listified ex_config) = Inr (modules ex_net)"
    using UNet_init_fields(2)[OF ex_net_init] by (rule modules_init_listified)
  define fresh where "fresh = \<lparr> config = listified ex_config, modules = modules ex_net,
      parameters = map (new_parameter ex_init') (param_specs (modules ex_net)), training = True \<rparr>"
  have i: "UNet_init ex_init' (listified ex_config) = Inr fresh"
    by (simp add: UNet_init_def m fresh_def)
  have mm: "modules fresh = modules ex_net"
    by (simp add: fresh_def)
  have l: "torch_load ex_bad_files (path_join ''checkpoints/llvip'' ''model.pt'')
      = Inr ex_unconditional_sd"
    by (simp add: ex_bad_files_def torch_load_def ex_checkpoint_paths)
  have l': "torch_load ex_files (path_join ''checkpoints/llvip'' ''model.pt'')
      = Inr (state_dict ex_trained)"
    by (simp add: ex_files_def load_saved_state)
  have "map_of (sd_table ex_unconditional_sd) ''input_projection.weight'' = Some [8, 3, 3, 3]"
    by (simp add: sd_table_def ex_unconditional_sd_def)
  with ex_expected_weight
  have ne: "map_of (sd_table ex_unconditional_sd) \<noteq> map_of (spec_table (modules fresh))"
    by (auto simp: mm dest: fun_cong[where x = "''input_projection.weight''"])
  have eq: "map_of (sd_table (state_dict ex_trained)) = map_of (spec_table (modules fresh))"
    using ex_trained_wf by (simp add: sd_table_state_dict wf_UNet_def mm ex_trained_fields)
  note bad = load_fails_on_shape_mismatch[OF r c, of ex_init']
  note good = load_fails_on_shape_mismatch[OF r' c, of ex_init']
  from bad i l ne have "from_pretrained ex_init' ex_bad_files ''checkpoints/llvip''
      = Inl ShapeMismatch"
    by blast
  moreover from good i l' eq
  have "\<exists>net. from_pretrained ex_init' ex_files ''checkpoints/llvip'' = Inr net
         \<and> map_of (state_dict net) = map_of (state_dict ex_trained)"
    by blast
  ultimately show ?thesis using r c by simp
qed


section \<open>training_step: the loss\<close>

lemma ex_state_fields:
  "store ex_state (model ex_lit) = Some ex_net"
  "store ex_state (ema_model ex_lit) = Some (freeze ex_net)"
  "global_step ex_state = 0" "trace ex_state = []"
  "model ex_lit \<noteq> ema_model ex_lit" "lit_config ex_lit = ex_lit_config"
  by (simp_all add: ex_state_def ex_lit_def)

lemma ex_batch_parts:
  "unpack_batch ex_batch = Inr (ex_visible, ex_infrared)"
  "batch_images ex_batch = Inr ex_visible"
  by (simp_all add: ex_batch_def batch_images_def py_getitem_def)

lemma ex_collab_results:
  "consistency_training ex_collab net ex_infrared ex_visible step max_steps = Inr ex_output"
  "pseudo_huber_loss ex_collab (predicted ex_output) (target ex_output) = Inr [[1, 2], [2, 3]]"
  "sg \<noteq> [] \<Longrightarrow> consistency_sampling ex_collab net y sg True True = Inr y"
  "mul_images [[1, 2], [2, 3]] (loss_weights ex_output) = Inr [[2, 4], [8, 12]]"
  by (simp_all add: ex_collab_def ex_output_def ex_visible_def ex_infrared_def mul_images_def
      mul_row_def broadcast2_def)

lemma all_ok_Inr_map: "all_ok (map (\<lambda>x. Inr (f x)) xs) = Inr (map f xs)"
  by (induction xs) simp_all

lemma mul_row_per_sample: "mul_row r [w] = Inr (map (\<lambda>x. x * w) r)"
proof (cases "length r = 1")
  case True
  then obtain x where "r = [x]" by (cases r) auto
  then show ?thesis by (simp add: mul_row_def broadcast2_def)
next
  case False
  then show ?thesis by (simp add: mul_row_def broadcast2_def comp_def)
qed

lemma mul_images_per_sample:
  assumes "length l = length ws"
  shows "mul_images l (map (\<lambda>w. [w]) ws) = Inr (map (\<lambda>(r, w). map (\<lambda>x. x * w) r) (zip l ws))"
proof -
  have "broadcast2 l (map (\<lambda>w. [w]) ws) = Inr (zip l (map (\<lambda>w. [w]) ws))"
    using assms by (simp add: broadcast2_def)
  moreover have "map (\<lambda>(r, r'). mul_row r r') (zip l (map (\<lambda>w. [w]) ws))
      = map (\<lambda>p. Inr ((\<lambda>(r, w). map (\<lambda>x. x * w) r) p)) (zip l ws)"
    by (simp add: zip_map2 case_prod_unfold mul_row_per_sample)
  ultimately show ?thesis
    by (simp add: mul_images_def all_ok_Inr_map)
qed

lemma sum_list_rows:
  assumes "\<And>r. r \<in> set rows \<Longrightarrow> length r = n"
  shows "sum_list (concat rows) = (\<Sum>b<length rows. \<Sum>j<n. rows ! b ! j)"
    and "length (concat rows) = length rows * n"
  using assms
proof (induction rows rule: rev_induct)
  case Nil
  { case 1 show ?case by simp }
  { case 2 show ?case by simp }
next
  case (snoc r rows)
  { case 1
    have r: "length r = n" using 1 by simp
    have rows: "\<And>q. q \<in> set rows \<Longrightarrow> length q = n" using 1 by simp
    have "sum_list r = (\<Sum>j<n. r ! j)"
      using r by (simp add: sum_list_sum_nth atLeast0LessThan)
    moreover have "(\<Sum>b<length rows. \<Sum>j<n. (rows @ [r]) ! b ! j)
        = (\<Sum>b<length rows. \<Sum>j<n. rows ! b ! j)"
      by (intro sum.cong) (simp_all add: nth_append)
    ultimately show ?case
      using snoc.IH(1)[OF rows] by (simp add: nth_append)
  }
  { case 2
    have r: "length r = n" using 2 by simp
    have rows: "\<And>q. q \<in> set rows \<Longrightarrow> length q = n" using 2 by simp
    show ?case using snoc.IH(2)[OF rows] r by simp
  }
qed

lemma weighted_rows:
  assumes "length l = length ws" and "\<forall>r \<in> set l. length r = n"
  shows "\<And>r. r \<in> set (map (\<lambda>(r, w). map (\<lambda>x. x * w) r) (zip l ws)) \<Longrightarrow> length r = n"
    and "length (map (\<lambda>(r, w). map (\<lambda>x. x * w) r) (zip l ws)) = length l"
    and "\<And>b j. b < length l \<Longrightarrow> j < n \<Longrightarrow>
           map (\<lambda>(r, w). map (\<lambda>x. x * w) r) (zip l ws) ! b ! j = l ! b ! j * ws ! b"
  using assms by (auto dest!: set_zip_leftD)

text \<open>
  Claim C8. \<^verbatim>\<open>training_step\<close> gives the predicted and the target tensor of the objective, as
  they are returned, to the pseudo-Huber loss, multiplies the result elementwise by the
  loss weights and takes the mean. With one weight per sample (a tensor of shape [B, 1]
  against a loss of shape [B, N], both not empty) the loss is the sum over all samples b
  and elements j of \<open>l b j * w b\<close>, divided by \<open>B * N\<close>.
\<close>

theorem training_step_loss:
  assumes batch: "batch = BatchList [visible, infrared]"
    and net: "store s (model self) = Some net"
    and out: "consistency_training c net infrared visible (global_step s) max_steps
        = Inr output"
    and huber: "pseudo_huber_loss c (predicted output) (target output) = Inr l"
    and rows: "\<forall>r \<in> set l. length r = n"
    and weights: "loss_weights output = map (\<lambda>w. [w]) ws" "length ws = length l"
    and nonempty: "l \<noteq> []" "0 < n"
  shows "\<exists>s'. training_step c self max_steps batch s
        = Inr (Some ((\<Sum>b<length l. \<Sum>j<n. l ! b ! j * ws ! b) / of_nat (length l * n)), s')"
proof -
  let ?w = "map (\<lambda>(r, w). map (\<lambda>x. x * w) r) (zip l ws)"
  have len: "length l = length ws" using weights(2) by simp
  note w = weighted_rows[OF len rows]
  have m: "mul_images l (loss_weights output) = Inr ?w"
    using mul_images_per_sample[OF len] by (simp add: weights(1))
  have "sum_list (concat ?w) = (\<Sum>b<length ?w. \<Sum>j<n. ?w ! b ! j)"
    using w(1) by (rule sum_list_rows(1))
  also have "\<dots> = (\<Sum>b<length l. \<Sum>j<n. l ! b ! j * ws ! b)"
  proof (intro sum.cong)
    show "{..<length ?w} = {..<length l}" using len by simp
    show "{..<n} = {..<n}" by simp
    fix b j assume "b \<in> {..<length l}" "j \<in> {..<n}"
    then have "b < length l" "j < n" by simp_all
    then show "?w ! b ! j = l ! b ! j * ws ! b" using w(3)[of b j] by simp
  qed
  finally have total: "sum_list (concat ?w) = (\<Sum>b<length l. \<Sum>j<n. l ! b ! j * ws ! b)" .
  have count: "length (concat ?w) = length l * n"
    using sum_list_rows(2)[of ?w n] w(1) by (simp only: w(2))
  have "concat ?w \<noteq> []"
    using count nonempty by (metis length_0_conv length_greater_0_conv mult_is_0 less_numeral_extra(3))
  then have mean: "tensor_mean ?w
      = Some ((\<Sum>b<length l. \<Sum>j<n. l ! b ! j * ws ! b) / of_nat (length l * n))"
    by (simp add: tensor_mean_def Let_def total count)
  show ?thesis
    by (simp add: training_step_def deref_def batch net out huber m mean Let_def)
qed

theorem training_step_loss_witness:
  "\<exists>s'. training_step ex_collab ex_lit 100 ex_batch ex_state = Inr (Some (13 / 2), s')"
proof -
  have rows: "\<forall>r \<in> set [[1, 2], [2, 3 :: rat]]. length r = 2"
    by simp
  have b: "ex_batch = BatchList [ex_visible, ex_infrared]"
    by (simp add: ex_batch_def)
  have ct: "consistency_training ex_collab ex_net ex_infrared ex_visible (global_step ex_state) 100
      = Inr ex_output"
    by (rule ex_collab_results(1))
  have w: "loss_weights ex_output = map (\<lambda>w. [w]) [2, 4]"
    "length [2, 4 :: rat] = length [[1, 2], [2, 3 :: rat]]"
    by (simp_all add: ex_output_def)
  have e: "(\<Sum>b<length [[1, 2], [2, 3 :: rat]]. \<Sum>j<2. [[1, 2], [2, 3]] ! b ! j * [2, 4] ! b)
      / of_nat (length [[1, 2], [2, 3 :: rat]] * 2) = (13 / 2 :: rat)"
    by (simp add: lessThan_Suc numeral_2_eq_2)
  from training_step_loss[OF b ex_state_fields(1) ct ex_collab_results(2) rows w]
  obtain s' where "training_step ex_collab ex_lit 100 ex_batch ex_state
      = Inr (Some ((\<Sum>b<length [[1, 2], [2, 3 :: rat]]. \<Sum>j<2. [[1, 2], [2, 3]] ! b ! j * [2, 4] ! b)
      / of_nat (length [[1, 2], [2, 3 :: rat]] * 2)), s')"
    by auto
  then have "training_step ex_collab ex_lit 100 ex_batch ex_state = Inr (Some (13 / 2), s')"
    unfolding e .
  then show ?thesis ..
qed


section \<open>Monitoring: what the sampler is called with\<close>

lemma sampler_calls_append: "sampler_calls (xs @ ys) = sampler_calls xs @ sampler_calls ys"
  by (induction xs rule: sampler_calls.induct) simp_all

lemma logged_counts_append: "logged_counts (xs @ ys) = logged_counts xs @ logged_counts ys"
  by (induction xs rule: logged_counts.induct) simp_all

lemma sampler_views_append: "sampler_views (xs @ ys) = sampler_views xs @ sampler_views ys"
  by (induction xs rule: sampler_views.induct) simp_all

lemma drawn_counts_append: "drawn_counts (xs @ ys) = drawn_counts xs @ drawn_counts ys"
  by (simp add: drawn_counts_def sampler_calls_append)

lemma length_randn_like: "length (randn_like draw t) = length t"
  by (simp add: randn_like_def)

lemma length_clamp_images: "length (clamp_images t) = length t"
  by (simp add: clamp_images_def)

lemma log_images_Inr:
  "log_images imgs t step s = Inr s' \<longleftrightarrow>
     imgs \<noteq> [] \<and> s' = emit (AddImage t (clamp_images imgs) step) s"
  by (auto simp: log_images_def)

lemma sample_loop_trace:
  assumes "sample_loop c self noise sgs s = Inr s'"
    and "store s (ema_model self) = Some ema"
  shows "store s' = store s \<and> global_step s' = global_step s
     \<and> (\<exists>new. trace s' = trace s @ new
           \<and> list_all is_monitoring new
           \<and> sampler_calls new = map (sampler_call (ema_model self) noise) sgs
           \<and> sampler_views new = map (\<lambda>sg. state_dict ema) sgs
           \<and> list_all2 (\<lambda>k sg. \<exists>out. consistency_sampling c ema noise sg True True = Inr out
                                    \<and> k = length out) (logged_counts new) sgs)"
  using assms
proof (induction sgs arbitrary: s)
  case Nil
  then show ?case by simp
next
  case (Cons sg sgs)
  define e1 where "e1 = SamplerCall (sampler_call (ema_model self) noise sg) (state_dict ema)"
  from Cons.prems obtain out s2 where
    out: "consistency_sampling c ema noise sg True True = Inr out"
    and logged: "log_images (clamp_images out) (GeneratedSamples sg) (global_step (emit e1 s))
                   (emit e1 s) = Inr s2"
    and rest: "sample_loop c self noise sgs s2 = Inr s'"
    by (auto simp: deref_def bind_err_Inr_iff Let_def e1_def sampler_call_def)
  define e2 where
    "e2 = AddImage (GeneratedSamples sg) (clamp_images (clamp_images out)) (global_step s)"
  from logged have s2: "s2 = emit e2 (emit e1 s)"
    by (simp add: log_images_Inr e2_def emit_def)
  have st: "store s2 = store s" "global_step s2 = global_step s" "trace s2 = trace s @ [e1, e2]"
    by (simp_all add: s2 emit_def)
  from Cons.IH[OF rest] Cons.prems(2) st obtain new where
    new: "store s' = store s" "global_step s' = global_step s"
      "trace s' = trace s @ [e1, e2] @ new" "list_all is_monitoring new"
      "sampler_calls new = map (sampler_call (ema_model self) noise) sgs"
      "sampler_views new = map (\<lambda>sg. state_dict ema) sgs"
      "list_all2 (\<lambda>k sg. \<exists>out. consistency_sampling c ema noise sg True True = Inr out
                                    \<and> k = length out) (logged_counts new) sgs"
    by auto
  show ?case
    using new out
    by (intro conjI exI[of _ "[e1, e2] @ new"])
      (simp_all add: e1_def e2_def length_clamp_images)
qed

lemma sample_loop_returns:
  assumes "store s (ema_model self) = Some ema"
    and "\<And>sg. sg \<in> set sgs \<Longrightarrow>
           \<exists>out. consistency_sampling c ema noise sg True True = Inr out \<and> out \<noteq> []"
  shows "\<exists>s'. sample_loop c self noise sgs s = Inr s'"
  using assms
proof (induction sgs arbitrary: s)
  case Nil
  then show ?case by simp
next
  case (Cons sg sgs)
  from Cons.prems(2)[of sg] obtain out where
    out: "consistency_sampling c ema noise sg True True = Inr out" "out \<noteq> []"
    by auto
  have "\<exists>s'. sample_loop c self noise sgs s2 = Inr s'"
    if "store s2 = store s" for s2
    using Cons.IH[of s2] Cons.prems that by simp
  then show ?case
    using Cons.prems(1) out
    by (simp add: deref_def Let_def log_images_def emit_def clamp_images_def)
qed

lemma py_slice_to_count:
  "0 \<le> k \<Longrightarrow> length (py_slice_to xs (min k (int (length xs)))) = nat (min k (int (length xs)))"
  by (simp add: py_slice_to_def)

lemma py_slice_to_take:
  "0 \<le> k \<Longrightarrow> py_slice_to xs (min k (int (length xs))) = take (nat k) xs"
  by (simp add: py_slice_to_def min_def)

lemma list_all2_counts:
  assumes "list_all2 (\<lambda>k sg. \<exists>out. f sg = Inr out \<and> k = length out) ks sgs"
    and "\<And>sg out. sg \<in> set sgs \<Longrightarrow> f sg = Inr out \<Longrightarrow> length out = n"
  shows "ks = replicate (length sgs) n"
  using assms
proof (induction ks sgs rule: list_all2_induct)
  case Nil
  then show ?case by simp
next
  case (Cons k ks sg sgs)
  then show ?case by auto
qed

lemma drawn_counts_calls:
  "sampler_calls new = map (sampler_call r noise) sgs \<Longrightarrow>
     drawn_counts new = replicate (length sgs) (length noise)"
  by (simp add: drawn_counts_def sampler_call_def comp_def map_replicate_const)

text \<open>
  Claim C9. Let \<^verbatim>\<open>num_samples\<close> be at least 1 and the batch hold at least one image, and let
  n be the minimum of \<^verbatim>\<open>num_samples\<close> and the batch size. The noise is drawn for the first
  \<^verbatim>\<open>num_samples\<close> images of the batch, all of them when there are fewer. When each call the
  loop makes of the sampler, on this noise and a configured sigma sequence, returns as many
  samples as the noise has, \<^verbatim>\<open>__sample_and_log_samples\<close> returns, and: n is at most the batch
  size, every call of the sampler is given noise for n samples, and every logging call (the
  ground truth and one per sigma sequence) is given n images.
\<close>

theorem monitoring_sample_count:
  assumes pos: "0 < num_samples (lit_config self)"
    and imgs: "batch_images batch = Inr imgs" and some: "imgs \<noteq> []"
    and ema: "store s (ema_model self) = Some ema"
    and sampler: "\<forall>sg \<in> set (sampling_sigmas (lit_config self)).
          \<exists>out. consistency_sampling c ema
                  (randn_like draw (take (nat (num_samples (lit_config self))) imgs)) sg True True
                = Inr out
             \<and> length out = length (take (nat (num_samples (lit_config self))) imgs)"
  shows "\<exists>s' new. sample_and_log_samples c draw self batch s = Inr s'
      \<and> trace s' = trace s @ new
      \<and> nat (min (num_samples (lit_config self)) (int (length imgs))) \<le> length imgs
      \<and> drawn_counts new
          = replicate (length (sampling_sigmas (lit_config self)))
              (nat (min (num_samples (lit_config self)) (int (length imgs))))
      \<and> logged_counts new
          = replicate (Suc (length (sampling_sigmas (lit_config self))))
              (nat (min (num_samples (lit_config self)) (int (length imgs))))"
proof -
  let ?n = "min (num_samples (lit_config self)) (int (length imgs))"
  let ?sgs = "sampling_sigmas (lit_config self)"
  define part where "part = py_slice_to imgs ?n"
  define noise where "noise = randn_like draw part"
  define e0 where "e0 = AddImage GroundTruth (clamp_images part) (global_step s)"
  define s1 where "s1 = emit e0 s"
  have part_take: "part = take (nat (num_samples (lit_config self))) imgs"
    unfolding part_def using pos by (intro py_slice_to_take) simp
  have len: "length part = nat ?n"
    unfolding part_def using pos by (intro py_slice_to_count) simp
  have part_some: "part \<noteq> []"
    using pos some by (simp add: part_take)
  have noise_len: "length noise = nat ?n"
    by (simp add: noise_def length_randn_like len)
  have run: "sample_and_log_samples c draw self batch s = sample_loop c self noise ?sgs s1"
    using part_some
    by (simp add: sample_and_log_samples_def imgs Let_def part_def[symmetric]
        noise_def[symmetric] s1_def e0_def log_images_def)
  have s1: "store s1 = store s" "trace s1 = trace s @ [e0]"
    by (simp_all add: s1_def emit_def)
  have ema1: "store s1 (ema_model self) = Some ema"
    using ema by (simp add: s1)
  have each: "\<exists>out. consistency_sampling c ema noise sg True True = Inr out
      \<and> length out = nat ?n" if "sg \<in> set ?sgs" for sg
    using sampler that len by (simp add: noise_def part_take)
  have "\<exists>out. consistency_sampling c ema noise sg True True = Inr out \<and> out \<noteq> []"
    if "sg \<in> set ?sgs" for sg
    using each[OF that] len part_some by auto
  from sample_loop_returns[OF ema1 this] obtain s' where
    s': "sample_loop c self noise ?sgs s1 = Inr s'" by blast
  from sample_loop_trace[OF s' ema1] obtain new where
    new: "trace s' = trace s1 @ new"
      "sampler_calls new = map (sampler_call (ema_model self) noise) ?sgs"
      "list_all2 (\<lambda>k sg. \<exists>out. consistency_sampling c ema noise sg True True = Inr out
                                    \<and> k = length out) (logged_counts new) ?sgs"
    by blast
  have "\<And>sg out. sg \<in> set ?sgs \<Longrightarrow> consistency_sampling c ema noise sg True True = Inr out
      \<Longrightarrow> length out = nat ?n"
    using each by (metis sum.inject(2))
  from list_all2_counts[OF new(3) this]
  have logged: "logged_counts new = replicate (length ?sgs) (nat ?n)" .
  have drawn: "drawn_counts new = replicate (length ?sgs) (nat ?n)"
    using drawn_counts_calls[OF new(2)] by (simp add: noise_len)
  have "trace s' = trace s @ e0 # new"
    by (simp add: new(1) s1)
  moreover have "drawn_counts (e0 # new) = replicate (length ?sgs) (nat ?n)"
    using drawn by (simp add: drawn_counts_def e0_def)
  moreover have "logged_counts (e0 # new) = replicate (Suc (length ?sgs)) (nat ?n)"
    using logged by (simp add: e0_def length_clamp_images len)
  moreover have "nat ?n \<le> length imgs" by simp
  ultimately show ?thesis
    using run s' by (intro exI[of _ s'] exI[of _ "e0 # new"]) simp
qed

theorem monitoring_sample_count_witness:
  "num_samples (lit_config ex_lit) = 8 \<and> batch_images ex_batch = Inr [[1, 2], [3, 4]]
   \<and> consistency_sampling ex_collab (freeze ex_net) [[0, 1], [10, 11]] [] True True
       = Inl IndexError
   \<and> (\<exists>s' new. sample_and_log_samples ex_collab ex_draw ex_lit ex_batch ex_state = Inr s'
         \<and> trace s' = trace ex_state @ new
         \<and> drawn_counts new = [2, 2, 2] \<and> logged_counts new = [2, 2, 2, 2])"
proof -
  have n: "num_samples (lit_config ex_lit) = 8"
    "length (sampling_sigmas (lit_config ex_lit)) = 3"
    by (simp_all add: ex_lit_def ex_lit_config_def default_LitImprovedConsistencyModelConfig_def)
  have sgs: "sampling_sigmas (lit_config ex_lit)
       = [[80], [80, 661 / 1000], [80, 244 / 10, 584 / 100, 9 / 10, 661 / 1000]]"
    by (simp add: ex_lit_def ex_lit_config_def default_LitImprovedConsistencyModelConfig_def)
  have pos: "0 < num_samples (lit_config ex_lit)"
    by (simp add: n)
  have some: "ex_visible \<noteq> []"
    by (simp add: ex_visible_def)
  have s: "\<forall>sg \<in> set (sampling_sigmas (lit_config ex_lit)).
      \<exists>out. consistency_sampling ex_collab (freeze ex_net)
              (randn_like ex_draw (take (nat (num_samples (lit_config ex_lit))) ex_visible))
              sg True True = Inr out
         \<and> length out = length (take (nat (num_samples (lit_config ex_lit))) ex_visible)"
    by (simp add: n(1) sgs ex_collab_def length_randn_like)
  have empty: "consistency_sampling ex_collab (freeze ex_net) [[0, 1], [10, 11]] [] True True
       = Inl IndexError"
    by (simp add: ex_collab_def)
  from monitoring_sample_count[OF pos ex_batch_parts(2) some ex_state_fields(2) s]
  obtain s' new where
    "sample_and_log_samples ex_collab ex_draw ex_lit ex_batch ex_state = Inr s'"
    "trace s' = trace ex_state @ new"
    "drawn_counts new = replicate 3 (nat (min 8 (int (length ex_visible))))"
    "logged_counts new = replicate (Suc 3) (nat (min 8 (int (length ex_visible))))"
    by (auto simp: n)
  then have "\<exists>s' new. sample_and_log_samples ex_collab ex_draw ex_lit ex_batch ex_state = Inr s'
         \<and> trace s' = trace ex_state @ new
         \<and> drawn_counts new = [2, 2, 2] \<and> logged_counts new = [2, 2, 2, 2]"
    by (intro exI[of _ s'] exI[of _ new]) (simp add: ex_visible_def numeral_3_eq_3)
  then show ?thesis
    using n(1) ex_batch_parts(2) empty by (simp add: ex_visible_def)
qed

lemma monitoring_calls:
  assumes "sample_and_log_samples c draw self batch s = Inr s'"
    and "store s (ema_model self) = Some ema"
  shows "\<exists>noise new. trace s' = trace s @ new
      \<and> sampler_calls new
          = map (sampler_call (ema_model self) noise) (sampling_sigmas (lit_config self))"
proof -
  from assms(1) obtain imgs where imgs: "batch_images batch = Inr imgs"
    by (auto simp: sample_and_log_samples_def bind_err_Inr_iff)
  let ?n = "min (num_samples (lit_config self)) (int (length imgs))"
  let ?noise = "randn_like draw (py_slice_to imgs ?n)"
  define e0 where "e0 = AddImage GroundTruth (clamp_images (py_slice_to imgs ?n)) (global_step s)"
  define s1 where "s1 = emit e0 s"
  have s1: "store s1 = store s" "trace s1 = trace s @ [e0]"
    by (simp_all add: s1_def emit_def)
  from assms(1) imgs
  have loop: "sample_loop c self ?noise (sampling_sigmas (lit_config self)) s1 = Inr s'"
    by (auto simp: sample_and_log_samples_def Let_def s1_def e0_def log_images_Inr
        bind_err_Inr_iff)
  have ema1: "store s1 (ema_model self) = Some ema"
    using assms(2) by (simp add: s1(1))
  from sample_loop_trace[OF loop ema1] obtain new where
    n: "trace s' = trace s1 @ new"
      "sampler_calls new = map (sampler_call (ema_model self) ?noise)
         (sampling_sigmas (lit_config self))"
    by blast
  have "trace s' = trace s @ (e0 # new)"
    by (simp add: n(1) s1(2))
  moreover have "sampler_calls (e0 # new)
      = map (sampler_call (ema_model self) ?noise) (sampling_sigmas (lit_config self))"
    by (simp add: e0_def n(2))
  ultimately show ?thesis by blast
qed

text \<open>
  Claim C1, evaluated at a batch of two visible and two infrared images with the default
  sigma sequences. The sampler is called three times, each time with the EMA network, the
  noise (drawn in the shape of the first images of \<^verbatim>\<open>batch[0]\<close>, the visible ones) and a sigma
  sequence as positional arguments, and with \<^verbatim>\<open>clip_denoised\<close> and \<^verbatim>\<open>verbose\<close>: the infrared
  images, the condition, are not among the arguments.
\<close>

theorem sampler_calls_without_condition:
  "map_sum id (\<lambda>s. sampler_calls (trace s))
      (sample_and_log_samples ex_collab ex_draw ex_lit (BatchList [ex_visible, ex_infrared]) ex_state)
   = Inr [\<lparr> call_args = [ArgModel 1, ArgTensor [[0, 1], [10, 11]], ArgSigmas [80]],
             call_kwargs = [(''clip_denoised'', ArgBool True), (''verbose'', ArgBool True)] \<rparr>,
          \<lparr> call_args = [ArgModel 1, ArgTensor [[0, 1], [10, 11]], ArgSigmas [80, 661 / 1000]],
             call_kwargs = [(''clip_denoised'', ArgBool True), (''verbose'', ArgBool True)] \<rparr>,
          \<lparr> call_args = [ArgModel 1, ArgTensor [[0, 1], [10, 11]],
                         ArgSigmas [80, 244 / 10, 584 / 100, 9 / 10, 661 / 1000]],
             call_kwargs = [(''clip_denoised'', ArgBool True), (''verbose'', ArgBool True)] \<rparr>]"
  by (simp add: sample_and_log_samples_def batch_images_def py_getitem_def ex_lit_def
      ex_lit_config_def default_LitImprovedConsistencyModelConfig_def ex_visible_def
      ex_infrared_def ex_state_def ex_collab_def ex_draw_def py_slice_to_def randn_like_def
      log_images_def clamp_images_def emit_def deref_def Let_def)


section \<open>The training loop: what each operation does to the store and the trace\<close>

lemma deref_Some: "deref s r = Inr net \<longleftrightarrow> store s r = Some net"
  by (simp add: deref_def split: option.splits)

lemma training_step_effect:
  assumes "training_step c self max_steps batch s = Inr (loss, s1)"
  shows "store s1 = store s \<and> global_step s1 = global_step s
     \<and> (\<exists>cl n. trace s1 = trace s @ [ObjectiveCall cl, LogDict loss n])"
  using assms
  by (auto simp: training_step_def bind_err_Inr_iff Let_def emit_def)

lemma optimizer_step_effect:
  assumes "optimizer_step c self s = Inr s1"
  shows "\<exists>net. store s (model self) = Some net
     \<and> store s1 = (store s) (model self \<mapsto> adam_step c net)
     \<and> global_step s1 = global_step s + 1
     \<and> trace s1 = trace s @ [OptimizerStep (model self)]"
  using assms
  by (auto simp: optimizer_step_def bind_err_Inr_iff emit_def deref_Some adam_step_def)

lemma update_ema_model_effect:
  assumes "update_ema_model m e d s = Inr s1"
  shows "\<exists>online shadow. store s m = Some online \<and> store s e = Some shadow
     \<and> store s1 = (store s) (e \<mapsto> ema_network d online shadow)
     \<and> global_step s1 = global_step s
     \<and> trace s1 = trace s @ [EmaUpdate m e d]"
  using assms
  by (auto simp: update_ema_model_def bind_err_Inr_iff emit_def deref_Some)

lemma list_all_replicate_same: "list_all (\<lambda>x. x = a) (map (\<lambda>y. a) ys)"
  by (induction ys) simp_all

lemma sample_and_log_samples_effect:
  assumes "sample_and_log_samples c draw self batch s = Inr s'"
    and "store s (ema_model self) = Some ema"
  shows "store s' = store s \<and> global_step s' = global_step s
     \<and> (\<exists>new. trace s' = trace s @ new \<and> list_all is_monitoring new
           \<and> list_all (\<lambda>seen. seen = state_dict ema) (sampler_views new))"
proof -
  from assms(1) obtain imgs where imgs: "batch_images batch = Inr imgs"
    by (auto simp: sample_and_log_samples_def bind_err_Inr_iff)
  let ?n = "min (num_samples (lit_config self)) (int (length imgs))"
  define e0 where "e0 = AddImage GroundTruth (clamp_images (py_slice_to imgs ?n)) (global_step s)"
  define s1 where "s1 = emit e0 s"
  have s1: "store s1 = store s" "trace s1 = trace s @ [e0]" "global_step s1 = global_step s"
    by (simp_all add: s1_def emit_def)
  from assms(1) imgs
  have "sample_loop c self (randn_like draw (py_slice_to imgs ?n))
      (sampling_sigmas (lit_config self)) s1 = Inr s'"
    by (auto simp: sample_and_log_samples_def Let_def s1_def e0_def log_images_Inr
        bind_err_Inr_iff)
  then have loop: "sample_loop c self (randn_like draw (py_slice_to imgs ?n))
      (sampling_sigmas (lit_config self)) s1 = Inr s'" .
  have ema1: "store s1 (ema_model self) = Some ema"
    using assms(2) by (simp add: s1(1))
  from sample_loop_trace[OF loop ema1] obtain new where
    n: "store s' = store s1" "global_step s' = global_step s1" "trace s' = trace s1 @ new"
      "list_all is_monitoring new"
      "sampler_views new = map (\<lambda>sg. state_dict ema) (sampling_sigmas (lit_config self))"
    by blast
  have "trace s' = trace s @ (e0 # new)"
    by (simp add: n(3) s1(2))
  moreover have "list_all is_monitoring (e0 # new)"
    using n(4) by (simp add: e0_def)
  moreover have "list_all (\<lambda>seen. seen = state_dict ema) (sampler_views (e0 # new))"
    by (simp add: e0_def n(5) list_all_replicate_same)
  moreover have "store s' = store s" "global_step s' = global_step s"
    by (simp_all add: n(1,2) s1)
  ultimately show ?thesis by blast
qed

lemma on_train_batch_end_effect:
  assumes "on_train_batch_end c draw self batch s = Inr s'"
  shows "\<exists>online shadow post. store s (model self) = Some online
     \<and> store s (ema_model self) = Some shadow
     \<and> store s' = (store s) (ema_model self \<mapsto>
                      ema_network (ema_decay_rate (lit_config self)) online shadow)
     \<and> global_step s' = global_step s
     \<and> trace s' = trace s @ [EmaUpdate (model self) (ema_model self)
                                (ema_decay_rate (lit_config self))] @ post
     \<and> list_all is_monitoring post
     \<and> list_all (\<lambda>seen. seen = state_dict
                    (ema_network (ema_decay_rate (lit_config self)) online shadow))
          (sampler_views post)"
proof -
  let ?d = "ema_decay_rate (lit_config self)"
  from assms obtain s1 where
    u: "update_ema_model (model self) (ema_model self) ?d s = Inr s1"
    and r: "(if sample_every_n_steps (lit_config self) = 0 then Inl ZeroDivisionError
             else if (global_step s1 + 1) mod sample_every_n_steps (lit_config self) = 0
                     \<or> global_step s1 = 0
                  then sample_and_log_samples c draw self batch s1
                  else Inr s1) = Inr s'"
    unfolding on_train_batch_end_def bind_err_Inr_iff by blast
  from update_ema_model_effect[OF u] obtain online shadow where
    e: "store s (model self) = Some online" "store s (ema_model self) = Some shadow"
      "store s1 = (store s) (ema_model self \<mapsto> ema_network ?d online shadow)"
      "global_step s1 = global_step s"
      "trace s1 = trace s @ [EmaUpdate (model self) (ema_model self) ?d]"
    by blast
  have nz: "sample_every_n_steps (lit_config self) \<noteq> 0"
    using r by (cases "sample_every_n_steps (lit_config self) = 0") simp_all
  have "sample_and_log_samples c draw self batch s1 = Inr s' \<or> s' = s1"
    using r nz
  proof (cases "(global_step s1 + 1) mod sample_every_n_steps (lit_config self) = 0
                 \<or> global_step s1 = 0")
    case True
    then have "sample_and_log_samples c draw self batch s1 = Inr s'"
      using r nz by (simp only: if_True if_False)
    then show ?thesis ..
  next
    case False
    then have "Inr s1 = (Inr s' :: error + train_state)"
      using r nz by (simp only: if_True if_False)
    then show ?thesis by simp
  qed
  then consider
    (sample) "sample_and_log_samples c draw self batch s1 = Inr s'"
    | (skip) "s' = s1"
    by blast
  then show ?thesis
  proof cases
    case sample
    have "store s1 (ema_model self) = Some (ema_network ?d online shadow)"
      by (simp add: e(3))
    from sample_and_log_samples_effect[OF sample this] obtain new where
      n: "store s' = store s1" "global_step s' = global_step s1" "trace s' = trace s1 @ new"
        "list_all is_monitoring new"
        "list_all (\<lambda>seen. seen = state_dict (ema_network ?d online shadow)) (sampler_views new)"
      by blast
    have "store s' = (store s) (ema_model self \<mapsto> ema_network ?d online shadow)"
      "global_step s' = global_step s"
      "trace s' = trace s @ [EmaUpdate (model self) (ema_model self) ?d] @ new"
      by (simp_all add: n(1,2,3) e(3,4,5))
    with e(1,2) n(4,5) show ?thesis by blast
  next
    case skip
    have "store s' = (store s) (ema_model self \<mapsto> ema_network ?d online shadow)"
      "global_step s' = global_step s"
      "trace s' = trace s @ [EmaUpdate (model self) (ema_model self) ?d] @ []"
      "list_all is_monitoring []"
      "list_all (\<lambda>seen. seen = state_dict (ema_network ?d online shadow)) (sampler_views [])"
      by (simp_all add: skip e(3,4,5))
    with e(1,2) show ?thesis by blast
  qed
qed

text \<open>
  Claim C3. One step of the trainer on a module with two different networks adds, in this
  order: the call of the objective, the logging of the loss, the optimizer step, the EMA
  update, and then only monitoring events (calls of the sampler and logged images). The
  EMA update averages the shadow network with the online network as the optimizer left it,
  and every call of the sampler is given the shadow network in the state that update gave
  it, which is its state at the end of the step.
\<close>

theorem ema_update_between_optimizer_and_sampler:
  assumes "fit_step c draw self max_steps batch s = Inr s'"
    and "model self \<noteq> ema_model self"
  shows "\<exists>cl loss n online shadow post.
      trace s' = trace s @ [ObjectiveCall cl, LogDict loss n, OptimizerStep (model self),
                            EmaUpdate (model self) (ema_model self)
                              (ema_decay_rate (lit_config self))] @ post
      \<and> list_all is_monitoring post
      \<and> store s (model self) = Some online \<and> store s (ema_model self) = Some shadow
      \<and> store s' (model self) = Some (adam_step c online)
      \<and> store s' (ema_model self)
          = Some (ema_network (ema_decay_rate (lit_config self)) (adam_step c online) shadow)
      \<and> list_all (\<lambda>seen. seen = state_dict
                     (ema_network (ema_decay_rate (lit_config self)) (adam_step c online) shadow))
           (sampler_views post)"
proof -
  let ?d = "ema_decay_rate (lit_config self)"
  from assms(1) obtain loss s1 s2 where
    t: "training_step c self max_steps batch s = Inr (loss, s1)"
    and o: "optimizer_step c self s1 = Inr s2"
    and h: "on_train_batch_end c draw self batch s2 = Inr s'"
    by (auto simp: fit_step_def bind_err_Inr_iff)
  from training_step_effect[OF t] obtain cl n where
    t': "store s1 = store s" "trace s1 = trace s @ [ObjectiveCall cl, LogDict loss n]"
    by blast
  from optimizer_step_effect[OF o] obtain online where
    o': "store s1 (model self) = Some online"
      "store s2 = (store s1) (model self \<mapsto> adam_step c online)"
      "trace s2 = trace s1 @ [OptimizerStep (model self)]"
    by blast
  from on_train_batch_end_effect[OF h] obtain online2 shadow post where
    h': "store s2 (model self) = Some online2" "store s2 (ema_model self) = Some shadow"
      "store s' = (store s2) (ema_model self \<mapsto> ema_network ?d online2 shadow)"
      "trace s' = trace s2 @ [EmaUpdate (model self) (ema_model self) ?d] @ post"
      "list_all is_monitoring post"
      "list_all (\<lambda>seen. seen = state_dict (ema_network ?d online2 shadow)) (sampler_views post)"
    by blast
  have on2: "online2 = adam_step c online"
    using h'(1) o'(2) by simp
  have sh: "store s (ema_model self) = Some shadow"
    using h'(2) o'(2) t'(1) assms(2) by (simp split: if_splits)
  have on0: "store s (model self) = Some online"
    using o'(1) by (simp add: t'(1))
  have tr: "trace s' = trace s @ [ObjectiveCall cl, LogDict loss n, OptimizerStep (model self),
      EmaUpdate (model self) (ema_model self) ?d] @ post"
    by (simp add: h'(4) o'(3) t'(2))
  have m': "store s' (model self) = Some (adam_step c online)"
    using assms(2) by (simp add: h'(3) o'(2))
  have e': "store s' (ema_model self) = Some (ema_network ?d (adam_step c online) shadow)"
    by (simp add: h'(3) on2)
  have v: "list_all (\<lambda>seen. seen = state_dict (ema_network ?d (adam_step c online) shadow))
      (sampler_views post)"
    using h'(6) by (simp add: on2)
  from tr h'(5) on0 sh m' e' v show ?thesis by blast
qed

section \<open>The operations return\<close>

lemma run_training_create_returns:
  assumes "UNet_init init1 cfg = Inr net"
  shows "\<exists>self s0. run_training_create init1 init2 cfg lcfg = Inr (self, s0)
      \<and> lit_config self = lcfg"
proof -
  define ema0 where "ema0 = \<lparr> config = cfg, modules = modules net,
      parameters = map (new_parameter init2) (param_specs (modules net)), training = True \<rparr>"
  have e0: "UNet_init init2 cfg = Inr ema0"
    using UNet_init_fields(2)[OF assms] by (simp add: UNet_init_def ema0_def)
  have wf: "wf_UNet net" "wf_UNet ema0"
    using assms e0 by (simp_all add: UNet_init_wf)
  have "modules ema0 = modules net" by (simp add: ema0_def)
  then have "state_dict_matches (parameters ema0) (state_dict net)"
    using wf wf_names_distinct[OF wf(2)]
    by (simp add: state_dict_matches_iff sd_table_state_dict wf_UNet_def)
  from load_state_dict_result[OF this] obtain ema1 where
    "load_state_dict ema0 (state_dict net) = Inr ema1" by blast
  then show ?thesis
    using assms e0
    by (simp add: run_training_create_def new_object_def empty_state_def Let_def
        LitImprovedConsistencyModel_init_def deref_def)
qed

lemma training_step_returns:
  assumes "store s (model self) = Some online"
    and "unpack_batch batch = Inr (v, i)"
    and "consistency_training c online i v (global_step s) max_steps = Inr out"
    and "pseudo_huber_loss c (predicted out) (target out) = Inr l"
    and "mul_images l (loss_weights out) = Inr w"
  shows "\<exists>loss s1. training_step c self max_steps batch s = Inr (loss, s1)"
  using assms by (simp add: training_step_def deref_def Let_def)

lemma optimizer_step_returns:
  "store s (model self) = Some online \<Longrightarrow> \<exists>s1. optimizer_step c self s = Inr s1"
  by (simp add: optimizer_step_def deref_def)

lemma sample_and_log_samples_returns:
  assumes "store s (ema_model self) = Some ema" and "batch_images batch = Inr imgs"
    and "0 < num_samples (lit_config self)" and "imgs \<noteq> []"
    and "\<And>y sg. sg \<in> set (sampling_sigmas (lit_config self)) \<Longrightarrow>
           \<exists>out. consistency_sampling c ema y sg True True = Inr out \<and> length out = length y"
  shows "\<exists>s'. sample_and_log_samples c draw self batch s = Inr s'"
proof -
  let ?n = "min (num_samples (lit_config self)) (int (length imgs))"
  define part where "part = py_slice_to imgs ?n"
  define s1 where "s1 = emit (AddImage GroundTruth (clamp_images part) (global_step s)) s"
  have "part = take (nat (num_samples (lit_config self))) imgs"
    unfolding part_def using assms(3) by (intro py_slice_to_take) simp
  then have some: "part \<noteq> []"
    using assms(3,4) by simp
  have st: "store s1 (ema_model self) = Some ema"
    using assms(1) by (simp add: s1_def emit_def)
  have "\<exists>out. consistency_sampling c ema (randn_like draw part) sg True True = Inr out
      \<and> out \<noteq> []" if "sg \<in> set (sampling_sigmas (lit_config self))" for sg
    using assms(5)[OF that, of "randn_like draw part"] some
    by (auto simp: length_randn_like)
  from sample_loop_returns[OF st this]
  obtain s' where "sample_loop c self (randn_like draw part)
      (sampling_sigmas (lit_config self)) s1 = Inr s'"
    by blast
  then show ?thesis
    using some
    by (simp add: sample_and_log_samples_def assms(2) Let_def part_def[symmetric] s1_def
        log_images_def)
qed

lemma on_train_batch_end_returns:
  assumes "store s (model self) = Some online" and "store s (ema_model self) = Some shadow"
    and "sample_every_n_steps (lit_config self) \<noteq> 0"
    and "batch_images batch = Inr imgs"
    and "0 < num_samples (lit_config self)" and "imgs \<noteq> []"
    and "\<And>net y sg. sg \<in> set (sampling_sigmas (lit_config self)) \<Longrightarrow>
           \<exists>out. consistency_sampling c net y sg True True = Inr out \<and> length out = length y"
  shows "\<exists>s'. on_train_batch_end c draw self batch s = Inr s'"
proof -
  let ?d = "ema_decay_rate (lit_config self)"
  define s1 where "s1 = emit (EmaUpdate (model self) (ema_model self) ?d)
      (s \<lparr> store := (store s) (ema_model self \<mapsto> ema_network ?d online shadow) \<rparr>)"
  have u: "update_ema_model (model self) (ema_model self) ?d s = Inr s1"
    using assms(1,2) by (simp add: update_ema_model_def deref_def s1_def)
  have "store s1 (ema_model self) = Some (ema_network ?d online shadow)"
    by (simp add: s1_def emit_def)
  from sample_and_log_samples_returns[OF this assms(4,5,6) assms(7)]
  obtain s' where "sample_and_log_samples c draw self batch s1 = Inr s'" by blast
  then show ?thesis
    using assms(3) by (simp add: on_train_batch_end_def u)
qed

lemma fit_step_returns:
  assumes "store s (model self) = Some online" and "store s (ema_model self) = Some shadow"
    and "unpack_batch batch = Inr (v, i)"
    and "consistency_training c online i v (global_step s) max_steps = Inr out"
    and "pseudo_huber_loss c (predicted out) (target out) = Inr l"
    and "mul_images l (loss_weights out) = Inr w"
    and "sample_every_n_steps (lit_config self) \<noteq> 0"
    and "batch_images batch = Inr imgs"
    and "0 < num_samples (lit_config self)" and "imgs \<noteq> []"
    and "\<And>net y sg. sg \<in> set (sampling_sigmas (lit_config self)) \<Longrightarrow>
           \<exists>out. consistency_sampling c net y sg True True = Inr out \<and> length out = length y"
  shows "\<exists>s'. fit_step c draw self max_steps batch s = Inr s'"
proof -
  from training_step_returns[OF assms(1,3,4,5,6)] obtain loss s1 where
    t: "training_step c self max_steps batch s = Inr (loss, s1)" by blast
  from training_step_effect[OF t] have st1: "store s1 = store s" by simp
  from optimizer_step_returns[of s1 self online c] assms(1) obtain s2 where
    o: "optimizer_step c self s1 = Inr s2" by (auto simp: st1)
  from optimizer_step_effect[OF o] assms(1,2) st1
  have "\<exists>online2. store s2 (model self) = Some online2"
    "\<exists>shadow2. store s2 (ema_model self) = Some shadow2"
    by auto
  then obtain online2 shadow2 where
    "store s2 (model self) = Some online2" "store s2 (ema_model self) = Some shadow2" by blast
  from on_train_batch_end_returns[OF this assms(7,8,9,10) assms(11)]
  obtain s' where "on_train_batch_end c draw self batch s2 = Inr s'" by blast
  with t o show ?thesis by (simp add: fit_step_def)
qed

lemma ex_sampler:
  assumes "sg \<in> set (sampling_sigmas ex_lit_config)"
  shows "\<exists>out. consistency_sampling ex_collab net y sg True True = Inr out
           \<and> length out = length y"
  using assms
  by (auto simp: ex_collab_def ex_lit_config_def default_LitImprovedConsistencyModelConfig_def)

lemma ex_monitoring:
  "sample_every_n_steps ex_lit_config \<noteq> 0" "0 < num_samples ex_lit_config"
  "ex_visible \<noteq> []"
  by (simp_all add: ex_lit_config_def default_LitImprovedConsistencyModelConfig_def
      ex_visible_def)

lemma ex_fit_step: "fit_step ex_collab ex_draw ex_lit 100 ex_batch ex_state = Inr ex_after"
proof -
  have l: "lit_config ex_lit = ex_lit_config"
    by (simp add: ex_lit_def)
  from fit_step_returns[OF ex_state_fields(1,2) ex_batch_parts(1) ex_collab_results(1,2,4) _
      ex_batch_parts(2), of ex_draw] ex_monitoring ex_sampler
  obtain s' where "fit_step ex_collab ex_draw ex_lit 100 ex_batch ex_state = Inr s'"
    unfolding l by blast
  then show ?thesis by (simp add: ex_after_def)
qed

lemma ex_after_views:
  "sampler_views (trace ex_after)
     = replicate 3 (state_dict (ema_network (99993 / 100000) (adam_step ex_collab ex_net)
                                 (freeze ex_net)))"
proof -
  have "map_sum id (\<lambda>s. sampler_views (trace s))
      (fit_step ex_collab ex_draw ex_lit 100 ex_batch ex_state)
    = Inr (replicate 3 (state_dict (ema_network (99993 / 100000) (adam_step ex_collab ex_net)
                                 (freeze ex_net))))"
    by (simp add: fit_step_def training_step_def optimizer_step_def on_train_batch_end_def
        update_ema_model_def sample_and_log_samples_def batch_images_def py_getitem_def
        ex_lit_def ex_lit_config_def default_LitImprovedConsistencyModelConfig_def
        ex_batch_def ex_visible_def ex_infrared_def ex_state_def ex_collab_def
        py_slice_to_def log_images_def clamp_images_def randn_like_def emit_def deref_def
        Let_def mul_images_def mul_row_def
        broadcast2_def adam_step_def numeral_3_eq_3)
  then show ?thesis by (simp add: ex_fit_step)
qed

theorem ema_update_between_optimizer_and_sampler_witness:
  "fit_step ex_collab ex_draw ex_lit 100 ex_batch ex_state = Inr ex_after
   \<and> model ex_lit \<noteq> ema_model ex_lit
   \<and> (\<exists>cl loss n post.
         trace ex_after = [ObjectiveCall cl, LogDict loss n, OptimizerStep 0,
                           EmaUpdate 0 1 (99993 / 100000)] @ post
         \<and> list_all is_monitoring post
         \<and> sampler_views post
             = replicate 3 (state_dict (ema_network (99993 / 100000)
                                          (adam_step ex_collab ex_net) (freeze ex_net))))
   \<and> store ex_after (ema_model ex_lit)
        = Some (ema_network (99993 / 100000) (adam_step ex_collab ex_net) (freeze ex_net))"
proof -
  have d: "ema_decay_rate (lit_config ex_lit) = 99993 / 100000" "model ex_lit = 0"
    "ema_model ex_lit = 1"
    by (simp_all add: ex_lit_def ex_lit_config_def default_LitImprovedConsistencyModelConfig_def)
  from ema_update_between_optimizer_and_sampler[OF ex_fit_step ex_state_fields(5)]
  obtain cl loss n online shadow post where
    t: "trace ex_after = trace ex_state @ [ObjectiveCall cl, LogDict loss n,
          OptimizerStep (model ex_lit),
          EmaUpdate (model ex_lit) (ema_model ex_lit) (ema_decay_rate (lit_config ex_lit))] @ post"
      "list_all is_monitoring post"
      "store ex_state (model ex_lit) = Some online"
      "store ex_state (ema_model ex_lit) = Some shadow"
      "store ex_after (ema_model ex_lit)
        = Some (ema_network (ema_decay_rate (lit_config ex_lit)) (adam_step ex_collab online)
                  shadow)"
    by blast
  from t(3,4) have os: "online = ex_net" "shadow = freeze ex_net"
    by (simp_all add: ex_state_fields(1,2))
  have tr: "trace ex_after = [ObjectiveCall cl, LogDict loss n, OptimizerStep 0,
      EmaUpdate 0 1 (99993 / 100000)] @ post"
    using t(1) by (simp add: ex_state_fields(4) d)
  have "sampler_views post = sampler_views (trace ex_after)"
    by (simp add: tr)
  then have v: "sampler_views post
      = replicate 3 (state_dict (ema_network (99993 / 100000) (adam_step ex_collab ex_net)
                                   (freeze ex_net)))"
    by (simp only: ex_after_views)
  from tr t(2) v have "\<exists>cl loss n post.
         trace ex_after = [ObjectiveCall cl, LogDict loss n, OptimizerStep 0,
                           EmaUpdate 0 1 (99993 / 100000)] @ post
         \<and> list_all is_monitoring post
         \<and> sampler_views post
             = replicate 3 (state_dict (ema_network (99993 / 100000)
                                          (adam_step ex_collab ex_net) (freeze ex_net)))"
    by blast
  moreover have "store ex_after (ema_model ex_lit)
        = Some (ema_network (99993 / 100000) (adam_step ex_collab ex_net) (freeze ex_net))"
    using t(5) by (simp add: os d(1))
  ultimately show ?thesis
    using ex_fit_step ex_state_fields(5) by blast
qed

section \<open>The EMA network is written by the EMA update only\<close>

lemma frozen_freeze: "frozen (freeze net)"
  by (simp add: frozen_def freeze_def list_all_iff case_prod_unfold)

lemma state_dict_freeze: "state_dict (freeze net) = state_dict net"
  by (simp add: state_dict_def freeze_def case_prod_unfold comp_def)

lemma frozen_ema_network: "frozen shadow \<Longrightarrow> frozen (ema_network d online shadow)"
  by (auto simp: frozen_def ema_network_def list_all_iff split: option.splits)

lemma created:
  assumes "run_training_create init1 init2 unet_config lit_icm_config = Inr (self, s0)"
  shows "\<exists>online shadow. store s0 (model self) = Some online
      \<and> store s0 (ema_model self) = Some shadow
      \<and> model self \<noteq> ema_model self
      \<and> frozen shadow \<and> \<not> training shadow
      \<and> state_dict shadow = state_dict online
      \<and> UNet_init init1 unet_config = Inr online"
proof -
  from assms obtain net ema0 ema1 where
    n: "UNet_init init1 unet_config = Inr net"
    and e0: "UNet_init init2 unet_config = Inr ema0"
    and e1: "load_state_dict ema0 (state_dict net) = Inr ema1"
    and l: "LitImprovedConsistencyModel_init 0 1 lit_icm_config
        \<lparr> store = ((\<lambda>r. None) (0 \<mapsto> net)) (1 \<mapsto> ema1), next_ref = 2, global_step = 0,
          trace = [] \<rparr> = Inr (self, s0)"
    by (auto simp: run_training_create_def bind_err_Inr_iff new_object_def empty_state_def
        Let_def numeral_2_eq_2)
  from l have self: "self = \<lparr> model = 0, ema_model = 1, lit_config = lit_icm_config \<rparr>"
    and s0: "store s0 = (((\<lambda>r. None) (0 \<mapsto> net)) (1 \<mapsto> ema1)) (1 \<mapsto> freeze ema1)"
    by (auto simp: LitImprovedConsistencyModel_init_def deref_def)
  have wf: "wf_UNet net" "wf_UNet ema0"
    using n e0 by (simp_all add: UNet_init_wf)
  have m: "modules ema0 = modules net"
    using UNet_init_fields(2)[OF n] UNet_init_fields(2)[OF e0] by simp
  have names: "map fst (parameters ema0) = map fst (state_dict net)"
    using wf m fst_shape_table[of "parameters ema0"] fst_shape_table[of "parameters net"]
    by (simp add: wf_UNet_def fst_state_dict)
  have ok: "state_dict_matches (parameters ema0) (state_dict net)"
    using wf m wf_names_distinct[OF wf(2)]
    by (simp add: state_dict_matches_iff sd_table_state_dict wf_UNet_def)
  from load_state_dict_result[OF ok] e1
  have "state_dict ema1
      = map (\<lambda>k. (k, the (map_of (state_dict net) k))) (map fst (parameters ema0))"
    by auto
  moreover have "distinct (map fst (state_dict net))"
    using wf_names_distinct[OF wf(1)] by (simp add: fst_state_dict)
  ultimately have sd: "state_dict ema1 = state_dict net"
    using reload_values[of "state_dict net"] by (simp add: names)
  show ?thesis
    apply (rule exI[of _ net])
    apply (rule exI[of _ "freeze ema1"])
    apply (simp add: self s0 frozen_freeze state_dict_freeze sd n)
    apply (simp add: freeze_def)
    done
qed

lemma shadow_keptD:
  assumes "shadow_kept self s"
  obtains online shadow where "store s (model self) = Some online"
    "store s (ema_model self) = Some shadow" "model self \<noteq> ema_model self" "frozen shadow"
  using assms by (auto simp: shadow_kept_def two_networks_def split: option.splits)

lemma shadow_keptI:
  "store s (model self) = Some online \<Longrightarrow> store s (ema_model self) = Some shadow \<Longrightarrow>
     model self \<noteq> ema_model self \<Longrightarrow> frozen shadow \<Longrightarrow> shadow_kept self s"
  by (simp add: shadow_kept_def two_networks_def)

lemma fit_step_shadow:
  assumes "fit_step c draw self max_steps batch s = Inr s'"
    and "store s (model self) = Some online" "store s (ema_model self) = Some shadow"
    and "model self \<noteq> ema_model self"
  shows "store s' (model self) = Some (adam_step c online)"
    and "store s' (ema_model self)
      = Some (ema_network (ema_decay_rate (lit_config self)) (adam_step c online) shadow)"
proof -
  from assms(1) obtain loss s1 s2 where
    t: "training_step c self max_steps batch s = Inr (loss, s1)"
    and o: "optimizer_step c self s1 = Inr s2"
    and h: "on_train_batch_end c draw self batch s2 = Inr s'"
    by (auto simp: fit_step_def bind_err_Inr_iff)
  from training_step_effect[OF t] have s1: "store s1 = store s" by simp
  from optimizer_step_effect[OF o] assms(2)
  have s2: "store s2 = (store s) (model self \<mapsto> adam_step c online)"
    by (auto simp: s1)
  from on_train_batch_end_effect[OF h] obtain online2 shadow2 where
    e: "store s2 (model self) = Some online2" "store s2 (ema_model self) = Some shadow2"
      "store s' = (store s2) (ema_model self \<mapsto>
          ema_network (ema_decay_rate (lit_config self)) online2 shadow2)"
    by blast
  have "online2 = adam_step c online" "shadow2 = shadow"
    using e(1,2) assms(3,4) by (simp_all add: s2)
  then show "store s' (model self) = Some (adam_step c online)"
    and "store s' (ema_model self)
      = Some (ema_network (ema_decay_rate (lit_config self)) (adam_step c online) shadow)"
    using assms(4) by (simp_all add: e(3) s2)
qed

lemma fit_step_kept:
  assumes "fit_step c draw self max_steps batch s = Inr s'" and "shadow_kept self s"
  shows "shadow_kept self s'"
proof -
  from assms(2) obtain online shadow where
    k: "store s (model self) = Some online" "store s (ema_model self) = Some shadow"
      "model self \<noteq> ema_model self" "frozen shadow"
    by (rule shadow_keptD)
  from fit_step_shadow[OF assms(1) k(1,2,3)] k(3) frozen_ema_network[OF k(4)]
  show ?thesis by (intro shadow_keptI) auto
qed

lemma fit_kept:
  "fit c draw self max_steps batches s = Inr s' \<Longrightarrow> shadow_kept self s \<Longrightarrow> shadow_kept self s'"
proof (induction batches arbitrary: s)
  case Nil
  then show ?case by simp
next
  case (Cons batch batches)
  from Cons.prems(1) obtain s1 where
    "fit_step c draw self max_steps batch s = Inr s1"
    "fit c draw self max_steps batches s1 = Inr s'"
    by (auto simp: bind_err_Inr_iff)
  with Cons.IH fit_step_kept Cons.prems(2) show ?case by blast
qed

text \<open>
  Claim C4. \<^verbatim>\<open>run_training\<close> creates two different network objects; when the module is
  created every parameter of the EMA network is frozen, the network is in evaluation mode,
  and its state dict is the one of the online network. In every state the training loop
  reaches from there the EMA network is still frozen, and the objective, the optimizer and
  the monitoring leave it as it is: a step of the loop changes it by the EMA update alone,
  which averages it with the online network the optimizer has just stepped.
\<close>

theorem shadow_written_by_ema_update_only:
  assumes "run_training_create init1 init2 unet_config lit_icm_config = Inr (self, s0)"
  shows "(\<exists>online shadow. store s0 (model self) = Some online
          \<and> store s0 (ema_model self) = Some shadow
          \<and> model self \<noteq> ema_model self
          \<and> frozen shadow \<and> \<not> training shadow
          \<and> state_dict shadow = state_dict online)
     \<and> (\<forall>batches s. fit c draw self max_steps batches s0 = Inr s \<longrightarrow>
          (\<exists>online shadow. store s (model self) = Some online
              \<and> store s (ema_model self) = Some shadow \<and> frozen shadow
              \<and> (\<forall>batch loss s1. training_step c self max_steps batch s = Inr (loss, s1) \<longrightarrow>
                     store s1 (ema_model self) = Some shadow)
              \<and> (\<forall>s1. optimizer_step c self s = Inr s1 \<longrightarrow>
                     store s1 (ema_model self) = Some shadow)
              \<and> (\<forall>batch s1. sample_and_log_samples c draw self batch s = Inr s1 \<longrightarrow>
                     store s1 (ema_model self) = Some shadow)
              \<and> (\<forall>batch s1. fit_step c draw self max_steps batch s = Inr s1 \<longrightarrow>
                     store s1 (ema_model self)
                       = Some (ema_network (ema_decay_rate (lit_config self))
                                 (adam_step c online) shadow))))"
proof -
  from created[OF assms] obtain online0 shadow0 where
    c0: "store s0 (model self) = Some online0" "store s0 (ema_model self) = Some shadow0"
      "model self \<noteq> ema_model self" "frozen shadow0" "\<not> training shadow0"
      "state_dict shadow0 = state_dict online0"
    by blast
  have k0: "shadow_kept self s0"
    using c0 by (intro shadow_keptI)
  have step: "\<exists>online shadow. store s (model self) = Some online
              \<and> store s (ema_model self) = Some shadow \<and> frozen shadow
              \<and> (\<forall>batch loss s1. training_step c self max_steps batch s = Inr (loss, s1) \<longrightarrow>
                     store s1 (ema_model self) = Some shadow)
              \<and> (\<forall>s1. optimizer_step c self s = Inr s1 \<longrightarrow>
                     store s1 (ema_model self) = Some shadow)
              \<and> (\<forall>batch s1. sample_and_log_samples c draw self batch s = Inr s1 \<longrightarrow>
                     store s1 (ema_model self) = Some shadow)
              \<and> (\<forall>batch s1. fit_step c draw self max_steps batch s = Inr s1 \<longrightarrow>
                     store s1 (ema_model self)
                       = Some (ema_network (ema_decay_rate (lit_config self))
                                 (adam_step c online) shadow))"
    if f: "fit c draw self max_steps batches s0 = Inr s" for batches s
  proof -
    from fit_kept[OF f k0] obtain online shadow where
      k: "store s (model self) = Some online" "store s (ema_model self) = Some shadow"
        "model self \<noteq> ema_model self" "frozen shadow"
      by (rule shadow_keptD)
    have t: "store s1 (ema_model self) = Some shadow"
      if "training_step c self max_steps batch s = Inr (loss, s1)" for batch loss s1
      using training_step_effect[OF that] k(2) by simp
    have o: "store s1 (ema_model self) = Some shadow"
      if "optimizer_step c self s = Inr s1" for s1
      using optimizer_step_effect[OF that] k(2,3) by auto
    have m: "store s1 (ema_model self) = Some shadow"
      if "sample_and_log_samples c draw self batch s = Inr s1" for batch s1
      using sample_and_log_samples_effect[OF that k(2)] k(2) by simp
    have e: "store s1 (ema_model self)
        = Some (ema_network (ema_decay_rate (lit_config self)) (adam_step c online) shadow)"
      if "fit_step c draw self max_steps batch s = Inr s1" for batch s1
      using fit_step_shadow(2)[OF that k(1,2,3)] .
    from k(1,2,4) t o m e show ?thesis by blast
  qed
  from c0 step show ?thesis by blast
qed

theorem shadow_written_by_ema_update_only_witness:
  "\<exists>self s0. run_training_create ex_init ex_init' ex_config ex_lit_config = Inr (self, s0)
     \<and> model self \<noteq> ema_model self
     \<and> (\<exists>online shadow. store s0 (model self) = Some online
           \<and> store s0 (ema_model self) = Some shadow
           \<and> frozen shadow \<and> state_dict shadow = state_dict online)
     \<and> (\<exists>s online shadow. fit ex_collab ex_draw self 100 [ex_batch] s0 = Inr s
           \<and> store s0 (model self) = Some online \<and> store s0 (ema_model self) = Some shadow
           \<and> store s (ema_model self)
               = Some (ema_network (99993 / 100000) (adam_step ex_collab online) shadow))"
proof -
  from run_training_create_returns[OF ex_net_init, of ex_init' ex_lit_config]
  obtain self s0 where
    c: "run_training_create ex_init ex_init' ex_config ex_lit_config = Inr (self, s0)"
    and l: "lit_config self = ex_lit_config"
    by blast
  note t = shadow_written_by_ema_update_only[OF c, of ex_collab ex_draw 100]
  from t obtain online shadow where
    o: "store s0 (model self) = Some online" "store s0 (ema_model self) = Some shadow"
      "model self \<noteq> ema_model self" "frozen shadow" "state_dict shadow = state_dict online"
    by blast
  have nz: "sample_every_n_steps (lit_config self) \<noteq> 0"
    and d: "ema_decay_rate (lit_config self) = 99993 / 100000"
    by (simp_all add: l ex_lit_config_def default_LitImprovedConsistencyModelConfig_def)
  from fit_step_returns[OF o(1,2) ex_batch_parts(1) ex_collab_results(1,2,4) nz
      ex_batch_parts(2), of ex_draw] ex_monitoring ex_sampler
  obtain s where s: "fit_step ex_collab ex_draw self 100 ex_batch s0 = Inr s"
    unfolding l by blast
  have f0: "fit ex_collab ex_draw self 100 [] s0 = Inr s0"
    by simp
  from t f0 s o(1,2)
  have "store s (ema_model self)
      = Some (ema_network (ema_decay_rate (lit_config self)) (adam_step ex_collab online) shadow)"
    by (metis option.inject)
  then have "store s (ema_model self)
      = Some (ema_network (99993 / 100000) (adam_step ex_collab online) shadow)"
    by (simp add: d)
  moreover have "fit ex_collab ex_draw self 100 [ex_batch] s0 = Inr s"
    by (simp add: s)
  ultimately show ?thesis
    using c o by blast
qed


section \<open>Further properties of the network\<close>

text \<open>The names under which a network registers its parameters, the keys of its state dict,
  are pairwise distinct, whatever the configuration.\<close>

theorem parameter_names_are_distinct: "distinct (map fst (param_specs m))"
  by (rule param_specs_distinct)

text \<open>The network of the default configuration maps a batch of four images of 128 by 128
  pixels with three channels, with their condition images, to a batch of the same shape.\<close>

theorem default_network_keeps_the_shape:
  "bind_err (UNet_init ex_init default_UNetConfig)
     (\<lambda>net. UNet_forward net [4, 3, 128, 128] [4] [4, 3, 128, 128])
   = Inr [4, 3, 128, 128]"
  by code_simp

text \<open>A configuration written to JSON and read back holds the same values, every tuple
  as a list.\<close>

theorem configuration_survives_json: "config_from_json (config_to_json cfg) = Inr (listified cfg)"
  by (rule config_roundtrip)

end
